theory Spec2Isabelle
  imports Complex_Main
begin

section \<open>Raptor drive-by-wire CAN bridge: data model\<close>

text \<open>
  The development embeds \<^verbatim>\<open>raptor_dbw_can/src/raptor_dbw_can.cpp\<close>. The class
  declaration \<^verbatim>\<open>raptor_dbw_can.hpp\<close> and the message package are absent: their
  enumeration constants and name tables, and the lengths the message definition table
  gives, are collected in the record \<open>hdr\<close>. Every function that reads one of them
  takes the record as its first argument, so the theorems hold for every numbering.
  Identifiers of faults and overrides are natural numbers, as the C enumerations are,
  because the source compares them with \<^verbatim>\<open>NUM_OVERRIDES\<close> and
  \<^verbatim>\<open>NUM_SERIOUS_FAULTS\<close>. Values of type \<^verbatim>\<open>float\<close> and \<^verbatim>\<open>double\<close> are
  real numbers; \<^verbatim>\<open>uint8\<close> message fields are natural numbers (the source does no
  arithmetic on them). A member \<^verbatim>\<open>x_\<close> of the class is the field \<open>x\<close> of
  the state.
\<close>

datatype ListEnables = EN_DBW | EN_DBW_PREV

datatype ListMessageIDs =
    ID_BRAKE_REPORT | ID_ACCEL_PEDAL_REPORT | ID_STEERING_REPORT | ID_GEAR_REPORT
  | ID_REPORT_WHEEL_SPEED | ID_REPORT_WHEEL_POSITION | ID_REPORT_TIRE_PRESSURE
  | ID_REPORT_SURROUND | ID_VIN | ID_REPORT_IMU | ID_REPORT_DRIVER_INPUT
  | ID_MISC_REPORT | ID_LOW_VOLTAGE_SYSTEM_REPORT | ID_BRAKE_2_REPORT
  | ID_STEERING_2_REPORT | ID_FAULT_ACTION_REPORT | ID_OTHER_ACTUATORS_REPORT
  | ID_GPS_REFERENCE_REPORT | ID_GPS_REMAINDER_REPORT | ID_ENGINE_REPORT
  | ID_ARTICULATION_REPORT | ID_DUMP_BED_REPORT | ID_ACTION_REPORT

text \<open>
  Modelled from the spec: the enumeration of the joints of \<^verbatim>\<open>joint_state_\<close> is
  declared in the absent header; the spec gives an ordered set of six joints, four
  wheels and two steer joints, and the constructor names them in this order.
\<close>

datatype joint = JOINT_FL | JOINT_FR | JOINT_RL | JOINT_RR | JOINT_SL | JOINT_SR

datatype severity = INFO | WARN | ERROR

text \<open>
  The places of the source where a throttled log macro stands. The macro keeps the time
  of its last message in a static variable of its own, one for each place.
\<close>

datatype log_site =
    LOG_recvBrakeRpt | LOG_recvAccelPedalRpt | LOG_recvSteeringRpt | LOG_recvGearRpt
  | LOG_enableSystem_fault | LOG_enableSystem_enabled | LOG_enableSystem_failed
  | LOG_disableSystem
  | LOG_setOverride_disabled | LOG_setOverride_enabled
  | LOG_setFault_disabled | LOG_setFault_enabled
  | LOG_faultWatchdog_braking | LOG_faultWatchdog_braking_cleared
  | LOG_faultWatchdog_warning | LOG_faultWatchdog_non_braking

record hdr =
  NUM_OVERRIDES :: nat
  OVR_ACCEL :: nat
  OVR_BRAKE :: nat
  OVR_GEAR :: nat
  OVR_STEER :: nat
  OVR_DUMP_BED :: nat
  OVR_ENGINE :: nat
  OVR_SYSTEM :: "nat \<Rightarrow> string"
  NUM_SERIOUS_FAULTS :: nat
  FAULT_ACCEL :: nat
  FAULT_BRAKE :: nat
  FAULT_STEER :: nat
  FAULT_WATCH :: nat
  FAULT_ACTION :: nat
  FAULT_ARTIC :: nat
  FAULT_DUMP_BED :: nat
  FAULT_ENGINE :: nat
  FAULT_WATCH_BRAKES :: nat
  FAULT_WATCH_WARN :: nat
  FAULT_SYSTEM :: "nat \<Rightarrow> string"
  faultWatchdog_src_default :: nat
  VIN_MUX_VIN0 :: real
  VIN_MUX_VIN1 :: real
  VIN_MUX_VIN2 :: real
  OPEN_LOOP :: nat
  CLOSED_LOOP_ACTUATOR :: nat
  CLOSED_LOOP_VEHICLE :: nat
  ARTICULATION_ANGLE :: nat
  ARTICULATION_NONE :: nat
  DUMP_BED_MODE :: nat
  DUMP_BED_ANGLE :: nat
  DUMP_BED_NONE :: nat
  DUMP_BED_LOWER :: nat
  DUMP_BED_RAISE :: nat
  ENGINE_KEY_SWITCH :: nat
  ENGINE_NONE :: nat
  MESSAGE_ID :: "ListMessageIDs \<Rightarrow> nat"
  GetDlc :: "ListMessageIDs \<Rightarrow> nat"

text \<open>
  \<^verbatim>\<open>builtin_interfaces::msg::Time\<close>: whole seconds and nanoseconds.
  \<open>seconds\<close> is \<^verbatim>\<open>rclcpp::Time::seconds()\<close>.
\<close>

record Time =
  sec :: int
  nanosec :: nat

definition seconds :: "Time \<Rightarrow> real" where
  "seconds t = real_of_int (sec t) + real (nanosec t) / 1000000000"

record JointState =
  stamp :: Time
  name :: "joint \<Rightarrow> string"
  position :: "joint \<Rightarrow> real"
  velocity :: "joint \<Rightarrow> real"
  effort :: "joint \<Rightarrow> real"

text \<open>
  An inbound frame. The signal codec is an external library: \<open>signal f n\<close> is the
  value \<^verbatim>\<open>message->GetSignal(n)->GetResult()\<close> returns once the frame is bound to
  its message with \<^verbatim>\<open>SetFrame\<close>.
\<close>

record Frame =
  can_id :: nat
  is_rtr :: bool
  is_error :: bool
  dlc :: nat
  header_stamp :: Time
  signal :: "string \<Rightarrow> real"

text \<open>
  An outbound frame is what \<^verbatim>\<open>message->GetFrame()\<close> encodes: the name of the message
  and the value of each of its signals at that moment. Two frames of one message with
  the same signal values are the same bytes.
\<close>

type_synonym signals = "string \<Rightarrow> real"

datatype TxFrame = TxFrame (tx_message: string) (tx_signals: signals)

text \<open>A published report: its topic, its time stamp and its fields in assignment order.\<close>

datatype val = B bool | N real | S string

datatype report = Report (topic: string) (report_stamp: Time) (fields: "(string \<times> val) list")

definition field :: "report \<Rightarrow> string \<Rightarrow> val option" where
  "field r n = map_of (fields r) n"

text \<open>
  The object's members, followed by what it has sent so far on each output: the
  outbound CAN topic, the enabled-state topic, the VIN topic, the joint-state topic, the
  report topics, and the log. \<open>dbwDbc\<close> holds the signal values of the message
  objects the codec owns: \<^verbatim>\<open>SetResult\<close> writes one and the value stays until the
  next write. \<open>m_clock\<close> is what the clock of the node reads, in nanoseconds, and
  \<open>last_logged\<close> holds the static variable of each throttled log macro.
\<close>

record state =
  enables :: "ListEnables \<Rightarrow> bool"
  overrides :: "nat \<Rightarrow> bool"
  faults :: "nat \<Rightarrow> bool"
  vin :: string
  joint_state :: JointState
  dbwDbc :: "string \<Rightarrow> signals"
  max_steer_angle :: real
  max_dump_angle :: real
  max_articulation_angle :: real
  acker_wheelbase :: real
  acker_track :: real
  steering_ratio :: real
  frame_id :: string
  m_clock :: int
  last_logged :: "log_site \<Rightarrow> int"
  pub_can :: "TxFrame list"
  pub_sys_enable :: "bool list"
  pub_vin :: "string list"
  pub_joint_states :: "JointState list"
  pub_reports :: "report list"
  logged :: "(severity \<times> string) list"

section \<open>Arbitration engine\<close>

text \<open>
  Modelled from the spec: the inline helper \<^verbatim>\<open>enabled()\<close> is declared in the absent
  header. The spec (4.1) gives \<^verbatim>\<open>isEnabled()\<close> as a pure read of \<^verbatim>\<open>active\<close>, the
  flag the source keeps in \<^verbatim>\<open>enables_[EN_DBW]\<close>.
\<close>

definition enabled :: "state \<Rightarrow> bool" where
  "enabled s = enables s EN_DBW"

text \<open>
  Modelled from the spec: the inline helper \<^verbatim>\<open>fault()\<close> is declared in the absent
  header. The spec (4.1) has it true when any serious fault is currently true; the
  serious faults are the entries from \<^verbatim>\<open>FAULT_ACCEL\<close> up to
  \<^verbatim>\<open>NUM_SERIOUS_FAULTS\<close>, the range \<^verbatim>\<open>enableSystem\<close> walks.
\<close>

definition fault :: "hdr \<Rightarrow> state \<Rightarrow> bool" where
  "fault h s = list_ex (faults s) [FAULT_ACCEL h ..< NUM_SERIOUS_FAULTS h]"

text \<open>
  Modelled from the spec: the inline helper \<^verbatim>\<open>clear()\<close> is declared in the absent
  header. The spec (4.5) has the timer act only while \<^verbatim>\<open>isEnabled()\<close> is false.
\<close>

definition clear :: "state \<Rightarrow> bool" where
  "clear s = (\<not> enabled s)"

text \<open>
  Modelled from the spec: the period \<^verbatim>\<open>CLOCK_1_SEC\<close> of the throttled log macros is
  declared in the absent header. The spec (7) limits these logs to one per second, and
  the joystick header of the repository declares the same name as 1000 milliseconds.
\<close>

definition CLOCK_1_SEC :: int where
  "CLOCK_1_SEC = 1000"

text \<open>
  \<^verbatim>\<open>RCLCPP_INFO_THROTTLE\<close>, \<^verbatim>\<open>RCLCPP_WARN_THROTTLE\<close> and
  \<^verbatim>\<open>RCLCPP_ERROR_THROTTLE\<close> at one place of the source. The macro reads the clock,
  and when the reading is at least the time of the last message of this place plus the
  period (milliseconds, turned into nanoseconds) it writes the message and stores the
  reading; otherwise it writes nothing. The static variable starts at 0. The clock does
  not advance while a callback runs: a callback takes far less than the period.
\<close>

definition log_request :: "log_site \<Rightarrow> severity \<Rightarrow> string \<Rightarrow> state \<Rightarrow> state" where
  "log_request site sev txt s =
     (if last_logged s site + CLOCK_1_SEC * 1000000 \<le> m_clock s
      then s\<lparr>logged := logged s @ [(sev, txt)],
             last_logged := (last_logged s)(site := m_clock s)\<rparr>
      else s)"

definition publishDbwEnabled :: "state \<Rightarrow> bool \<times> state" where
  "publishDbwEnabled s =
     (let en = enabled s;
          change = (enables s EN_DBW_PREV \<noteq> en);
          s1 = (if change then s\<lparr>pub_sys_enable := pub_sys_enable s @ [en]\<rparr> else s)
      in (change, s1\<lparr>enables := (enables s1)(EN_DBW_PREV := en)\<rparr>))"

text \<open>
  The loop of \<^verbatim>\<open>enableSystem\<close> over the fault indices. Every asserted fault calls
  the throttled log macro at the same place of the source, so all of them share one
  static variable.
\<close>

fun log_faults :: "hdr \<Rightarrow> nat list \<Rightarrow> state \<Rightarrow> state" where
  "log_faults h [] s = s"
| "log_faults h (i # is) s =
     log_faults h is
       (if faults s i
        then log_request LOG_enableSystem_fault ERROR (''DBW system disabled - '' @ FAULT_SYSTEM h i @ '' fault.'') s
        else s)"

definition enableSystem :: "hdr \<Rightarrow> state \<Rightarrow> state" where
  "enableSystem h s =
     (if \<not> enables s EN_DBW then
        (if fault h s then log_faults h [FAULT_ACCEL h ..< NUM_SERIOUS_FAULTS h] s
         else
           (let s1 = s\<lparr>enables := (enables s)(EN_DBW := True)\<rparr>;
                (change, s2) = publishDbwEnabled s1
            in if change then log_request LOG_enableSystem_enabled INFO ''DBW system enabled.'' s2
               else log_request LOG_enableSystem_failed WARN ''DBW system failed to enable. Check driver overrides.'' s2))
      else s)"

definition disableSystem :: "state \<Rightarrow> state" where
  "disableSystem s =
     (if enables s EN_DBW then
        (let s1 = s\<lparr>enables := (enables s)(EN_DBW := False)\<rparr>;
             (change, s2) = publishDbwEnabled s1
         in log_request LOG_disableSystem INFO ''DBW system disabled - system disabled.'' s2)
      else s)"

definition setOverride :: "hdr \<Rightarrow> nat \<Rightarrow> bool \<Rightarrow> state \<Rightarrow> state" where
  "setOverride h which_ovr ovr s =
     (if which_ovr < NUM_OVERRIDES h then
        (let en = enabled s;
             s1 = (if ovr \<and> en then s\<lparr>enables := (enables s)(EN_DBW := False)\<rparr> else s);
             s2 = s1\<lparr>overrides := (overrides s1)(which_ovr := ovr)\<rparr>;
             (change, s3) = publishDbwEnabled s2
         in if change then
              (if en then log_request LOG_setOverride_disabled WARN (''DBW system disabled - '' @ OVR_SYSTEM h which_ovr @ '' override'') s3
               else log_request LOG_setOverride_enabled INFO (''DBW system enabled - no '' @ OVR_SYSTEM h which_ovr @ '' override'') s3)
            else s3)
      else s)"

definition setFault :: "hdr \<Rightarrow> nat \<Rightarrow> bool \<Rightarrow> state \<Rightarrow> state" where
  "setFault h which_fault flt s =
     (if which_fault < NUM_SERIOUS_FAULTS h then
        (let en = enabled s;
             s1 = (if flt \<and> en then s\<lparr>enables := (enables s)(EN_DBW := False)\<rparr> else s);
             s2 = s1\<lparr>faults := (faults s1)(which_fault := flt)\<rparr>;
             (change, s3) = publishDbwEnabled s2
         in if change then
              (if en then log_request LOG_setFault_disabled ERROR (''DBW system disabled - '' @ FAULT_SYSTEM h which_fault @ '' fault.'') s3
               else log_request LOG_setFault_enabled INFO (''DBW system enabled - no '' @ FAULT_SYSTEM h which_fault @ '' fault.'') s3)
            else s3)
      else s)"

text \<open>
  \<^verbatim>\<open>faultWatchdog(fault, src, braking)\<close>; \<open>src\<close> is a \<^verbatim>\<open>uint8_t\<close>, true when
  not zero. The writes to the two watchdog entries go to \<^verbatim>\<open>faults\<close> directly.
\<close>

definition faultWatchdog3 :: "hdr \<Rightarrow> bool \<Rightarrow> nat \<Rightarrow> bool \<Rightarrow> state \<Rightarrow> state" where
  "faultWatchdog3 h flt src braking s =
     (let s1 = setFault h (FAULT_WATCH h) flt s;
          s2 = (if braking \<and> \<not> faults s1 (FAULT_WATCH_BRAKES h)
                then log_request LOG_faultWatchdog_braking ERROR ''Watchdog - new braking fault.'' s1
                else if \<not> braking \<and> faults s1 (FAULT_WATCH_BRAKES h)
                then log_request LOG_faultWatchdog_braking_cleared INFO ''Watchdog - braking fault is cleared.'' s1
                else s1);
          s3 = (if flt \<and> src \<noteq> 0 \<and> \<not> faults s2 (FAULT_WATCH_WARN h)
                then (log_request LOG_faultWatchdog_warning WARN ''Watchdog - new fault warning.'' s2)
                       \<lparr>faults := (faults s2)(FAULT_WATCH_WARN h := True)\<rparr>
                else if \<not> flt
                then s2\<lparr>faults := (faults s2)(FAULT_WATCH_WARN h := False)\<rparr>
                else s2);
          s4 = s3\<lparr>faults := (faults s3)(FAULT_WATCH_BRAKES h := braking)\<rparr>
      in if flt \<and> \<not> faults s4 (FAULT_WATCH_BRAKES h) \<and> faults s4 (FAULT_WATCH_WARN h)
         then log_request LOG_faultWatchdog_non_braking ERROR ''Watchdog - new non-braking fault.'' s4
         else s4)"

definition faultWatchdog :: "hdr \<Rightarrow> bool \<Rightarrow> nat \<Rightarrow> state \<Rightarrow> state" where
  "faultWatchdog h flt src s = faultWatchdog3 h flt src (faults s (FAULT_WATCH_BRAKES h)) s"


section \<open>Command encoders\<close>

text \<open>
  The command objects. A field the source tests as a condition is a \<open>bool\<close>, a
  field it compares with a mode constant and the rolling counter are \<open>nat\<close>, and
  every other field is the number \<^verbatim>\<open>SetResult\<close> receives. Field names carry the
  name of their message as a prefix.
\<close>

record BrakeCmd =
  brake_control_type :: nat
  brake_pedal_cmd :: real
  brake_torque_cmd :: real
  brake_decel_limit :: real
  brake_decel_negative_jerk_limit :: real
  brake_enable :: bool
  brake_park_brake_cmd :: real
  brake_rolling_counter :: nat

record AcceleratorPedalCmd =
  accel_control_type :: nat
  accel_pedal_cmd :: real
  accel_torque_cmd :: real
  accel_speed_cmd :: real
  accel_road_slope :: real
  accel_accel_limit :: real
  accel_accel_positive_jerk_limit :: real
  accel_enable :: bool
  accel_ignore :: bool
  accel_rolling_counter :: nat

record SteeringCmd =
  steer_control_type :: nat
  steer_torque_cmd :: real
  steer_angle_cmd :: real
  steer_vehicle_curvature_cmd :: real
  steer_angle_velocity :: real
  steer_enable :: bool
  steer_ignore :: bool
  steer_rolling_counter :: nat

record GearCmd =
  gear_enable :: bool
  gear_cmd :: real
  gear_rolling_counter :: nat

record GlobalEnableCmd =
  global_enable :: bool
  global_enable_joystick_limits :: bool
  global_ecu_build_number :: real
  global_rolling_counter :: nat

record MiscCmd =
  misc_ignition_cmd :: real
  misc_horn_cmd :: real
  misc_diff_lock :: real
  misc_turn_signal_cmd :: real
  misc_high_beam_cmd :: real
  misc_low_beam_cmd :: real
  misc_running_lights :: real
  misc_other_lights :: real
  misc_mode_light_red :: real
  misc_mode_light_yellow :: real
  misc_mode_light_green :: real
  misc_mode_light_blue :: real
  misc_front_wiper_cmd :: real
  misc_rear_wiper_cmd :: real
  misc_door_request_right_rear :: real
  misc_door_request_left_rear :: real
  misc_door_request_lift_gate :: real
  misc_door_lock_cmd :: real
  misc_block_standard_cruise_buttons :: real
  misc_block_adaptive_cruise_buttons :: real
  misc_block_turn_signal_stalk :: real
  misc_rolling_counter :: nat

record ActionCmd =
  action_enable :: bool
  action_vehicle_stop :: real
  action_emergency_brake :: real
  action_rolling_counter :: nat

record ArticulationCmd =
  artic_enable :: bool
  artic_control_type :: nat
  artic_angle_cmd :: real
  artic_ignore_driver :: real
  artic_velocity_limit :: real
  artic_rolling_counter :: nat

record DumpBedCmd =
  dump_enable :: bool
  dump_control_type :: nat
  dump_mode_type :: nat
  dump_lever_pct :: real
  dump_angle_cmd :: real
  dump_ignore_driver :: real
  dump_velocity_limit :: real
  dump_rolling_counter :: nat

record EngineCmd =
  engine_enable :: bool
  engine_control_type :: nat
  engine_mode_type :: nat
  engine_rolling_counter :: nat

text \<open>
  \<open>SetResult m n v\<close> is \<^verbatim>\<open>dbwDbc_.GetMessage(m)->GetSignal(n)->SetResult(v)\<close>;
  \<open>set_signals\<close> runs a sequence of such calls in order, and \<open>publish_frame m\<close> is
  \<^verbatim>\<open>pub_can_->publish(message->GetFrame())\<close>.
\<close>

definition SetResult :: "string \<Rightarrow> string \<Rightarrow> real \<Rightarrow> state \<Rightarrow> state" where
  "SetResult m n v s = s\<lparr>dbwDbc := (dbwDbc s)(m := (dbwDbc s m)(n := v))\<rparr>"

fun set_signals :: "string \<Rightarrow> (string \<times> real) list \<Rightarrow> state \<Rightarrow> state" where
  "set_signals m [] s = s"
| "set_signals m ((n, v) # ws) s = set_signals m ws (SetResult m n v s)"

definition publish_frame :: "string \<Rightarrow> state \<Rightarrow> state" where
  "publish_frame m s = s\<lparr>pub_can := pub_can s @ [TxFrame m (dbwDbc s m)]\<rparr>"

definition zeros :: "string list \<Rightarrow> (string \<times> real) list" where
  "zeros ns = map (\<lambda>n. (n, 0)) ns"

definition of_bool_real :: "bool \<Rightarrow> real" where
  "of_bool_real b = (if b then 1 else 0)"

text \<open>\<^verbatim>\<open>roundf\<close> rounds to the nearest integer, halves away from zero.\<close>

definition roundf :: "real \<Rightarrow> int" where
  "roundf x = (if 0 \<le> x then \<lfloor>x + 1 / 2\<rfloor> else \<lceil>x - 1 / 2\<rceil>)"

text \<open>
  The velocity command of \<^verbatim>\<open>recvSteeringCmd\<close>:
  \<^verbatim>\<open>std::max(1.0F, std::min(254.0F, std::roundf(std::fabs(v) / 2.0F)))\<close>, an integer
  between 1 and 254 that the conversion to \<^verbatim>\<open>uint16_t\<close> keeps as it is.
\<close>

definition vcmd :: "real \<Rightarrow> real" where
  "vcmd v = max 1 (min 254 (real_of_int (roundf (\<bar>v\<bar> / 2))))"

definition brake_zeroed :: "string list" where
  "brake_zeroed =
     [''AKit_BrakePedalReq'', ''AKit_BrakeCtrlEnblReq'', ''AKit_BrakeCtrlReqType'',
      ''AKit_BrakePcntTorqueReq'', ''AKit_SpeedModeDecelLim'', ''AKit_SpeedModeNegJerkLim'',
      ''AKit_ParkingBrkReq'']"

definition recvBrakeCmd :: "hdr \<Rightarrow> BrakeCmd \<Rightarrow> state \<Rightarrow> state" where
  "recvBrakeCmd h msg s =
     publish_frame ''AKit_BrakeRequest''
       (set_signals ''AKit_BrakeRequest''
          (zeros brake_zeroed @
           (if enabled s then
              (if brake_control_type msg = OPEN_LOOP h then
                 [(''AKit_BrakeCtrlReqType'', 0), (''AKit_BrakePedalReq'', brake_pedal_cmd msg)]
               else if brake_control_type msg = CLOSED_LOOP_ACTUATOR h then
                 [(''AKit_BrakeCtrlReqType'', 1), (''AKit_BrakePcntTorqueReq'', brake_torque_cmd msg)]
               else if brake_control_type msg = CLOSED_LOOP_VEHICLE h then
                 [(''AKit_BrakeCtrlReqType'', 2),
                  (''AKit_SpeedModeDecelLim'', brake_decel_limit msg),
                  (''AKit_SpeedModeNegJerkLim'', brake_decel_negative_jerk_limit msg)]
               else [(''AKit_BrakeCtrlReqType'', 0)]) @
              (if brake_enable msg then [(''AKit_BrakeCtrlEnblReq'', 1)] else []) @
              (if brake_control_type msg = OPEN_LOOP h
                  \<or> brake_control_type msg = CLOSED_LOOP_ACTUATOR h
                  \<or> brake_control_type msg = CLOSED_LOOP_VEHICLE h
               then [(''AKit_ParkingBrkReq'', brake_park_brake_cmd msg)] else [])
            else []) @
           [(''AKit_BrakeRollingCntr'', real (brake_rolling_counter msg))])
          s)"

definition accel_zeroed :: "string list" where
  "accel_zeroed =
     [''AKit_AccelPdlReq'', ''AKit_AccelPdlEnblReq'', ''AKit_AccelPdlIgnoreDriverOvrd'',
      ''AKit_AccelPdlRollingCntr'', ''AKit_AccelReqType'', ''AKit_AccelPcntTorqueReq'',
      ''AKit_AccelPdlChecksum'', ''AKit_SpeedReq'', ''AKit_SpeedModeRoadSlope'',
      ''AKit_SpeedModeAccelLim'', ''AKit_SpeedModePosJerkLim'']"

definition recvAcceleratorPedalCmd :: "hdr \<Rightarrow> AcceleratorPedalCmd \<Rightarrow> state \<Rightarrow> state" where
  "recvAcceleratorPedalCmd h msg s =
     publish_frame ''AKit_AccelPdlRequest''
       (set_signals ''AKit_AccelPdlRequest''
          (zeros accel_zeroed @
           (if enabled s then
              (if accel_control_type msg = OPEN_LOOP h then
                 [(''AKit_AccelReqType'', 0), (''AKit_AccelPdlReq'', accel_pedal_cmd msg)]
               else if accel_control_type msg = CLOSED_LOOP_ACTUATOR h then
                 [(''AKit_AccelReqType'', 1), (''AKit_AccelPcntTorqueReq'', accel_torque_cmd msg)]
               else if accel_control_type msg = CLOSED_LOOP_VEHICLE h then
                 [(''AKit_AccelReqType'', 2),
                  (''AKit_SpeedReq'', accel_speed_cmd msg),
                  (''AKit_SpeedModeRoadSlope'', accel_road_slope msg),
                  (''AKit_SpeedModeAccelLim'', accel_accel_limit msg),
                  (''AKit_SpeedModePosJerkLim'', accel_accel_positive_jerk_limit msg)]
               else [(''AKit_AccelReqType'', 0)]) @
              (if accel_enable msg then [(''AKit_AccelPdlEnblReq'', 1)] else [])
            else []) @
           [(''AKit_AccelPdlRollingCntr'', real (accel_rolling_counter msg))] @
           (if accel_ignore msg then [(''AKit_AccelPdlIgnoreDriverOvrd'', 1)] else []))
          s)"

definition steer_zeroed :: "string list" where
  "steer_zeroed =
     [''AKit_SteeringWhlAngleReq'', ''AKit_SteeringWhlAngleVelocityLim'',
      ''AKit_SteerCtrlEnblReq'', ''AKit_SteeringWhlIgnoreDriverOvrd'',
      ''AKit_SteeringWhlPcntTrqReq'', ''AKit_SteeringReqType'',
      ''AKit_SteeringVehCurvatureReq'', ''AKit_SteeringChecksum'']"

definition recvSteeringCmd :: "hdr \<Rightarrow> SteeringCmd \<Rightarrow> state \<Rightarrow> state" where
  "recvSteeringCmd h msg s =
     publish_frame ''AKit_SteeringRequest''
       (set_signals ''AKit_SteeringRequest''
          (zeros steer_zeroed @
           (if enabled s then
              (if steer_control_type msg = OPEN_LOOP h then
                 [(''AKit_SteeringReqType'', 0),
                  (''AKit_SteeringWhlPcntTrqReq'', steer_torque_cmd msg)]
               else if steer_control_type msg = CLOSED_LOOP_ACTUATOR h then
                 [(''AKit_SteeringReqType'', 1),
                  (''AKit_SteeringWhlAngleReq'',
                     max (- 1 * max_steer_angle s) (min (max_steer_angle s * 1) (steer_angle_cmd msg * 1)))]
               else if steer_control_type msg = CLOSED_LOOP_VEHICLE h then
                 [(''AKit_SteeringReqType'', 2),
                  (''AKit_SteeringVehCurvatureReq'', steer_vehicle_curvature_cmd msg)]
               else [(''AKit_SteeringReqType'', 0)]) @
              (if \<bar>steer_angle_velocity msg\<bar> > 0
               then [(''AKit_SteeringWhlAngleVelocityLim'', vcmd (steer_angle_velocity msg))]
               else []) @
              (if steer_enable msg then [(''AKit_SteerCtrlEnblReq'', 1)] else [])
            else []) @
           (if steer_ignore msg then [(''AKit_SteeringWhlIgnoreDriverOvrd'', 1)] else []) @
           [(''AKit_SteerRollingCntr'', real (steer_rolling_counter msg))])
          s)"

definition gear_zeroed :: "string list" where
  "gear_zeroed = [''AKit_PrndCtrlEnblReq'', ''AKit_PrndStateReq'', ''AKit_PrndChecksum'']"

definition recvGearCmd :: "GearCmd \<Rightarrow> state \<Rightarrow> state" where
  "recvGearCmd msg s =
     publish_frame ''AKit_PrndRequest''
       (set_signals ''AKit_PrndRequest''
          (zeros gear_zeroed @
           (if enabled s then
              (if gear_enable msg then [(''AKit_PrndCtrlEnblReq'', 1)] else []) @
              [(''AKit_PrndStateReq'', gear_cmd msg)]
            else []) @
           [(''AKit_PrndRollingCntr'', real (gear_rolling_counter msg))])
          s)"

definition global_zeroed :: "string list" where
  "global_zeroed =
     [''AKit_GlobalEnblRollingCntr'', ''AKit_GlobalByWireEnblReq'', ''AKit_EnblJoystickLimits'',
      ''AKit_SoftwareBuildNumber'', ''AKit_GlobalEnblChecksum'']"

definition recvGlobalEnableCmd :: "GlobalEnableCmd \<Rightarrow> state \<Rightarrow> state" where
  "recvGlobalEnableCmd msg s =
     publish_frame ''AKit_GlobalEnbl''
       (set_signals ''AKit_GlobalEnbl''
          (zeros global_zeroed @
           (if enabled s then
              (if global_enable msg then [(''AKit_GlobalByWireEnblReq'', 1)] else []) @
              (if global_enable_joystick_limits msg then [(''AKit_EnblJoystickLimits'', 1)] else []) @
              [(''AKit_SoftwareBuildNumber'', global_ecu_build_number msg)]
            else []) @
           [(''AKit_GlobalEnblRollingCntr'', real (global_rolling_counter msg))])
          s)"

definition misc_zeroed :: "string list" where
  "misc_zeroed =
     [''AKit_TurnSignalReq'', ''AKit_RightRearDoorReq'', ''AKit_HighBeamReq'',
      ''AKit_FrontWiperReq'', ''AKit_RearWiperReq'', ''AKit_IgnitionReq'',
      ''AKit_LeftRearDoorReq'', ''AKit_LiftgateDoorReq'', ''AKit_BlockBasicCruiseCtrlBtns'',
      ''AKit_BlockAdapCruiseCtrlBtns'', ''AKit_BlockTurnSigStalkInpts'', ''AKit_OtherChecksum'',
      ''AKit_HornReq'', ''AKit_LowBeamReq'', ''AKit_DoorLockReq'', ''AKit_RunningLightsReq'',
      ''AKit_OtherLightsReq'', ''AKit_ModeLight_Red'', ''AKit_ModeLight_Yellow'',
      ''AKit_ModeLight_Green'', ''AKit_ModeLight_Blue'', ''AKit_DiffLock'']"

definition recvMiscCmd :: "MiscCmd \<Rightarrow> state \<Rightarrow> state" where
  "recvMiscCmd msg s =
     publish_frame ''AKit_OtherActuators''
       (set_signals ''AKit_OtherActuators''
          (zeros misc_zeroed @
           (if enabled s then
              [(''AKit_IgnitionReq'', misc_ignition_cmd msg),
               (''AKit_HornReq'', misc_horn_cmd msg),
               (''AKit_DiffLock'', misc_diff_lock msg),
               (''AKit_TurnSignalReq'', misc_turn_signal_cmd msg),
               (''AKit_HighBeamReq'', misc_high_beam_cmd msg),
               (''AKit_LowBeamReq'', misc_low_beam_cmd msg),
               (''AKit_RunningLightsReq'', misc_running_lights msg),
               (''AKit_OtherLightsReq'', misc_other_lights msg),
               (''AKit_ModeLight_Red'', misc_mode_light_red msg),
               (''AKit_ModeLight_Yellow'', misc_mode_light_yellow msg),
               (''AKit_ModeLight_Green'', misc_mode_light_green msg),
               (''AKit_ModeLight_Blue'', misc_mode_light_blue msg),
               (''AKit_FrontWiperReq'', misc_front_wiper_cmd msg),
               (''AKit_RearWiperReq'', misc_rear_wiper_cmd msg),
               (''AKit_RightRearDoorReq'', misc_door_request_right_rear msg),
               (''AKit_LeftRearDoorReq'', misc_door_request_left_rear msg),
               (''AKit_LiftgateDoorReq'', misc_door_request_lift_gate msg),
               (''AKit_DoorLockReq'', misc_door_lock_cmd msg),
               (''AKit_BlockBasicCruiseCtrlBtns'', misc_block_standard_cruise_buttons msg),
               (''AKit_BlockAdapCruiseCtrlBtns'', misc_block_adaptive_cruise_buttons msg),
               (''AKit_BlockTurnSigStalkInpts'', misc_block_turn_signal_stalk msg)]
            else []) @
           [(''AKit_OtherRollingCntr'', real (misc_rolling_counter msg))])
          s)"

definition action_zeroed :: "string list" where
  "action_zeroed =
     [''AKit_ActionChecksum'', ''AKit_ActionCtrlEnblReq'', ''AKit_ActionVehStopReq'',
      ''AKit_ActionEmergencyBrkReq'']"

definition recvActionCmd :: "ActionCmd \<Rightarrow> state \<Rightarrow> state" where
  "recvActionCmd msg s =
     publish_frame ''AKit_ActionRequest''
       (set_signals ''AKit_ActionRequest''
          (zeros action_zeroed @
           (if enabled s \<and> action_enable msg then
              [(''AKit_ActionCtrlEnblReq'', of_bool_real (action_enable msg)),
               (''AKit_ActionVehStopReq'', action_vehicle_stop msg),
               (''AKit_ActionEmergencyBrkReq'', action_emergency_brake msg)]
            else []) @
           [(''AKit_ActionRollingCntr'', real (action_rolling_counter msg))])
          s)"

definition artic_zeroed :: "string list" where
  "artic_zeroed =
     [''AKit_ArticulationChecksum'', ''AKit_ArticulationCtrlEnblReq'',
      ''AKit_ArticulationReqType'', ''AKit_ArticulationAngleReq'',
      ''AKit_ArticulationIgnoreDrvrOvrd'', ''AKit_ArticulationVelocityLimit'']"

definition recvArticulationCmd :: "hdr \<Rightarrow> ArticulationCmd \<Rightarrow> state \<Rightarrow> state" where
  "recvArticulationCmd h msg s =
     publish_frame ''AKit_ArticulationRequest''
       (set_signals ''AKit_ArticulationRequest''
          (zeros artic_zeroed @
           (if enabled s \<and> artic_enable msg then
              (if artic_control_type msg = ARTICULATION_ANGLE h then
                 [(''AKit_ArticulationReqType'', real (artic_control_type msg)),
                  (''AKit_ArticulationAngleReq'',
                     max (- 1 * max_articulation_angle s)
                         (min (max_articulation_angle s * 1) (artic_angle_cmd msg * 1)))]
               else [(''AKit_ArticulationReqType'', real (ARTICULATION_NONE h))]) @
              [(''AKit_ArticulationCtrlEnblReq'', of_bool_real (artic_enable msg)),
               (''AKit_ArticulationIgnoreDrvrOvrd'', artic_ignore_driver msg),
               (''AKit_ArticulationVelocityLimit'', artic_velocity_limit msg)]
            else []) @
           [(''AKit_ArticulationRollingCntr'', real (artic_rolling_counter msg))])
          s)"

definition dump_zeroed :: "string list" where
  "dump_zeroed =
     [''AKit_DumpBedChecksum'', ''AKit_DumpBedCtrlEnblReq'', ''AKit_DumpBedReqType'',
      ''AKit_DumpBedModeReq'', ''AKit_DumpBedLeverPercentReq'', ''AKit_DumpBedAnglReq'',
      ''AKit_DumpBedIgnoreDriverOrvd'', ''AKit_DumpBedVelocityLimit'']"

definition recvDumpBedCmd :: "hdr \<Rightarrow> DumpBedCmd \<Rightarrow> state \<Rightarrow> state" where
  "recvDumpBedCmd h msg s =
     publish_frame ''AKit_DumpBedRequest''
       (set_signals ''AKit_DumpBedRequest''
          (zeros dump_zeroed @
           (if enabled s \<and> dump_enable msg then
              (if dump_control_type msg = DUMP_BED_MODE h then
                 [(''AKit_DumpBedReqType'', real (dump_control_type msg)),
                  (''AKit_DumpBedModeReq'', real (dump_mode_type msg))] @
                 (if dump_mode_type msg = DUMP_BED_LOWER h \<or> dump_mode_type msg = DUMP_BED_RAISE h
                  then [(''AKit_DumpBedLeverPercentReq'', dump_lever_pct msg)] else [])
               else if dump_control_type msg = DUMP_BED_ANGLE h then
                 [(''AKit_DumpBedReqType'', real (dump_control_type msg)),
                  (''AKit_DumpBedAnglReq'',
                     max 0 (min (max_dump_angle s * 1) (dump_angle_cmd msg * 1)))]
               else [(''AKit_DumpBedReqType'', real (DUMP_BED_NONE h))]) @
              [(''AKit_DumpBedCtrlEnblReq'', of_bool_real (dump_enable msg)),
               (''AKit_DumpBedIgnoreDriverOrvd'', dump_ignore_driver msg),
               (''AKit_DumpBedVelocityLimit'', dump_velocity_limit msg)]
            else []) @
           [(''AKit_DumpBedRollingCntr'', real (dump_rolling_counter msg))])
          s)"

definition engine_zeroed :: "string list" where
  "engine_zeroed =
     [''AKit_EngineChecksum'', ''AKit_EngineCtrlEnblReq'', ''AKit_EngineModeReq'',
      ''AKit_EngineReqType'']"

definition recvEngineCmd :: "hdr \<Rightarrow> EngineCmd \<Rightarrow> state \<Rightarrow> state" where
  "recvEngineCmd h msg s =
     publish_frame ''AKit_EngineRequest''
       (set_signals ''AKit_EngineRequest''
          (zeros engine_zeroed @
           (if enabled s \<and> engine_enable msg then
              (if engine_control_type msg = ENGINE_KEY_SWITCH h then
                 [(''AKit_EngineReqType'', real (engine_control_type msg)),
                  (''AKit_EngineModeReq'', real (engine_mode_type msg))]
               else [(''AKit_EngineReqType'', real (ENGINE_NONE h))]) @
              [(''AKit_EngineCtrlEnblReq'', of_bool_real (engine_enable msg))]
            else []) @
           [(''AKit_EngineRollingCntr'', real (engine_rolling_counter msg))])
          s)"

text \<open>
  The neutral encoding of a message: every signal of the encoder's zero list is set to
  0, then the signals that are copied from the command whatever the state (the rolling
  counter, an ignore flag) are written, and the frame is sent.
\<close>

definition neutral_frame :: "string \<Rightarrow> string list \<Rightarrow> (string \<times> real) list \<Rightarrow> state \<Rightarrow> state" where
  "neutral_frame m zs copied s = publish_frame m (set_signals m (zeros zs @ copied) s)"

text \<open>The frame sent last on the outbound CAN topic, and one of its signals.\<close>

definition last_frame :: "state \<Rightarrow> TxFrame" where
  "last_frame s = last (pub_can s)"

definition sent :: "state \<Rightarrow> string \<Rightarrow> real" where
  "sent s n = tx_signals (last_frame s) n"

section \<open>Fail-safe timer\<close>

definition timer_frame :: "bool \<Rightarrow> string \<Rightarrow> string list \<Rightarrow> state \<Rightarrow> state" where
  "timer_frame ovr m ns s = (if ovr then publish_frame m (set_signals m (zeros ns) s) else s)"

definition timerCallback :: "hdr \<Rightarrow> state \<Rightarrow> state" where
  "timerCallback h s =
     (if clear s then
        (let s1 = timer_frame (overrides s (OVR_BRAKE h)) ''AKit_BrakeRequest''
                    [''AKit_BrakePedalReq'', ''AKit_BrakeCtrlEnblReq''] s;
             s2 = timer_frame (overrides s1 (OVR_ACCEL h)) ''AKit_AccelPdlRequest''
                    [''AKit_AccelPdlReq'', ''AKit_AccelPdlEnblReq'',
                     ''AKit_AccelPdlIgnoreDriverOvrd''] s1;
             s3 = timer_frame (overrides s2 (OVR_STEER h)) ''AKit_SteeringRequest''
                    [''AKit_SteeringWhlAngleReq'', ''AKit_SteeringWhlAngleVelocityLim'',
                     ''AKit_SteeringWhlIgnoreDriverOvrd'', ''AKit_SteeringWhlPcntTrqReq''] s2;
             s4 = timer_frame (overrides s3 (OVR_GEAR h)) ''AKit_GearRequest''
                    [''AKit_PrndStateCmd'', ''AKit_PrndChecksum''] s3;
             s5 = timer_frame (overrides s4 (OVR_DUMP_BED h)) ''AKit_DumpBedRequest''
                    [''AKit_DumpBedChecksum'', ''AKit_DumpBedCtrlEnblReq'', ''AKit_DumpBedReqType'',
                     ''AKit_DumpBedModeReq'', ''AKit_DumpBedLeverPercentReq'',
                     ''AKit_DumpBedAnglReq'', ''AKit_DumpBedIgnoreDriverOrvd'',
                     ''AKit_DumpBedVelocityLimit''] s4;
             s6 = timer_frame (overrides s5 (OVR_ENGINE h)) ''AKit_EngineRequest''
                    [''AKit_EngineChecksum'', ''AKit_EngineCtrlEnblReq'', ''AKit_EngineModeReq'',
                     ''AKit_EngineReqType''] s5
         in s6)
      else s)"


section \<open>Kinematics projector\<close>

text \<open>
  \<^verbatim>\<open>fmod(x, y)\<close> is the remainder of the division truncated towards zero: it has
  the sign of \<open>x\<close>.
\<close>

definition trunc :: "real \<Rightarrow> int" where
  "trunc x = (if 0 \<le> x then \<lfloor>x\<rfloor> else \<lceil>x\<rceil>)"

definition fmod :: "real \<Rightarrow> real \<Rightarrow> real" where
  "fmod x y = x - real_of_int (trunc (x / y)) * y"

record WheelSpeedReport =
  front_left :: real
  front_right :: real
  rear_left :: real
  rear_right :: real

text \<open>The loop \<^verbatim>\<open>for (i = JOINT_FL; i <= JOINT_RR; i++)\<close> over the wheel joints.\<close>

fun integrate :: "real \<Rightarrow> joint list \<Rightarrow> JointState \<Rightarrow> JointState" where
  "integrate dt [] js = js"
| "integrate dt (i # is) js =
     integrate dt is
       (js\<lparr>position := (position js)(i := fmod (position js i + dt * velocity js i) (2 * pi))\<rparr>)"

definition wheel_joints :: "joint list" where
  "wheel_joints = [JOINT_FL, JOINT_FR, JOINT_RL, JOINT_RR]"

text \<open>
  \<^verbatim>\<open>dt = stamp.seconds() - joint_state_.header.stamp.sec\<close>: the new time in seconds
  minus the whole seconds of the stored stamp.
\<close>

definition joint_dt :: "Time \<Rightarrow> JointState \<Rightarrow> real" where
  "joint_dt t js = seconds t - real_of_int (sec (stamp js))"

definition publish_joint_state :: "JointState \<Rightarrow> state \<Rightarrow> state" where
  "publish_joint_state js s = s\<lparr>joint_state := js, pub_joint_states := pub_joint_states s @ [js]\<rparr>"

definition publishJointStates_wheels :: "Time \<Rightarrow> WheelSpeedReport \<Rightarrow> state \<Rightarrow> state" where
  "publishJointStates_wheels t wheels s =
     (let js = joint_state s;
          dt = joint_dt t js;
          js1 = js\<lparr>velocity := (velocity js)
                  (JOINT_FL := front_left wheels, JOINT_FR := front_right wheels,
                   JOINT_RL := rear_left wheels, JOINT_RR := rear_right wheels)\<rparr>;
          js2 = (if dt < 0.5 then integrate dt wheel_joints js1 else js1);
          js3 = js2\<lparr>stamp := t\<rparr>
      in publish_joint_state js3 s)"

text \<open>
  \<^verbatim>\<open>atan(L / d)\<close> on IEEE numbers: a zero denominator gives an infinite quotient and
  a right angle, where the division of HOL gives 0. (With \<open>L = 0\<close> as well the source
  computes a NaN; the model has 0 there.) A zero tangent gives an infinite radius and
  both angles 0.
\<close>

definition atan_div :: "real \<Rightarrow> real \<Rightarrow> real" where
  "atan_div L d = (if d = 0 then sgn L * pi / 2 else arctan (L / d))"

definition publishJointStates_steering :: "Time \<Rightarrow> real \<Rightarrow> state \<Rightarrow> state" where
  "publishJointStates_steering t steering_wheel_angle s =
     (let js = joint_state s;
          dt = joint_dt t js;
          L = acker_wheelbase s;
          W = acker_track s;
          tn = tan (steering_wheel_angle / steering_ratio s);
          js1 = (if tn = 0
                 then js\<lparr>position := (position js)(JOINT_SL := 0, JOINT_SR := 0)\<rparr>
                 else js\<lparr>position := (position js)
                         (JOINT_SL := atan_div L (L / tn - W / 2),
                          JOINT_SR := atan_div L (L / tn + W / 2))\<rparr>);
          js2 = (if dt < 0.5 then integrate dt wheel_joints js1 else js1);
          js3 = js2\<lparr>stamp := t\<rparr>
      in publish_joint_state js3 s)"

section \<open>Report decoders\<close>

text \<open>
  \<open>bool_of\<close> is the conversion of a signal value to \<^verbatim>\<open>bool\<close>
  (\<^verbatim>\<open>GetResult() ? true : false\<close>). A report field the source assigns without
  that conversion keeps the signal's number. Every decoder starts with the length
  check of the source.
\<close>

definition bool_of :: "real \<Rightarrow> bool" where
  "bool_of x = (x \<noteq> 0)"

definition publish_report :: "report \<Rightarrow> state \<Rightarrow> state" where
  "publish_report r s = s\<lparr>pub_reports := pub_reports s @ [r]\<rparr>"

definition recvBrakeRpt :: "hdr \<Rightarrow> Frame \<Rightarrow> state \<Rightarrow> state" where
  "recvBrakeRpt h msg s =
     (if dlc msg \<ge> GetDlc h ID_BRAKE_REPORT then
        (let g = signal msg;
             brakeSystemFault = bool_of (g ''DBW_BrakeFault'');
             dbwSystemFault = brakeSystemFault;
             driverActivity = bool_of (g ''DBW_BrakeDriverActivity'');
             s1 = setFault h (FAULT_BRAKE h) brakeSystemFault s;
             s2 = faultWatchdog h dbwSystemFault (if brakeSystemFault then 1 else 0) s1;
             s3 = setOverride h (OVR_BRAKE h) driverActivity s2;
             s4 = publish_report
                    (Report ''brake_report'' (header_stamp msg)
                    [(''fault_brake_system'', B (bool_of (g ''DBW_BrakeFault''))),
                     (''pedal_position'', N (g ''DBW_BrakePdlDriverInput'')),
                     (''pedal_output'', N (g ''DBW_BrakePdlPosnFdbck'')),
                     (''enabled'', B (bool_of (g ''DBW_BrakeEnabled''))),
                     (''driver_activity'', B driverActivity),
                     (''rolling_counter'', N (g ''DBW_BrakeRollingCntr'')),
                     (''brake_torque_actual'', N (g ''DBW_BrakePcntTorqueActual'')),
                     (''intervention_active'', B (bool_of (g ''DBW_BrakeInterventionActv''))),
                     (''intervention_ready'', B (bool_of (g ''DBW_BrakeInterventionReady''))),
                     (''parking_brake.status'', N (g ''DBW_BrakeParkingBrkStatus'')),
                     (''control_type.value'', N (g ''DBW_BrakeCtrlType''))])
                    s3
         in if brakeSystemFault
            then log_request LOG_recvBrakeRpt WARN ''Brake report received a system fault.'' s4
            else s4)
      else s)"

text \<open>
  The report object \<^verbatim>\<open>accelPedalReprt\<close> that \<^verbatim>\<open>recvAccelPedalRpt\<close> fills in and
  publishes; its three fault fields are the variables \<^verbatim>\<open>accelPdlSystemFault\<close>,
  \<^verbatim>\<open>faultCh1\<close> and \<^verbatim>\<open>faultCh2\<close>.
\<close>

definition accelPedalReprt :: "Frame \<Rightarrow> report" where
  "accelPedalReprt msg =
     (let g = signal msg
      in Report ''accelerator_pedal_report'' (header_stamp msg)
        [(''pedal_input'', N (g ''DBW_AccelPdlDriverInput'')),
         (''pedal_output'', N (g ''DBW_AccelPdlPosnFdbck'')),
         (''enabled'', B (bool_of (g ''DBW_AccelPdlEnabled''))),
         (''ignore_driver'', B (bool_of (g ''DBW_AccelPdlIgnoreDriver''))),
         (''driver_activity'', B (bool_of (g ''DBW_AccelPdlDriverActivity''))),
         (''torque_actual'', N (g ''DBW_AccelPcntTorqueActual'')),
         (''control_type.value'', N (g ''DBW_AccelCtrlType'')),
         (''rolling_counter'', N (g ''DBW_AccelPdlRollingCntr'')),
         (''fault_accel_pedal_system'', B (bool_of (g ''DBW_AccelPdlFault''))),
         (''fault_ch1'', B (bool_of (g ''DBW_AccelPdlFault_Ch1''))),
         (''fault_ch2'', B (bool_of (g ''DBW_AccelPdlFault_Ch2'')))])"

definition recvAccelPedalRpt :: "hdr \<Rightarrow> Frame \<Rightarrow> state \<Rightarrow> state" where
  "recvAccelPedalRpt h msg s =
     (if dlc msg \<ge> GetDlc h ID_ACCEL_PEDAL_REPORT then
        (let g = signal msg;
             faultCh1 = bool_of (g ''DBW_AccelPdlFault_Ch1'');
             faultCh2 = bool_of (g ''DBW_AccelPdlFault_Ch2'');
             accelPdlSystemFault = bool_of (g ''DBW_AccelPdlFault'');
             dbwSystemFault = accelPdlSystemFault;
             s1 = setFault h (FAULT_ACCEL h) (faultCh1 \<and> faultCh2) s;
             s2 = faultWatchdog h dbwSystemFault (if accelPdlSystemFault then 1 else 0) s1;
             s3 = setOverride h (OVR_ACCEL h) (bool_of (g ''DBW_AccelPdlDriverActivity'')) s2;
             s4 = publish_report (accelPedalReprt msg) s3
         in if faultCh1 \<or> faultCh2
            then log_request LOG_recvAccelPedalRpt WARN ''Acclerator pedal report received a system fault.'' s4
            else s4)
      else s)"

text \<open>
  \<^verbatim>\<open>recvSteeringRpt\<close> calls \<^verbatim>\<open>faultWatchdog(dbwSystemFault)\<close> with one argument:
  the second is the default the absent header declares, \<open>faultWatchdog_src_default\<close>.
\<close>

definition recvSteeringRpt :: "hdr \<Rightarrow> Frame \<Rightarrow> state \<Rightarrow> state" where
  "recvSteeringRpt h msg s =
     (if dlc msg \<ge> GetDlc h ID_STEERING_REPORT then
        (let g = signal msg;
             steeringSystemFault = bool_of (g ''DBW_SteeringFault'');
             dbwSystemFault = steeringSystemFault;
             driverActivity = bool_of (g ''DBW_SteeringDriverActivity'');
             s1 = setFault h (FAULT_STEER h) steeringSystemFault s;
             s2 = faultWatchdog h dbwSystemFault (faultWatchdog_src_default h) s1;
             s3 = setOverride h (OVR_STEER h) driverActivity s2;
             s4 = publish_report
                    (Report ''steering_report'' (header_stamp msg)
                    [(''steering_wheel_angle'', N (g ''DBW_SteeringWhlAngleAct'')),
                     (''steering_wheel_angle_cmd'', N (g ''DBW_SteeringWhlAngleDes'')),
                     (''steering_wheel_torque'', N (g ''DBW_SteeringWhlPcntTrqCmd'' * 0.0625)),
                     (''enabled'', B (bool_of (g ''DBW_SteeringEnabled''))),
                     (''driver_activity'', B driverActivity),
                     (''rolling_counter'', N (g ''DBW_SteeringRollingCntr'')),
                     (''control_type.value'', N (g ''DBW_SteeringCtrlType'')),
                     (''overheat_prevention_mode'', B (bool_of (g ''DBW_OverheatPreventMode''))),
                     (''steering_overheat_warning'', B (bool_of (g ''DBW_SteeringOverheatWarning''))),
                     (''fault_steering_system'', B steeringSystemFault)])
                    s3;
             s5 = publishJointStates_steering (header_stamp msg) (g ''DBW_SteeringWhlAngleAct'') s4
         in if steeringSystemFault
            then log_request LOG_recvSteeringRpt WARN ''Steering report received a system fault.'' s5
            else s5)
      else s)"

definition recvGearRpt :: "hdr \<Rightarrow> Frame \<Rightarrow> state \<Rightarrow> state" where
  "recvGearRpt h msg s =
     (if dlc msg \<ge> 1 then
        (let g = signal msg;
             driverActivity = bool_of (g ''DBW_PrndDriverActivity'');
             s1 = setOverride h (OVR_GEAR h) driverActivity s;
             s2 = (if bool_of (g ''DBW_PrndMismatchFlash'')
                   then log_request LOG_recvGearRpt ERROR
                          (''ERROR - shift lever is in Park, but transmission is in Drive.''
                           @ '' Please adjust the shift lever.'') s1
                   else s1)
         in publish_report
              (Report ''gear_report'' (header_stamp msg)
                    [(''enabled'', B (bool_of (g ''DBW_PrndCtrlEnabled''))),
                     (''state_actual.gear'', N (g ''DBW_PrndStateActual'')),
                     (''state_desired.gear'', N (g ''DBW_PrndStateDes'')),
                     (''driver_activity'', B driverActivity),
                     (''gear_select_system_fault'', B (bool_of (g ''DBW_PrndFault''))),
                     (''reject'', B (bool_of (g ''DBW_PrndStateReject''))),
                     (''gear_mismatch_flash'', B (bool_of (g ''DBW_PrndMismatchFlash''))),
                     (''rolling_counter'', N (g ''DBW_PrndRollingCntr''))])
              s2)
      else s)"

definition recvWheelSpeedRpt :: "hdr \<Rightarrow> Frame \<Rightarrow> state \<Rightarrow> state" where
  "recvWheelSpeedRpt h msg s =
     (if dlc msg \<ge> GetDlc h ID_REPORT_WHEEL_SPEED then
        (let g = signal msg;
             out = \<lparr>front_left = g ''DBW_WhlSpd_FL'', front_right = g ''DBW_WhlSpd_FR'',
                    rear_left = g ''DBW_WhlSpd_RL'', rear_right = g ''DBW_WhlSpd_RR''\<rparr>;
             s1 = publish_report
                    (Report ''wheel_speed_report'' (header_stamp msg)
                    [(''front_left'', N (g ''DBW_WhlSpd_FL'')),
                     (''front_right'', N (g ''DBW_WhlSpd_FR'')),
                     (''rear_left'', N (g ''DBW_WhlSpd_RL'')),
                     (''rear_right'', N (g ''DBW_WhlSpd_RR''))])
                    s
         in publishJointStates_wheels (header_stamp msg) out s1)
      else s)"

text \<open>
  The conversion of a signal value to the \<^verbatim>\<open>char\<close> that \<^verbatim>\<open>vin_.push_back\<close>
  appends.
\<close>

definition to_char :: "real \<Rightarrow> char" where
  "to_char x = char_of (trunc x)"

definition recvVinRpt :: "hdr \<Rightarrow> Frame \<Rightarrow> state \<Rightarrow> state" where
  "recvVinRpt h msg s =
     (if dlc msg \<ge> GetDlc h ID_VIN then
        (let g = signal msg
         in if g ''DBW_VinMultiplexor'' = VIN_MUX_VIN0 h then
              s\<lparr>vin := vin s @ map (\<lambda>n. to_char (g n))
                   [''DBW_VinDigit_01'', ''DBW_VinDigit_02'', ''DBW_VinDigit_03'',
                    ''DBW_VinDigit_04'', ''DBW_VinDigit_05'', ''DBW_VinDigit_06'',
                    ''DBW_VinDigit_07'']\<rparr>
            else if g ''DBW_VinMultiplexor'' = VIN_MUX_VIN1 h then
              s\<lparr>vin := vin s @ map (\<lambda>n. to_char (g n))
                   [''DBW_VinDigit_08'', ''DBW_VinDigit_09'', ''DBW_VinDigit_10'',
                    ''DBW_VinDigit_11'', ''DBW_VinDigit_12'', ''DBW_VinDigit_13'',
                    ''DBW_VinDigit_14'']\<rparr>
            else if g ''DBW_VinMultiplexor'' = VIN_MUX_VIN2 h then
              (let s1 = s\<lparr>vin := vin s @ map (\<lambda>n. to_char (g n))
                          [''DBW_VinDigit_15'', ''DBW_VinDigit_16'', ''DBW_VinDigit_17'']\<rparr>
               in s1\<lparr>pub_vin := pub_vin s1 @ [vin s1]\<rparr>)
            else s)
      else s)"

definition recvWheelPositionRpt :: "hdr \<Rightarrow> Frame \<Rightarrow> state \<Rightarrow> state" where
  "recvWheelPositionRpt h msg s =
     (if dlc msg \<ge> GetDlc h ID_REPORT_WHEEL_POSITION then
        (let g = signal msg
         in publish_report
              (Report ''wheel_position_report'' (header_stamp msg)
                 [(''front_left'', N (g ''DBW_WhlPulseCnt_FL'')),
                  (''front_right'', N (g ''DBW_WhlPulseCnt_FR'')),
                  (''rear_left'', N (g ''DBW_WhlPulseCnt_RL'')),
                  (''rear_right'', N (g ''DBW_WhlPulseCnt_RR'')),
                  (''wheel_pulses_per_rev'', N (g ''DBW_WhlPulsesPerRev''))])
              s)
      else s)"

definition recvTirePressureRpt :: "hdr \<Rightarrow> Frame \<Rightarrow> state \<Rightarrow> state" where
  "recvTirePressureRpt h msg s =
     (if dlc msg \<ge> GetDlc h ID_REPORT_TIRE_PRESSURE then
        (let g = signal msg
         in publish_report
              (Report ''tire_pressure_report'' (header_stamp msg)
                 [(''front_left'', N (g ''DBW_TirePressFL'')),
                  (''front_right'', N (g ''DBW_TirePressFR'')),
                  (''rear_left'', N (g ''DBW_TirePressRL'')),
                  (''rear_right'', N (g ''DBW_TirePressRR''))])
              s)
      else s)"

definition recvSurroundRpt :: "hdr \<Rightarrow> Frame \<Rightarrow> state \<Rightarrow> state" where
  "recvSurroundRpt h msg s =
     (if dlc msg \<ge> GetDlc h ID_REPORT_SURROUND then
        (let g = signal msg
         in publish_report
              (Report ''surround_report'' (header_stamp msg)
                 [(''front_radar_object_distance'', N (g ''DBW_Reserved2'')),
                  (''rear_radar_object_distance'', N (g ''DBW_SonarRearDist'')),
                  (''front_radar_distance_valid'', B (bool_of (g ''DBW_Reserved3''))),
                  (''parking_sonar_data_valid'', B (bool_of (g ''DBW_SonarVld''))),
                  (''rear_right.status'', N (g ''DBW_SonarArcNumRR'')),
                  (''rear_left.status'', N (g ''DBW_SonarArcNumRL'')),
                  (''rear_center.status'', N (g ''DBW_SonarArcNumRC'')),
                  (''front_right.status'', N (g ''DBW_SonarArcNumFR'')),
                  (''front_left.status'', N (g ''DBW_SonarArcNumFL'')),
                  (''front_center.status'', N (g ''DBW_SonarArcNumFC''))])
              s)
      else s)"

definition recvImuRpt :: "hdr \<Rightarrow> Frame \<Rightarrow> state \<Rightarrow> state" where
  "recvImuRpt h msg s =
     (if dlc msg \<ge> GetDlc h ID_REPORT_IMU then
        (let g = signal msg
         in publish_report
              (Report ''imu/data_raw'' (header_stamp msg)
                 [(''header.frame_id'', S (frame_id s)),
                  (''angular_velocity.z'', N (g ''DBW_ImuYawRate'' * (pi / 180))),
                  (''linear_acceleration.x'', N (g ''DBW_ImuAccelX'')),
                  (''linear_acceleration.y'', N (g ''DBW_ImuAccelY''))])
              s)
      else s)"

definition recvDriverInputRpt :: "hdr \<Rightarrow> Frame \<Rightarrow> state \<Rightarrow> state" where
  "recvDriverInputRpt h msg s =
     (if dlc msg \<ge> GetDlc h ID_REPORT_DRIVER_INPUT then
        (let g = signal msg
         in publish_report
              (Report ''driver_input_report'' (header_stamp msg)
                 [(''turn_signal.value'', N (g ''DBW_DrvInptTurnSignal'')),
                  (''high_beam_headlights.value'', N (g ''DBW_DrvInptHiBeam'')),
                  (''wiper.status'', N (g ''DBW_DrvInptWiper'')),
                  (''cruise_resume_button'', B (bool_of (g ''DBW_DrvInptCruiseResumeBtn''))),
                  (''cruise_cancel_button'', B (bool_of (g ''DBW_DrvInptCruiseCancelBtn''))),
                  (''cruise_accel_button'', B (bool_of (g ''DBW_DrvInptCruiseAccelBtn''))),
                  (''cruise_decel_button'', B (bool_of (g ''DBW_DrvInptCruiseDecelBtn''))),
                  (''cruise_on_off_button'', B (bool_of (g ''DBW_DrvInptCruiseOnOffBtn''))),
                  (''adaptive_cruise_on_off_button'', B (bool_of (g ''DBW_DrvInptAccOnOffBtn''))),
                  (''adaptive_cruise_increase_distance_button'', B (bool_of (g ''DBW_DrvInptAccIncDistBtn''))),
                  (''adaptive_cruise_decrease_distance_button'', B (bool_of (g ''DBW_DrvInptAccDecDistBtn''))),
                  (''steer_wheel_button_a'', B (bool_of (g ''DBW_DrvInputStrWhlBtnA''))),
                  (''steer_wheel_button_b'', B (bool_of (g ''DBW_DrvInputStrWhlBtnB''))),
                  (''steer_wheel_button_c'', B (bool_of (g ''DBW_DrvInputStrWhlBtnC''))),
                  (''steer_wheel_button_d'', B (bool_of (g ''DBW_DrvInputStrWhlBtnD''))),
                  (''steer_wheel_button_e'', B (bool_of (g ''DBW_DrvInputStrWhlBtnE''))),
                  (''door_or_hood_ajar'', B (bool_of (g ''DBW_OccupAnyDoorOrHoodAjar''))),
                  (''airbag_deployed'', B (bool_of (g ''DBW_OccupAnyAirbagDeployed''))),
                  (''any_seatbelt_unbuckled'', B (bool_of (g ''DBW_OccupAnySeatbeltUnbuckled'')))])
              s)
      else s)"

definition recvMiscRpt :: "hdr \<Rightarrow> Frame \<Rightarrow> state \<Rightarrow> state" where
  "recvMiscRpt h msg s =
     (if dlc msg \<ge> GetDlc h ID_MISC_REPORT then
        (let g = signal msg
         in publish_report
              (Report ''misc_report'' (header_stamp msg)
                 [(''fuel_level'', N (g ''DBW_MiscFuelLvl'')),
                  (''drive_by_wire_enabled'', B (bool_of (g ''DBW_MiscByWireEnabled''))),
                  (''vehicle_speed'', N (g ''DBW_MiscVehicleSpeed'')),
                  (''software_build_number'', N (g ''DBW_SoftwareBuildNumber'')),
                  (''general_actuator_fault'', B (bool_of (g ''DBW_MiscFault''))),
                  (''by_wire_ready'', B (bool_of (g ''DBW_MiscByWireReady''))),
                  (''general_driver_activity'', B (bool_of (g ''DBW_MiscDriverActivity''))),
                  (''comms_fault'', B (bool_of (g ''DBW_MiscAKitCommFault''))),
                  (''ambient_temp'', N (g ''DBW_AmbientTemp''))])
              s)
      else s)"

definition recvLowVoltageSystemRpt :: "hdr \<Rightarrow> Frame \<Rightarrow> state \<Rightarrow> state" where
  "recvLowVoltageSystemRpt h msg s =
     (if dlc msg \<ge> GetDlc h ID_LOW_VOLTAGE_SYSTEM_REPORT then
        (let g = signal msg
         in publish_report
              (Report ''low_voltage_system_report'' (header_stamp msg)
                 [(''vehicle_battery_volts'', N (g ''DBW_LvVehBattVlt'')),
                  (''vehicle_battery_current'', N (g ''DBW_LvBattCurr'')),
                  (''vehicle_alternator_current'', N (g ''DBW_LvAlternatorCurr'')),
                  (''dbw_battery_volts'', N (g ''DBW_LvDbwBattVlt'')),
                  (''dcdc_current'', N (g ''DBW_LvDcdcCurr'')),
                  (''aux_inverter_contactor'', B (bool_of (g ''DBW_LvInvtrContactorCmd'')))])
              s)
      else s)"

definition recvBrake2Rpt :: "hdr \<Rightarrow> Frame \<Rightarrow> state \<Rightarrow> state" where
  "recvBrake2Rpt h msg s =
     (if dlc msg \<ge> GetDlc h ID_BRAKE_2_REPORT then
        (let g = signal msg
         in publish_report
              (Report ''brake_2_report'' (header_stamp msg)
                 [(''brake_pressure'', N (g ''DBW_BrakePress_bar'')),
                  (''estimated_road_slope'', N (g ''DBW_RoadSlopeEstimate'')),
                  (''speed_set_point'', N (g ''DBW_SpeedSetpt''))])
              s)
      else s)"

definition recvSteering2Rpt :: "hdr \<Rightarrow> Frame \<Rightarrow> state \<Rightarrow> state" where
  "recvSteering2Rpt h msg s =
     (if dlc msg \<ge> GetDlc h ID_STEERING_2_REPORT then
        (let g = signal msg
         in publish_report
              (Report ''steering_2_report'' (header_stamp msg)
                 [(''vehicle_curvature_actual'', N (g ''DBW_SteeringVehCurvatureAct'')),
                  (''max_torque_driver'', N (g ''DBW_SteerTrq_Driver'')),
                  (''max_torque_motor'', N (g ''DBW_SteerTrq_Motor''))])
              s)
      else s)"

definition recvFaultActionRpt :: "hdr \<Rightarrow> Frame \<Rightarrow> state \<Rightarrow> state" where
  "recvFaultActionRpt h msg s =
     (if dlc msg \<ge> GetDlc h ID_FAULT_ACTION_REPORT then
        (let g = signal msg
         in publish_report
              (Report ''fault_actions_report'' (header_stamp msg)
                 [(''autonomous_disabled_no_brakes'', N (g ''DBW_FltAct_AutonDsblNoBrakes'')),
                  (''autonomous_disabled_apply_brakes'', N (g ''DBW_FltAct_AutonDsblApplyBrakes'')),
                  (''can_gateway_disabled'', N (g ''DBW_FltAct_CANGatewayDsbl'')),
                  (''inverter_contactor_disabled'', N (g ''DBW_FltAct_InvtrCntctrDsbl'')),
                  (''prevent_enter_autonomous_mode'', N (g ''DBW_FltAct_PreventEnterAutonMode'')),
                  (''warn_driver_only'', N (g ''DBW_FltAct_WarnDriverOnly'')),
                  (''chime_fcw_beeps'', N (g ''DBW_FltAct_Chime_FcwBeeps''))])
              s)
      else s)"

definition recvOtherActuatorsRpt :: "hdr \<Rightarrow> Frame \<Rightarrow> state \<Rightarrow> state" where
  "recvOtherActuatorsRpt h msg s =
     (if dlc msg \<ge> GetDlc h ID_OTHER_ACTUATORS_REPORT then
        (let g = signal msg
         in publish_report
              (Report ''other_actuators_report'' (header_stamp msg)
                 [(''ignition_state.status'', N (g ''DBW_IgnitionState'')),
                  (''horn_state.status'', N (g ''DBW_HornState'')),
                  (''diff_lock_state.status'', N (g ''DBW_DiffLockState'')),
                  (''turn_signal_state.value'', N (g ''DBW_TurnSignalState'')),
                  (''high_beam_state.value'', N (g ''DBW_HighBeamState'')),
                  (''low_beam_state.status'', N (g ''DBW_LowBeamState'')),
                  (''running_lights_state.status'', N (g ''DBW_RunningLightsState'')),
                  (''other_lights_state.status'', N (g ''DBW_RunningLightsState'')),
                  (''mode_light_red'', B (bool_of (g ''DBW_ModeLightState_Red''))),
                  (''mode_light_yellow'', B (bool_of (g ''DBW_ModeLightState_Yellow''))),
                  (''mode_light_green'', B (bool_of (g ''DBW_ModeLightState_Green''))),
                  (''mode_light_blue'', B (bool_of (g ''DBW_ModeLightState_Blue''))),
                  (''front_wiper_state.status'', N (g ''DBW_FrontWiperState'')),
                  (''rear_wiper_state.status'', N (g ''DBW_RearWiperState'')),
                  (''right_rear_door_state.value'', N (g ''DBW_RightRearDoorState'')),
                  (''left_rear_door_state.value'', N (g ''DBW_LeftRearDoorState'')),
                  (''liftgate_door_state.value'', N (g ''DBW_LiftgateDoorState'')),
                  (''door_lock_state.value'', N (g ''DBW_DoorLockState''))])
              s)
      else s)"

definition recvGpsReferenceRpt :: "hdr \<Rightarrow> Frame \<Rightarrow> state \<Rightarrow> state" where
  "recvGpsReferenceRpt h msg s =
     (if dlc msg \<ge> GetDlc h ID_GPS_REFERENCE_REPORT then
        (let g = signal msg
         in publish_report
              (Report ''gps_reference_report'' (header_stamp msg)
                 [(''ref_latitude'', N (g ''DBW_GpsRefLat'')),
                  (''ref_longitude'', N (g ''DBW_GpsRefLong''))])
              s)
      else s)"

definition recvGpsRemainderRpt :: "hdr \<Rightarrow> Frame \<Rightarrow> state \<Rightarrow> state" where
  "recvGpsRemainderRpt h msg s =
     (if dlc msg \<ge> GetDlc h ID_GPS_REMAINDER_REPORT then
        (let g = signal msg
         in publish_report
              (Report ''gps_remainder_report'' (header_stamp msg)
                 [(''rem_latitude'', N (g ''DBW_GpsRemainderLat'')),
                  (''rem_longitude'', N (g ''DBW_GpsRemainderLong''))])
              s)
      else s)"

definition recvActionRpt :: "hdr \<Rightarrow> Frame \<Rightarrow> state \<Rightarrow> state" where
  "recvActionRpt h msg s =
     (if dlc msg \<ge> GetDlc h ID_ACTION_REPORT then
        (let g = signal msg;
             s1 = setFault h (FAULT_ACTION h) (g ''DBW_ActionFault'' > 0) s
         in publish_report
              (Report ''action_report'' (header_stamp msg)
                    [(''enabled'', B (bool_of (g ''DBW_ActionEnabled''))),
                     (''vehicle_stop_status.value'', N (g ''DBW_ActionVehStop'')),
                     (''emergency_brake_status.value'', N (g ''DBW_ActionEmergencyBrk'')),
                     (''fault.status'', N (g ''DBW_ActionFault'')),
                     (''rolling_counter'', N (g ''DBW_ActionRollingCntr''))])
              s1)
      else s)"

definition recvArticulationRpt :: "hdr \<Rightarrow> Frame \<Rightarrow> state \<Rightarrow> state" where
  "recvArticulationRpt h msg s =
     (if dlc msg \<ge> GetDlc h ID_ARTICULATION_REPORT then
        (let g = signal msg;
             s1 = setFault h (FAULT_ARTIC h) (g ''DBW_ArticulationFault'' > 0) s
         in publish_report
              (Report ''articulation_report'' (header_stamp msg)
                    [(''enabled'', B (bool_of (g ''DBW_ArticulationEnabled''))),
                     (''control_type.value'', N (g ''DBW_ArticulationCtrlType'')),
                     (''angle_actual'', N (g ''DBW_ArticulationAngleAct'')),
                     (''angle_desired'', N (g ''DBW_ArticulationAngleDes'')),
                     (''angle_steer'', N (g ''DBW_ArticulationSteerWheelAng'')),
                     (''fault.status'', N (g ''DBW_ArticulationFault'')),
                     (''driver_activity'', B (bool_of (g ''DBW_ArticulationDriverActivity''))),
                     (''rolling_counter'', N (g ''DBW_ArticulationRollingCntr''))])
              s1)
      else s)"

definition recvDumpBedRpt :: "hdr \<Rightarrow> Frame \<Rightarrow> state \<Rightarrow> state" where
  "recvDumpBedRpt h msg s =
     (if dlc msg \<ge> GetDlc h ID_DUMP_BED_REPORT then
        (let g = signal msg;
             s1 = setFault h (FAULT_DUMP_BED h) (g ''DBW_DumpBedFault'' > 0) s;
             s2 = setOverride h (OVR_DUMP_BED h) (bool_of (g ''DBW_DumpBedDriverActivity'')) s1
         in publish_report
              (Report ''dump_bed_report'' (header_stamp msg)
                    [(''enabled'', B (bool_of (g ''DBW_DumpBedEnabled''))),
                     (''control_type.value'', N (g ''DBW_DumpBedCtrlType'')),
                     (''mode_actual.value'', N (g ''DBW_DumpBedModeAct'')),
                     (''mode_desired.value'', N (g ''DBW_DumpBedModeDes'')),
                     (''angle_actual'', N (g ''DBW_DumpBedAngleAct'')),
                     (''angle_desired'', N (g ''DBW_DumpBedAngleDes'')),
                     (''lever_pct_actual'', N (g ''DBW_DumpBedLeverPercentReqAct'')),
                     (''lever_pct_desired'', N (g ''DBW_DumpBedLeverPercentReqDes'')),
                     (''fault.status'', N (g ''DBW_DumpBedFault'')),
                     (''driver_activity'', B (bool_of (g ''DBW_DumpBedDriverActivity''))),
                     (''rolling_counter'', N (g ''DBW_DumpBedRollingCntr''))])
              s2)
      else s)"

definition recvEngineRpt :: "hdr \<Rightarrow> Frame \<Rightarrow> state \<Rightarrow> state" where
  "recvEngineRpt h msg s =
     (if dlc msg \<ge> GetDlc h ID_ENGINE_REPORT then
        (let g = signal msg;
             s1 = setFault h (FAULT_ENGINE h) (g ''DBW_EngineFault'' > 0) s;
             s2 = setOverride h (OVR_ENGINE h) (bool_of (g ''DBW_EngineDriverActivity'')) s1
         in publish_report
              (Report ''engine_report'' (header_stamp msg)
                    [(''enabled'', B (bool_of (g ''DBW_EngineEnabled''))),
                     (''control_type.value'', N (g ''DBW_EngineCtrlType'')),
                     (''mode_actual.value'', N (g ''DBW_EngineModeAct'')),
                     (''mode_desired.value'', N (g ''DBW_EngineModeDes'')),
                     (''eng_key_mismatch.status'', N (g ''DBW_EngineKeyStateMismatch'')),
                     (''fault.status'', N (g ''DBW_EngineFault'')),
                     (''driver_activity'', B (bool_of (g ''DBW_EngineDriverActivity''))),
                     (''rolling_counter'', N (g ''DBW_EngineRollingCntr''))])
              s2)
      else s)"

text \<open>The decoder of each message kind, as the \<^verbatim>\<open>switch\<close> of \<^verbatim>\<open>recvCAN\<close> picks it.\<close>

fun decoder :: "ListMessageIDs \<Rightarrow> hdr \<Rightarrow> Frame \<Rightarrow> state \<Rightarrow> state" where
  "decoder ID_BRAKE_REPORT = recvBrakeRpt"
| "decoder ID_ACCEL_PEDAL_REPORT = recvAccelPedalRpt"
| "decoder ID_STEERING_REPORT = recvSteeringRpt"
| "decoder ID_GEAR_REPORT = recvGearRpt"
| "decoder ID_REPORT_WHEEL_SPEED = recvWheelSpeedRpt"
| "decoder ID_REPORT_WHEEL_POSITION = recvWheelPositionRpt"
| "decoder ID_REPORT_TIRE_PRESSURE = recvTirePressureRpt"
| "decoder ID_REPORT_SURROUND = recvSurroundRpt"
| "decoder ID_VIN = recvVinRpt"
| "decoder ID_REPORT_IMU = recvImuRpt"
| "decoder ID_REPORT_DRIVER_INPUT = recvDriverInputRpt"
| "decoder ID_MISC_REPORT = recvMiscRpt"
| "decoder ID_LOW_VOLTAGE_SYSTEM_REPORT = recvLowVoltageSystemRpt"
| "decoder ID_BRAKE_2_REPORT = recvBrake2Rpt"
| "decoder ID_STEERING_2_REPORT = recvSteering2Rpt"
| "decoder ID_FAULT_ACTION_REPORT = recvFaultActionRpt"
| "decoder ID_OTHER_ACTUATORS_REPORT = recvOtherActuatorsRpt"
| "decoder ID_GPS_REFERENCE_REPORT = recvGpsReferenceRpt"
| "decoder ID_GPS_REMAINDER_REPORT = recvGpsRemainderRpt"
| "decoder ID_ENGINE_REPORT = recvEngineRpt"
| "decoder ID_ARTICULATION_REPORT = recvArticulationRpt"
| "decoder ID_DUMP_BED_REPORT = recvDumpBedRpt"
| "decoder ID_ACTION_REPORT = recvActionRpt"

definition case_labels :: "ListMessageIDs list" where
  "case_labels =
     [ID_BRAKE_REPORT, ID_ACCEL_PEDAL_REPORT, ID_STEERING_REPORT, ID_GEAR_REPORT,
      ID_REPORT_WHEEL_SPEED, ID_REPORT_WHEEL_POSITION, ID_REPORT_TIRE_PRESSURE,
      ID_REPORT_SURROUND, ID_VIN, ID_REPORT_IMU, ID_REPORT_DRIVER_INPUT, ID_MISC_REPORT,
      ID_LOW_VOLTAGE_SYSTEM_REPORT, ID_BRAKE_2_REPORT, ID_STEERING_2_REPORT,
      ID_FAULT_ACTION_REPORT, ID_OTHER_ACTUATORS_REPORT, ID_GPS_REFERENCE_REPORT,
      ID_GPS_REMAINDER_REPORT, ID_ENGINE_REPORT, ID_ARTICULATION_REPORT,
      ID_DUMP_BED_REPORT, ID_ACTION_REPORT]"

text \<open>
  \<^verbatim>\<open>recvCAN\<close>: remote and error frames are ignored; the \<^verbatim>\<open>switch\<close> runs the
  decoder of the first label whose number is the frame's identifier. The labels of the
  command messages and the default do nothing.
\<close>

fun dispatch :: "ListMessageIDs list \<Rightarrow> hdr \<Rightarrow> Frame \<Rightarrow> state \<Rightarrow> state" where
  "dispatch [] h msg s = s"
| "dispatch (k # ks) h msg s =
     (if can_id msg = MESSAGE_ID h k then decoder k h msg s else dispatch ks h msg s)"

definition recvCAN :: "hdr \<Rightarrow> Frame \<Rightarrow> state \<Rightarrow> state" where
  "recvCAN h msg s = (if \<not> is_rtr msg \<and> \<not> is_error msg then dispatch case_labels h msg s else s)"

definition recvEnable :: "hdr \<Rightarrow> state \<Rightarrow> state" where
  "recvEnable h s = enableSystem h s"

definition recvDisable :: "state \<Rightarrow> state" where
  "recvDisable s = disableSystem s"


section \<open>Construction and call sequences\<close>

text \<open>
  The constructor: the three arrays are initialised, the parameters take their
  defaults, the joints are named, and \<^verbatim>\<open>publishDbwEnabled()\<close> is called once. The
  signals of the codec's message objects are taken to start at 0. The clock reads 0
  until a call \<open>Clock\<close> sets it.
\<close>

fun joint_names :: "joint \<Rightarrow> string" where
  "joint_names JOINT_FL = ''wheel_fl''"
| "joint_names JOINT_FR = ''wheel_fr''"
| "joint_names JOINT_RL = ''wheel_rl''"
| "joint_names JOINT_RR = ''wheel_rr''"
| "joint_names JOINT_SL = ''steer_fl''"
| "joint_names JOINT_SR = ''steer_fr''"

definition members :: "real \<Rightarrow> real \<Rightarrow> real \<Rightarrow> state" where
  "members max_steer max_dump max_articulation =
     \<lparr>enables = (\<lambda>i. i = EN_DBW_PREV),
      overrides = (\<lambda>i. False),
      faults = (\<lambda>i. False),
      vin = [],
      joint_state = \<lparr>stamp = \<lparr>sec = 0, nanosec = 0\<rparr>, name = joint_names,
                      position = (\<lambda>i. 0), velocity = (\<lambda>i. 0), effort = (\<lambda>i. 0)\<rparr>,
      dbwDbc = (\<lambda>m n. 0),
      max_steer_angle = max_steer,
      max_dump_angle = max_dump,
      max_articulation_angle = max_articulation,
      acker_wheelbase = 2.8498,
      acker_track = 1.5824,
      steering_ratio = 14.8,
      frame_id = ''base_footprint'',
      m_clock = 0,
      last_logged = (\<lambda>site. 0),
      pub_can = [],
      pub_sys_enable = [],
      pub_vin = [],
      pub_joint_states = [],
      pub_reports = [],
      logged = []\<rparr>"

definition RaptorDbwCAN :: "real \<Rightarrow> real \<Rightarrow> real \<Rightarrow> state" where
  "RaptorDbwCAN max_steer max_dump max_articulation =
     snd (publishDbwEnabled (members max_steer max_dump max_articulation))"

text \<open>
  The calls the object receives: the subscription callbacks and the timer, and the
  operations of the arbitration engine themselves. \<open>Clock t\<close> is the passing of
  time between two calls: the clock reads \<open>t\<close> from then on.
\<close>

datatype call =
    RecvEnable
  | RecvDisable
  | RecvCAN Frame
  | RecvBrakeCmd BrakeCmd
  | RecvAcceleratorPedalCmd AcceleratorPedalCmd
  | RecvSteeringCmd SteeringCmd
  | RecvGearCmd GearCmd
  | RecvGlobalEnableCmd GlobalEnableCmd
  | RecvMiscCmd MiscCmd
  | RecvActionCmd ActionCmd
  | RecvArticulationCmd ArticulationCmd
  | RecvDumpBedCmd DumpBedCmd
  | RecvEngineCmd EngineCmd
  | TimerCallback
  | SetFault nat bool
  | SetOverride nat bool
  | FaultWatchdog bool nat
  | FaultWatchdog3 bool nat bool
  | PublishDbwEnabled
  | Clock int

fun step :: "hdr \<Rightarrow> call \<Rightarrow> state \<Rightarrow> state" where
  "step h RecvEnable s = recvEnable h s"
| "step h RecvDisable s = recvDisable s"
| "step h (RecvCAN msg) s = recvCAN h msg s"
| "step h (RecvBrakeCmd msg) s = recvBrakeCmd h msg s"
| "step h (RecvAcceleratorPedalCmd msg) s = recvAcceleratorPedalCmd h msg s"
| "step h (RecvSteeringCmd msg) s = recvSteeringCmd h msg s"
| "step h (RecvGearCmd msg) s = recvGearCmd msg s"
| "step h (RecvGlobalEnableCmd msg) s = recvGlobalEnableCmd msg s"
| "step h (RecvMiscCmd msg) s = recvMiscCmd msg s"
| "step h (RecvActionCmd msg) s = recvActionCmd msg s"
| "step h (RecvArticulationCmd msg) s = recvArticulationCmd h msg s"
| "step h (RecvDumpBedCmd msg) s = recvDumpBedCmd h msg s"
| "step h (RecvEngineCmd msg) s = recvEngineCmd h msg s"
| "step h TimerCallback s = timerCallback h s"
| "step h (SetFault which_fault flt) s = setFault h which_fault flt s"
| "step h (SetOverride which_ovr ovr) s = setOverride h which_ovr ovr s"
| "step h (FaultWatchdog flt src) s = faultWatchdog h flt src s"
| "step h (FaultWatchdog3 flt src braking) s = faultWatchdog3 h flt src braking s"
| "step h PublishDbwEnabled s = snd (publishDbwEnabled s)"
| "step h (Clock t) s = s\<lparr>m_clock := t\<rparr>"

fun run :: "hdr \<Rightarrow> call list \<Rightarrow> state \<Rightarrow> state" where
  "run h [] s = s"
| "run h (c # cs) s = run h cs (step h c s)"

text \<open>
  A numbering of the header's constants for the concrete evaluations: each enumeration
  counted from 0 in the order written here, every message eight bytes long. The
  general theorems do not depend on it.
\<close>

fun sample_names :: "string list \<Rightarrow> nat \<Rightarrow> string" where
  "sample_names [] i = []"
| "sample_names (n # ns) 0 = n"
| "sample_names (n # ns) (Suc i) = sample_names ns i"

fun index_of :: "'a \<Rightarrow> 'a list \<Rightarrow> nat" where
  "index_of x [] = 0"
| "index_of x (y # ys) = (if x = y then 0 else Suc (index_of x ys))"

definition sample_hdr :: hdr where
  "sample_hdr =
     \<lparr>NUM_OVERRIDES = 6, OVR_ACCEL = 0, OVR_BRAKE = 1, OVR_GEAR = 2, OVR_STEER = 3,
      OVR_DUMP_BED = 4, OVR_ENGINE = 5,
      OVR_SYSTEM = sample_names [''accelerator pedal'', ''brake'', ''PRND gear'', ''steering'',
                                 ''dump bed'', ''engine''],
      NUM_SERIOUS_FAULTS = 8, FAULT_ACCEL = 0, FAULT_BRAKE = 1, FAULT_STEER = 2,
      FAULT_WATCH = 3, FAULT_ACTION = 4, FAULT_ARTIC = 5, FAULT_DUMP_BED = 6,
      FAULT_ENGINE = 7, FAULT_WATCH_BRAKES = 8, FAULT_WATCH_WARN = 9,
      FAULT_SYSTEM = sample_names [''accelerator pedal'', ''brake'', ''steering'', ''watchdog'',
                                   ''action'', ''articulation'', ''dump bed'', ''engine''],
      faultWatchdog_src_default = 0,
      VIN_MUX_VIN0 = 0, VIN_MUX_VIN1 = 1, VIN_MUX_VIN2 = 2,
      OPEN_LOOP = 0, CLOSED_LOOP_ACTUATOR = 1, CLOSED_LOOP_VEHICLE = 2,
      ARTICULATION_ANGLE = 1, ARTICULATION_NONE = 0,
      DUMP_BED_MODE = 1, DUMP_BED_ANGLE = 2, DUMP_BED_NONE = 0,
      DUMP_BED_LOWER = 1, DUMP_BED_RAISE = 2,
      ENGINE_KEY_SWITCH = 1, ENGINE_NONE = 0,
      MESSAGE_ID = (\<lambda>k. index_of k case_labels),
      GetDlc = (\<lambda>k. 8)\<rparr>"


text \<open>A state in which the system is enabled, for the concrete evaluations.\<close>

definition enabled_state :: state where
  "enabled_state = recvEnable sample_hdr (RaptorDbwCAN 470 90 45)"

text \<open>Commands for the concrete evaluations.\<close>

definition brake_example :: BrakeCmd where
  "brake_example =
     \<lparr>brake_control_type = 0, brake_pedal_cmd = 1 / 2, brake_torque_cmd = 0,
      brake_decel_limit = 0, brake_decel_negative_jerk_limit = 0, brake_enable = False,
      brake_park_brake_cmd = 0, brake_rolling_counter = 5\<rparr>"

definition brake_zero :: BrakeCmd where
  "brake_zero =
     \<lparr>brake_control_type = 0, brake_pedal_cmd = 0, brake_torque_cmd = 0,
      brake_decel_limit = 0, brake_decel_negative_jerk_limit = 0, brake_enable = False,
      brake_park_brake_cmd = 0, brake_rolling_counter = 5\<rparr>"

definition steer_example :: SteeringCmd where
  "steer_example =
     \<lparr>steer_control_type = 1, steer_torque_cmd = 0, steer_angle_cmd = 30,
      steer_vehicle_curvature_cmd = 0, steer_angle_velocity = 0, steer_enable = True,
      steer_ignore = False, steer_rolling_counter = 1\<rparr>"

definition artic_example :: ArticulationCmd where
  "artic_example =
     \<lparr>artic_enable = True, artic_control_type = 1, artic_angle_cmd = 10,
      artic_ignore_driver = 0, artic_velocity_limit = 10, artic_rolling_counter = 1\<rparr>"

definition dump_example :: DumpBedCmd where
  "dump_example =
     \<lparr>dump_enable = True, dump_control_type = 2, dump_mode_type = 0, dump_lever_pct = 0,
      dump_angle_cmd = 20, dump_ignore_driver = 0, dump_velocity_limit = 10,
      dump_rolling_counter = 1\<rparr>"

text \<open>
  Inbound frames for the concrete evaluations: a frame of a message kind with a given
  length, whose listed signals have the listed values and whose other signals are 0.
\<close>

definition sample_frame :: "ListMessageIDs \<Rightarrow> nat \<Rightarrow> Time \<Rightarrow> (string \<times> real) list \<Rightarrow> Frame" where
  "sample_frame k len t sigs =
     \<lparr>can_id = MESSAGE_ID sample_hdr k, is_rtr = False, is_error = False, dlc = len,
      header_stamp = t,
      signal = (\<lambda>n. case map_of sigs n of Some v \<Rightarrow> v | None \<Rightarrow> 0)\<rparr>"

definition time0 :: Time where
  "time0 = \<lparr>sec = 0, nanosec = 0\<rparr>"

definition vin0 :: Frame where
  "vin0 = sample_frame ID_VIN 8 time0
     [(''DBW_VinMultiplexor'', 0), (''DBW_VinDigit_01'', 49), (''DBW_VinDigit_02'', 50),
      (''DBW_VinDigit_03'', 51), (''DBW_VinDigit_04'', 52), (''DBW_VinDigit_05'', 53),
      (''DBW_VinDigit_06'', 54), (''DBW_VinDigit_07'', 55)]"

definition vin1 :: Frame where
  "vin1 = sample_frame ID_VIN 8 time0
     [(''DBW_VinMultiplexor'', 1), (''DBW_VinDigit_08'', 56), (''DBW_VinDigit_09'', 57),
      (''DBW_VinDigit_10'', 65), (''DBW_VinDigit_11'', 66), (''DBW_VinDigit_12'', 67),
      (''DBW_VinDigit_13'', 68), (''DBW_VinDigit_14'', 69)]"

definition vin2 :: Frame where
  "vin2 = sample_frame ID_VIN 8 time0
     [(''DBW_VinMultiplexor'', 2), (''DBW_VinDigit_15'', 70), (''DBW_VinDigit_16'', 71),
      (''DBW_VinDigit_17'', 72)]"

definition accel_report_frame :: Frame where
  "accel_report_frame = sample_frame ID_ACCEL_PEDAL_REPORT 8 time0
     [(''DBW_AccelPdlFault_Ch1'', 1), (''DBW_AccelPdlFault_Ch2'', 1), (''DBW_AccelPdlFault'', 0)]"

definition gear_report_frame :: Frame where
  "gear_report_frame = sample_frame ID_GEAR_REPORT 1 time0 [(''DBW_PrndDriverActivity'', 1)]"

definition brake_torque_cmd_example :: BrakeCmd where
  "brake_torque_cmd_example =
     \<lparr>brake_control_type = 1, brake_pedal_cmd = 0, brake_torque_cmd = 50,
      brake_decel_limit = 0, brake_decel_negative_jerk_limit = 0, brake_enable = True,
      brake_park_brake_cmd = 0, brake_rolling_counter = 7\<rparr>"

text \<open>
  The system is enabled, a closed-loop brake command for 50 percent torque is encoded,
  and then the driver touches the brake pedal.
\<close>

definition brake_overridden_state :: state where
  "brake_overridden_state =
     run sample_hdr
       [RecvEnable, RecvBrakeCmd brake_torque_cmd_example, SetOverride (OVR_BRAKE sample_hdr) True]
       (RaptorDbwCAN 470 90 45)"

text \<open>
  Two wheel speed reports, every wheel at 1 rad/s, stamped 10.9 s and 11.0 s.
\<close>

definition wheel_speed_frame :: "Time \<Rightarrow> Frame" where
  "wheel_speed_frame t = sample_frame ID_REPORT_WHEEL_SPEED 8 t
     [(''DBW_WhlSpd_FL'', 1), (''DBW_WhlSpd_FR'', 1), (''DBW_WhlSpd_RL'', 1),
      (''DBW_WhlSpd_RR'', 1)]"

definition time_10_9 :: Time where
  "time_10_9 = \<lparr>sec = 10, nanosec = 900000000\<rparr>"

definition time_11_0 :: Time where
  "time_11_0 = \<lparr>sec = 11, nanosec = 0\<rparr>"

text \<open>
  The accelerator pedal fault and the brake fault are set after the constructor, and
  the clock reads five seconds.
\<close>

definition two_faults_state :: state where
  "two_faults_state =
     run sample_hdr
       [SetFault (FAULT_ACCEL sample_hdr) True, SetFault (FAULT_BRAKE sample_hdr) True,
        Clock 5000000000]
       (RaptorDbwCAN 470 90 45)"

text \<open>The shadow \<^verbatim>\<open>enables_[EN_DBW_PREV]\<close> holds the value last published.\<close>

definition in_sync :: "state \<Rightarrow> bool" where
  "in_sync s = (enables s EN_DBW_PREV = enabled s)"

section \<open>Basic facts about the operations\<close>

text \<open>What each operation does to the enabled flag, and the operations in closed form.\<close>


lemma log_request_fields [simp]:
  "enables (log_request site sev txt s) = enables s"
  "overrides (log_request site sev txt s) = overrides s"
  "faults (log_request site sev txt s) = faults s"
  "pub_sys_enable (log_request site sev txt s) = pub_sys_enable s"
  "pub_can (log_request site sev txt s) = pub_can s"
  "pub_vin (log_request site sev txt s) = pub_vin s"
  "pub_reports (log_request site sev txt s) = pub_reports s"
  "pub_joint_states (log_request site sev txt s) = pub_joint_states s"
  "joint_state (log_request site sev txt s) = joint_state s"
  "dbwDbc (log_request site sev txt s) = dbwDbc s"
  "vin (log_request site sev txt s) = vin s"
  "m_clock (log_request site sev txt s) = m_clock s"
  by (simp_all add: log_request_def)

lemma logged_log_request:
  "logged (log_request site sev txt s) =
     logged s @ (if last_logged s site + CLOCK_1_SEC * 1000000 \<le> m_clock s then [(sev, txt)] else [])"
  by (simp add: log_request_def)

lemma enabled_log_request [simp]: "enabled (log_request site sev txt s) = enabled s"
  by (simp add: enabled_def)

lemma publishDbwEnabled_fst: "fst (publishDbwEnabled s) = (enables s EN_DBW_PREV \<noteq> enabled s)"
  by (simp add: publishDbwEnabled_def Let_def)

lemma publishDbwEnabled_snd:
  "snd (publishDbwEnabled s) =
     s\<lparr>enables := (enables s)(EN_DBW_PREV := enabled s),
       pub_sys_enable := pub_sys_enable s @ (if enables s EN_DBW_PREV \<noteq> enabled s then [enabled s] else [])\<rparr>"
  by (simp add: publishDbwEnabled_def Let_def)

lemma enabled_publish [simp]: "enabled (snd (publishDbwEnabled s)) = enabled s"
  by (simp add: publishDbwEnabled_snd enabled_def)

lemma setFault_unfold:
  "setFault h w v s =
     (if w < NUM_SERIOUS_FAULTS h then
        (let s2 = s\<lparr>enables := (enables s)(EN_DBW := enables s EN_DBW \<and> \<not> v),
                     faults := (faults s)(w := v)\<rparr>;
             s3 = snd (publishDbwEnabled s2)
         in if fst (publishDbwEnabled s2) then
              (if enabled s then log_request LOG_setFault_disabled ERROR (''DBW system disabled - '' @ FAULT_SYSTEM h w @ '' fault.'') s3
               else log_request LOG_setFault_enabled INFO (''DBW system enabled - no '' @ FAULT_SYSTEM h w @ '' fault.'') s3)
            else s3)
      else s)"
  by (auto simp add: setFault_def Let_def enabled_def split_beta fun_upd_idem)

lemma enabled_setFault [simp]:
  "enabled (setFault h w v s) = (enabled s \<and> (w < NUM_SERIOUS_FAULTS h \<longrightarrow> \<not> v))"
  by (auto simp add: setFault_unfold Let_def) (auto simp: enabled_def)


lemma setOverride_unfold:
  "setOverride h w v s =
     (if w < NUM_OVERRIDES h then
        (let s2 = s\<lparr>enables := (enables s)(EN_DBW := enables s EN_DBW \<and> \<not> v),
                     overrides := (overrides s)(w := v)\<rparr>;
             s3 = snd (publishDbwEnabled s2)
         in if fst (publishDbwEnabled s2) then
              (if enabled s then log_request LOG_setOverride_disabled WARN (''DBW system disabled - '' @ OVR_SYSTEM h w @ '' override'') s3
               else log_request LOG_setOverride_enabled INFO (''DBW system enabled - no '' @ OVR_SYSTEM h w @ '' override'') s3)
            else s3)
      else s)"
  by (auto simp add: setOverride_def Let_def enabled_def split_beta fun_upd_idem)

lemma enabled_setOverride [simp]:
  "enabled (setOverride h w v s) = (enabled s \<and> (w < NUM_OVERRIDES h \<longrightarrow> \<not> v))"
  by (auto simp add: setOverride_unfold Let_def) (auto simp: enabled_def)

lemma enabled_faults_update [simp]: "enabled (s\<lparr>faults := f\<rparr>) = enabled s"
  by (simp add: enabled_def)

lemma enabled_faultWatchdog3:
  "enabled (faultWatchdog3 h flt src braking s) = (enabled s \<and> (FAULT_WATCH h < NUM_SERIOUS_FAULTS h \<longrightarrow> \<not> flt))"
  by (simp add: faultWatchdog3_def Let_def)

lemma enabled_faultWatchdog:
  "enabled (faultWatchdog h flt src s) = (enabled s \<and> (FAULT_WATCH h < NUM_SERIOUS_FAULTS h \<longrightarrow> \<not> flt))"
  by (simp add: faultWatchdog_def enabled_faultWatchdog3)

lemma enabled_disableSystem [simp]: "\<not> enabled (disableSystem s)"
  by (simp add: disableSystem_def Let_def split_beta) (simp add: enabled_def)

lemma set_signals_eq:
  "set_signals m ws s = s\<lparr>dbwDbc := (dbwDbc s)(m := fold (\<lambda>(n, v) f. f(n := v)) ws (dbwDbc s m))\<rparr>"
  by (induction ws arbitrary: s) (auto simp: SetResult_def)

lemma enabled_set_signals [simp]: "enabled (set_signals m ws s) = enabled s"
  by (simp add: set_signals_eq enabled_def)

lemma enabled_publish_frame [simp]: "enabled (publish_frame m s) = enabled s"
  by (simp add: publish_frame_def enabled_def)

lemma enabled_publish_report [simp]: "enabled (publish_report r s) = enabled s"
  by (simp add: publish_report_def enabled_def)

lemma enabled_publish_joint_state [simp]: "enabled (publish_joint_state js s) = enabled s"
  by (simp add: publish_joint_state_def enabled_def)

lemma enabled_publishJointStates [simp]:
  "enabled (publishJointStates_wheels t w s) = enabled s"
  "enabled (publishJointStates_steering t a s) = enabled s"
  by (simp_all add: publishJointStates_wheels_def publishJointStates_steering_def Let_def)

lemma enabled_timer_frame [simp]: "enabled (timer_frame b m ns s) = enabled s"
  by (simp add: timer_frame_def)

lemma enabled_timerCallback [simp]: "enabled (timerCallback h s) = enabled s"
  by (simp add: timerCallback_def Let_def)

lemma enabled_encoders [simp]:
  "enabled (recvBrakeCmd h bc s) = enabled s"
  "enabled (recvAcceleratorPedalCmd h ac s) = enabled s"
  "enabled (recvSteeringCmd h sc s) = enabled s"
  "enabled (recvGearCmd gc s) = enabled s"
  "enabled (recvGlobalEnableCmd glc s) = enabled s"
  "enabled (recvMiscCmd mc s) = enabled s"
  "enabled (recvActionCmd acc s) = enabled s"
  "enabled (recvArticulationCmd h arc s) = enabled s"
  "enabled (recvDumpBedCmd h dc s) = enabled s"
  "enabled (recvEngineCmd h ec s) = enabled s"
  by (simp_all add: recvBrakeCmd_def recvAcceleratorPedalCmd_def recvSteeringCmd_def
      recvGearCmd_def recvGlobalEnableCmd_def recvMiscCmd_def recvActionCmd_def
      recvArticulationCmd_def recvDumpBedCmd_def recvEngineCmd_def)

lemma enabled_vin_update [simp]: "enabled (s\<lparr>vin := v\<rparr>) = enabled s" "enabled (s\<lparr>pub_vin := pv\<rparr>) = enabled s"
  by (simp_all add: enabled_def)

lemma enabled_decoder: "enabled (decoder k h msg s) \<Longrightarrow> enabled s"
  by (cases k)
     (simp_all add: recvBrakeRpt_def recvAccelPedalRpt_def recvSteeringRpt_def recvGearRpt_def
        recvWheelSpeedRpt_def recvWheelPositionRpt_def recvTirePressureRpt_def recvSurroundRpt_def
        recvVinRpt_def recvImuRpt_def recvDriverInputRpt_def recvMiscRpt_def
        recvLowVoltageSystemRpt_def recvBrake2Rpt_def recvSteering2Rpt_def recvFaultActionRpt_def
        recvOtherActuatorsRpt_def recvGpsReferenceRpt_def recvGpsRemainderRpt_def recvEngineRpt_def
        recvArticulationRpt_def recvDumpBedRpt_def recvActionRpt_def Let_def enabled_faultWatchdog
        split: if_splits)

lemma enabled_dispatch: "enabled (dispatch ks h msg s) \<Longrightarrow> enabled s"
  by (induction ks) (auto dest: enabled_decoder split: if_splits)

lemma enabled_recvCAN: "enabled (recvCAN h msg s) \<Longrightarrow> enabled s"
  by (auto simp: recvCAN_def dest: enabled_dispatch split: if_splits)

lemma log_faults_fields [simp]:
  "enables (log_faults h is s) = enables s"
  "overrides (log_faults h is s) = overrides s"
  "faults (log_faults h is s) = faults s"
  "pub_sys_enable (log_faults h is s) = pub_sys_enable s"
  "pub_can (log_faults h is s) = pub_can s"
  "pub_reports (log_faults h is s) = pub_reports s"
  "dbwDbc (log_faults h is s) = dbwDbc s"
  "m_clock (log_faults h is s) = m_clock s"
  by (induction "is" arbitrary: s) simp_all

lemma enabled_log_faults [simp]: "enabled (log_faults h is s) = enabled s"
  by (simp add: enabled_def)

lemma enableSystem_unfold:
  "enableSystem h s =
     (if enabled s then s
      else if fault h s then log_faults h [FAULT_ACCEL h ..< NUM_SERIOUS_FAULTS h] s
      else
        (let s1 = s\<lparr>enables := (enables s)(EN_DBW := True)\<rparr>
         in (if fst (publishDbwEnabled s1)
             then log_request LOG_enableSystem_enabled INFO ''DBW system enabled.''
             else log_request LOG_enableSystem_failed WARN
                    ''DBW system failed to enable. Check driver overrides.'')
              (snd (publishDbwEnabled s1))))"
  by (simp add: enableSystem_def enabled_def Let_def split_beta)

lemma log_faults_suppressed:
  "m_clock s < last_logged s LOG_enableSystem_fault + CLOCK_1_SEC * 1000000 \<Longrightarrow>
     log_faults h is s = s"
  by (induction "is" arbitrary: s) (simp_all add: log_request_def)

lemma log_faults_at_most_one:
  "length (logged (log_faults h is s)) \<le> Suc (length (logged s))"
proof (induction "is" arbitrary: s)
  case Nil
  then show ?case by simp
next
  case (Cons i "is")
  show ?case
  proof (cases "faults s i \<and> last_logged s LOG_enableSystem_fault + CLOCK_1_SEC * 1000000 \<le> m_clock s")
    case True
    let ?s' = "log_request LOG_enableSystem_fault ERROR
                 (''DBW system disabled - '' @ FAULT_SYSTEM h i @ '' fault.'') s"
    have "m_clock ?s' < last_logged ?s' LOG_enableSystem_fault + CLOCK_1_SEC * 1000000"
      using True by (simp add: log_request_def CLOCK_1_SEC_def)
    then have "log_faults h is ?s' = ?s'" by (rule log_faults_suppressed)
    with True show ?thesis by (simp add: logged_log_request)
  next
    case False
    then have "log_faults h (i # is) s = log_faults h is s"
      by (auto simp add: log_request_def)
    with Cons.IH[of s] show ?thesis by simp
  qed
qed

lemma enabled_enableSystem_iff:
  "enabled (enableSystem h s) = (enabled s \<or> \<not> fault h s)"
  by (simp add: enableSystem_unfold Let_def) (simp add: enabled_def)

lemma enabled_clock_update [simp]: "enabled (s\<lparr>m_clock := t\<rparr>) = enabled s"
  by (simp add: enabled_def)

lemma enabled_step:
  "enabled (step h c s) \<Longrightarrow> \<not> enabled s \<Longrightarrow> c = RecvEnable \<and> \<not> fault h s"
  by (cases c)
     (auto simp: recvEnable_def recvDisable_def enabled_faultWatchdog enabled_faultWatchdog3
        enabled_enableSystem_iff dest: enabled_recvCAN)


lemma enabled_run:
  "enabled (run h cs s) \<Longrightarrow> \<not> enabled s \<Longrightarrow>
     \<exists>pre post. cs = pre @ RecvEnable # post \<and> \<not> enabled (run h pre s) \<and> \<not> fault h (run h pre s)
        \<and> enabled (run h (pre @ [RecvEnable]) s)"
proof (induction cs arbitrary: s)
  case Nil
  then show ?case by simp
next
  case (Cons c cs)
  show ?case
  proof (cases "enabled (step h c s)")
    case True
    with Cons.prems have "c = RecvEnable \<and> \<not> fault h s" by (simp add: enabled_step)
    with True Cons.prems show ?thesis
      by (intro exI[of _ "[]"] exI[of _ cs]) simp
  next
    case False
    with Cons.IH[of "step h c s"] Cons.prems
    obtain pre post where p: "cs = pre @ RecvEnable # post" "\<not> enabled (run h pre (step h c s))"
        "\<not> fault h (run h pre (step h c s))" "enabled (run h (pre @ [RecvEnable]) (step h c s))"
      by auto
    then show ?thesis
      by (intro exI[of _ "c # pre"] exI[of _ post]) simp
  qed
qed




lemma fault_iff: "fault h s = (\<exists>i. FAULT_ACCEL h \<le> i \<and> i < NUM_SERIOUS_FAULTS h \<and> faults s i)"
  by (auto simp: fault_def list_ex_iff)

lemma enabled_members [simp]: "\<not> enabled (members a b c)" "enables (members a b c) EN_DBW_PREV"
  "faults (members a b c) = (\<lambda>i. False)" "pub_sys_enable (members a b c) = []"
  by (simp_all add: members_def enabled_def)

lemma RaptorDbwCAN_facts:
  "\<not> enabled (RaptorDbwCAN a b c)" "pub_sys_enable (RaptorDbwCAN a b c) = [False]"
  "\<not> enables (RaptorDbwCAN a b c) EN_DBW_PREV" "faults (RaptorDbwCAN a b c) = (\<lambda>i. False)"
  "overrides (RaptorDbwCAN a b c) = (\<lambda>i. False)"
  by (simp_all add: RaptorDbwCAN_def publishDbwEnabled_snd) (simp_all add: members_def enabled_def)

lemma enabled_state_facts:
  "enabled enabled_state" "enables enabled_state EN_DBW_PREV" "pub_sys_enable enabled_state = [False, True]"
  "faults enabled_state = (\<lambda>i. False)" "overrides enabled_state = (\<lambda>i. False)"
  by (simp_all add: enabled_state_def recvEnable_def enableSystem_unfold RaptorDbwCAN_facts fault_iff
        Let_def publishDbwEnabled_snd publishDbwEnabled_fst)
     (simp_all add: enabled_def RaptorDbwCAN_facts)

lemma sample_hdr_simps:
  "NUM_OVERRIDES sample_hdr = 6" "OVR_ACCEL sample_hdr = 0" "OVR_BRAKE sample_hdr = 1"
  "OVR_GEAR sample_hdr = 2" "OVR_STEER sample_hdr = 3" "OVR_DUMP_BED sample_hdr = 4"
  "OVR_ENGINE sample_hdr = 5" "NUM_SERIOUS_FAULTS sample_hdr = 8" "FAULT_ACCEL sample_hdr = 0"
  "FAULT_BRAKE sample_hdr = 1" "FAULT_STEER sample_hdr = 2" "FAULT_WATCH sample_hdr = 3"
  "FAULT_WATCH_BRAKES sample_hdr = 8" "FAULT_WATCH_WARN sample_hdr = 9"
  "VIN_MUX_VIN0 sample_hdr = 0" "VIN_MUX_VIN1 sample_hdr = 1" "VIN_MUX_VIN2 sample_hdr = 2"
  "OPEN_LOOP sample_hdr = 0" "CLOSED_LOOP_ACTUATOR sample_hdr = 1" "CLOSED_LOOP_VEHICLE sample_hdr = 2"
  "GetDlc sample_hdr k = 8"
  by (simp_all add: sample_hdr_def)


lemma in_sync_publish [simp]: "in_sync (snd (publishDbwEnabled s))"
  by (simp add: in_sync_def publishDbwEnabled_snd enabled_def)

lemma in_sync_log_request [simp]: "in_sync (log_request site sev txt s) = in_sync s"
  by (simp add: in_sync_def)

lemma in_sync_setFault: "in_sync s \<Longrightarrow> in_sync (setFault h w v s)"
  by (simp add: setFault_unfold Let_def)

lemma in_sync_setOverride: "in_sync s \<Longrightarrow> in_sync (setOverride h w v s)"
  by (simp add: setOverride_unfold Let_def)

lemma in_sync_faults_update [simp]: "in_sync (s\<lparr>faults := f\<rparr>) = in_sync s"
  by (simp add: in_sync_def)

lemma in_sync_faultWatchdog3: "in_sync s \<Longrightarrow> in_sync (faultWatchdog3 h flt src braking s)"
  by (simp add: faultWatchdog3_def Let_def in_sync_setFault)

lemma in_sync_faultWatchdog: "in_sync s \<Longrightarrow> in_sync (faultWatchdog h flt src s)"
  by (simp add: faultWatchdog_def in_sync_faultWatchdog3)

lemma in_sync_enableSystem: "in_sync s \<Longrightarrow> in_sync (enableSystem h s)"
  by (simp add: enableSystem_unfold Let_def) (simp add: in_sync_def enabled_def)

lemma in_sync_disableSystem: "in_sync s \<Longrightarrow> in_sync (disableSystem s)"
  by (simp add: disableSystem_def Let_def split_beta)

lemma in_sync_outputs [simp]:
  "in_sync (set_signals m ws s) = in_sync s"
  "in_sync (publish_frame m s) = in_sync s"
  "in_sync (publish_report r s) = in_sync s"
  "in_sync (publish_joint_state js s) = in_sync s"
  "in_sync (s\<lparr>vin := v\<rparr>) = in_sync s"
  "in_sync (s\<lparr>pub_vin := pv\<rparr>) = in_sync s"
  by (simp_all add: in_sync_def set_signals_eq publish_frame_def publish_report_def
        publish_joint_state_def enabled_def)

lemma in_sync_timer [simp]: "in_sync (timer_frame b m ns s) = in_sync s" "in_sync (timerCallback h s) = in_sync s"
  by (simp_all add: timer_frame_def timerCallback_def Let_def)

lemma in_sync_kinematics [simp]:
  "in_sync (publishJointStates_wheels t w s) = in_sync s"
  "in_sync (publishJointStates_steering t a s) = in_sync s"
  by (simp_all add: publishJointStates_wheels_def publishJointStates_steering_def Let_def)

lemma in_sync_encoders [simp]:
  "in_sync (recvBrakeCmd h bc s) = in_sync s"
  "in_sync (recvAcceleratorPedalCmd h ac s) = in_sync s"
  "in_sync (recvSteeringCmd h sc s) = in_sync s"
  "in_sync (recvGearCmd gc s) = in_sync s"
  "in_sync (recvGlobalEnableCmd glc s) = in_sync s"
  "in_sync (recvMiscCmd mc s) = in_sync s"
  "in_sync (recvActionCmd acc s) = in_sync s"
  "in_sync (recvArticulationCmd h arc s) = in_sync s"
  "in_sync (recvDumpBedCmd h dc s) = in_sync s"
  "in_sync (recvEngineCmd h ec s) = in_sync s"
  by (simp_all add: recvBrakeCmd_def recvAcceleratorPedalCmd_def recvSteeringCmd_def
      recvGearCmd_def recvGlobalEnableCmd_def recvMiscCmd_def recvActionCmd_def
      recvArticulationCmd_def recvDumpBedCmd_def recvEngineCmd_def)

lemma in_sync_decoder: "in_sync s \<Longrightarrow> in_sync (decoder k h msg s)"
  by (cases k)
     (simp_all add: recvBrakeRpt_def recvAccelPedalRpt_def recvSteeringRpt_def recvGearRpt_def
        recvWheelSpeedRpt_def recvWheelPositionRpt_def recvTirePressureRpt_def recvSurroundRpt_def
        recvVinRpt_def recvImuRpt_def recvDriverInputRpt_def recvMiscRpt_def
        recvLowVoltageSystemRpt_def recvBrake2Rpt_def recvSteering2Rpt_def recvFaultActionRpt_def
        recvOtherActuatorsRpt_def recvGpsReferenceRpt_def recvGpsRemainderRpt_def recvEngineRpt_def
        recvArticulationRpt_def recvDumpBedRpt_def recvActionRpt_def Let_def
        in_sync_setFault in_sync_setOverride in_sync_faultWatchdog)

lemma in_sync_dispatch: "in_sync s \<Longrightarrow> in_sync (dispatch ks h msg s)"
  by (induction ks) (auto intro: in_sync_decoder)

lemma in_sync_clock_update [simp]: "in_sync (s\<lparr>m_clock := t\<rparr>) = in_sync s"
  by (simp add: in_sync_def)

lemma in_sync_step: "in_sync s \<Longrightarrow> in_sync (step h c s)"
  by (cases c)
     (simp_all add: recvEnable_def recvDisable_def recvCAN_def in_sync_enableSystem
        in_sync_disableSystem in_sync_dispatch in_sync_setFault in_sync_setOverride
        in_sync_faultWatchdog in_sync_faultWatchdog3)

lemma in_sync_run: "in_sync s \<Longrightarrow> in_sync (run h cs s)"
  by (induction cs arbitrary: s) (simp_all add: in_sync_step)

lemma in_sync_RaptorDbwCAN: "in_sync (RaptorDbwCAN a b c)"
  by (simp add: RaptorDbwCAN_def)

lemma pub_setFault_True:
  "w < NUM_SERIOUS_FAULTS h \<Longrightarrow>
     pub_sys_enable (setFault h w True s) = pub_sys_enable s @ (if enables s EN_DBW_PREV then [False] else [])"
  by (simp add: setFault_unfold Let_def publishDbwEnabled_snd publishDbwEnabled_fst enabled_def)

lemma prev_setFault_True:
  "w < NUM_SERIOUS_FAULTS h \<Longrightarrow> \<not> enables (setFault h w True s) EN_DBW_PREV"
  by (simp add: setFault_unfold Let_def publishDbwEnabled_snd publishDbwEnabled_fst enabled_def)

lemma fold_zeros: "n \<in> set zs \<Longrightarrow> fold (\<lambda>(n, v) f. f(n := v)) (zeros zs) f n = (0::real)"
  by (induction zs arbitrary: f rule: rev_induct) (auto simp: zeros_def)

lemma fold_other: "n \<notin> fst ` set ws \<Longrightarrow> fold (\<lambda>(n, v) f. f(n := v)) ws f n = f n"
  by (induction ws arbitrary: f) auto

lemma sent_publish_frame [simp]: "sent (publish_frame m s) n = dbwDbc s m n"
  by (simp add: sent_def last_frame_def publish_frame_def)

lemma last_frame_publish_frame [simp]: "last_frame (publish_frame m s) = TxFrame m (dbwDbc s m)"
  by (simp add: last_frame_def publish_frame_def)

lemma dbwDbc_SetResult:
  "dbwDbc (SetResult m n v s) m' n' = (if m' = m \<and> n' = n then v else dbwDbc s m' n')"
  by (simp add: SetResult_def)

lemma dbwDbc_set_signals:
  "dbwDbc (set_signals m ws s) m = fold (\<lambda>(n, v) f. f(n := v)) ws (dbwDbc s m)"
  by (simp add: set_signals_eq)

lemma neutral_frame_zero:
  "n \<in> set zs \<Longrightarrow> n \<notin> fst ` set copied \<Longrightarrow> sent (neutral_frame m zs copied s) n = 0"
  by (simp add: neutral_frame_def dbwDbc_set_signals fold_other fold_zeros)

lemma neutral_frame_other:
  "n \<notin> set zs \<Longrightarrow> n \<notin> fst ` set copied \<Longrightarrow> sent (neutral_frame m zs copied s) n = dbwDbc s m n"
  by (simp add: neutral_frame_def dbwDbc_set_signals fold_other zeros_def image_image)

lemma enabled_state_dbwDbc: "dbwDbc enabled_state = (\<lambda>m n. 0)" "pub_can enabled_state = []"
  by (simp_all add: enabled_state_def recvEnable_def enableSystem_unfold RaptorDbwCAN_facts fault_iff
        Let_def publishDbwEnabled_snd publishDbwEnabled_fst)
     (simp_all add: RaptorDbwCAN_def publishDbwEnabled_snd members_def)

lemma roundf_nonneg: "0 \<le> x \<Longrightarrow> roundf x = round x"
  by (simp add: roundf_def round_def)

lemma vcmd_bounds: "1 \<le> vcmd v" "vcmd v \<le> 254" "vcmd v \<noteq> 0"
  by (simp_all add: vcmd_def max_def min_def)

lemma vcmd_round: "vcmd v = max 1 (min 254 (real_of_int (round (\<bar>v\<bar> / 2))))"
  by (simp add: vcmd_def roundf_nonneg)

lemma steer_velocity_signal:
  "sent (recvSteeringCmd h sc s) ''AKit_SteeringWhlAngleVelocityLim'' =
     (if enabled s \<and> steer_angle_velocity sc \<noteq> 0 then vcmd (steer_angle_velocity sc) else 0)"
  by (simp add: recvSteeringCmd_def dbwDbc_SetResult zeros_def steer_zeroed_def)

lemma artic_velocity_signal:
  "sent (recvArticulationCmd h arc s) ''AKit_ArticulationVelocityLimit'' =
     (if enabled s \<and> artic_enable arc then artic_velocity_limit arc else 0)"
  by (simp add: recvArticulationCmd_def dbwDbc_SetResult zeros_def artic_zeroed_def)

lemma dump_velocity_signal:
  "sent (recvDumpBedCmd h dc s) ''AKit_DumpBedVelocityLimit'' =
     (if enabled s \<and> dump_enable dc then dump_velocity_limit dc else 0)"
  by (simp add: recvDumpBedCmd_def dbwDbc_SetResult zeros_def dump_zeroed_def)

lemma to_char_codes:
  "to_char 49 = CHR ''1''" "to_char 50 = CHR ''2''" "to_char 51 = CHR ''3''" "to_char 52 = CHR ''4''"
  "to_char 53 = CHR ''5''" "to_char 54 = CHR ''6''" "to_char 55 = CHR ''7''" "to_char 56 = CHR ''8''"
  "to_char 57 = CHR ''9''" "to_char 65 = CHR ''A''" "to_char 66 = CHR ''B''" "to_char 67 = CHR ''C''"
  "to_char 68 = CHR ''D''" "to_char 69 = CHR ''E''" "to_char 70 = CHR ''F''" "to_char 71 = CHR ''G''"
  "to_char 72 = CHR ''H''"
  by (simp_all add: to_char_def trunc_def char_of_def)

lemma RaptorDbwCAN_outputs:
  "vin (RaptorDbwCAN a b c) = []" "pub_vin (RaptorDbwCAN a b c) = []" "pub_can (RaptorDbwCAN a b c) = []"
  "pub_reports (RaptorDbwCAN a b c) = []" "dbwDbc (RaptorDbwCAN a b c) = (\<lambda>m n. 0)"
  "logged (RaptorDbwCAN a b c) = []"
  "last_logged (RaptorDbwCAN a b c) = (\<lambda>site. 0)" "m_clock (RaptorDbwCAN a b c) = 0"
  by (simp_all add: RaptorDbwCAN_def publishDbwEnabled_snd members_def)

lemma vin_frames:
  "dlc vin0 = 8" "dlc vin1 = 8" "dlc vin2 = 8"
  "signal vin0 ''DBW_VinMultiplexor'' = 0" "signal vin1 ''DBW_VinMultiplexor'' = 1"
  "signal vin2 ''DBW_VinMultiplexor'' = 2"
  by (simp_all add: vin0_def vin1_def vin2_def sample_frame_def)

lemma vin_digits:
  "to_char (signal vin0 ''DBW_VinDigit_01'') = CHR ''1''"
  "to_char (signal vin0 ''DBW_VinDigit_02'') = CHR ''2''"
  "to_char (signal vin0 ''DBW_VinDigit_03'') = CHR ''3''"
  "to_char (signal vin0 ''DBW_VinDigit_04'') = CHR ''4''"
  "to_char (signal vin0 ''DBW_VinDigit_05'') = CHR ''5''"
  "to_char (signal vin0 ''DBW_VinDigit_06'') = CHR ''6''"
  "to_char (signal vin0 ''DBW_VinDigit_07'') = CHR ''7''"
  "to_char (signal vin1 ''DBW_VinDigit_08'') = CHR ''8''"
  "to_char (signal vin1 ''DBW_VinDigit_09'') = CHR ''9''"
  "to_char (signal vin1 ''DBW_VinDigit_10'') = CHR ''A''"
  "to_char (signal vin1 ''DBW_VinDigit_11'') = CHR ''B''"
  "to_char (signal vin1 ''DBW_VinDigit_12'') = CHR ''C''"
  "to_char (signal vin1 ''DBW_VinDigit_13'') = CHR ''D''"
  "to_char (signal vin1 ''DBW_VinDigit_14'') = CHR ''E''"
  "to_char (signal vin2 ''DBW_VinDigit_15'') = CHR ''F''"
  "to_char (signal vin2 ''DBW_VinDigit_16'') = CHR ''G''"
  "to_char (signal vin2 ''DBW_VinDigit_17'') = CHR ''H''"
  by (simp_all add: vin0_def vin1_def vin2_def sample_frame_def to_char_codes)

lemma faults_setFault:
  "faults (setFault h w v s) = (if w < NUM_SERIOUS_FAULTS h then (faults s)(w := v) else faults s)"
  by (simp add: setFault_unfold Let_def publishDbwEnabled_snd)

lemma faults_setOverride [simp]: "faults (setOverride h w v s) = faults s"
  by (simp add: setOverride_unfold Let_def publishDbwEnabled_snd)

lemma faults_faultWatchdog3:
  "i \<noteq> FAULT_WATCH_BRAKES h \<Longrightarrow> i \<noteq> FAULT_WATCH_WARN h \<Longrightarrow>
     faults (faultWatchdog3 h flt src braking s) i = faults (setFault h (FAULT_WATCH h) flt s) i"
  by (simp add: faultWatchdog3_def Let_def)

lemma faults_faultWatchdog:
  "i \<noteq> FAULT_WATCH_BRAKES h \<Longrightarrow> i \<noteq> FAULT_WATCH_WARN h \<Longrightarrow>
     faults (faultWatchdog h flt src s) i = faults (setFault h (FAULT_WATCH h) flt s) i"
  by (simp add: faultWatchdog_def faults_faultWatchdog3)

lemma faults_publish_report [simp]: "faults (publish_report r s) = faults s"
  by (simp add: publish_report_def)

lemma pub_reports_setFault [simp]:
  "pub_reports (setFault h w v s) = pub_reports s"
  "pub_reports (setOverride h w v s) = pub_reports s"
  "pub_reports (publish_report r s) = pub_reports s @ [r]"
  by (simp_all add: setFault_unfold setOverride_unfold Let_def publishDbwEnabled_snd publish_report_def)

lemma pub_reports_faults_update [simp]: "pub_reports (s\<lparr>faults := f\<rparr>) = pub_reports s"
  by simp

lemma pub_reports_faultWatchdog [simp]:
  "pub_reports (faultWatchdog3 h flt src braking s) = pub_reports s"
  "pub_reports (faultWatchdog h flt src s) = pub_reports s"
  by (simp_all add: faultWatchdog_def faultWatchdog3_def Let_def)

lemma log_request_optional [simp]:
  "faults ((if c then log_request site sev txt else (\<lambda>s. s)) s) = faults s"
  "pub_reports ((if c then log_request site sev txt else (\<lambda>s. s)) s) = pub_reports s"
  "enabled ((if c then log_request site sev txt else (\<lambda>s. s)) s) = enabled s"
  by simp_all

lemma recvAccelPedalRpt_accepted:
  "GetDlc h ID_ACCEL_PEDAL_REPORT \<le> dlc msg \<Longrightarrow>
   recvAccelPedalRpt h msg s =
     (if signal msg ''DBW_AccelPdlFault_Ch1'' \<noteq> 0 \<or> signal msg ''DBW_AccelPdlFault_Ch2'' \<noteq> 0
      then log_request LOG_recvAccelPedalRpt WARN ''Acclerator pedal report received a system fault.'' else (\<lambda>s. s))
       (publish_report (accelPedalReprt msg)
          (setOverride h (OVR_ACCEL h) (signal msg ''DBW_AccelPdlDriverActivity'' \<noteq> 0)
             (faultWatchdog h (signal msg ''DBW_AccelPdlFault'' \<noteq> 0)
                (if signal msg ''DBW_AccelPdlFault'' \<noteq> 0 then 1 else 0)
                (setFault h (FAULT_ACCEL h)
                   (signal msg ''DBW_AccelPdlFault_Ch1'' \<noteq> 0 \<and> signal msg ''DBW_AccelPdlFault_Ch2'' \<noteq> 0) s))))"
  by (simp add: recvAccelPedalRpt_def Let_def bool_of_def)

lemma accelPedalReprt_fields:
  "topic (accelPedalReprt msg) = ''accelerator_pedal_report''"
  "field (accelPedalReprt msg) ''fault_ch1'' = Some (B (signal msg ''DBW_AccelPdlFault_Ch1'' \<noteq> 0))"
  "field (accelPedalReprt msg) ''fault_ch2'' = Some (B (signal msg ''DBW_AccelPdlFault_Ch2'' \<noteq> 0))"
  "field (accelPedalReprt msg) ''fault_accel_pedal_system'' = Some (B (signal msg ''DBW_AccelPdlFault'' \<noteq> 0))"
  by (simp_all add: accelPedalReprt_def field_def bool_of_def Let_def)

lemma accel_report_frame_signals:
  "dlc accel_report_frame = 8"
  "signal accel_report_frame ''DBW_AccelPdlFault_Ch1'' = 1"
  "signal accel_report_frame ''DBW_AccelPdlFault_Ch2'' = 1"
  "signal accel_report_frame ''DBW_AccelPdlFault'' = 0"
  "signal accel_report_frame ''DBW_AccelPdlDriverActivity'' = 0"
  by (simp_all add: accel_report_frame_def sample_frame_def)

lemma sample_hdr_wf:
  "GetDlc sample_hdr ID_ACCEL_PEDAL_REPORT \<le> dlc accel_report_frame"
  "FAULT_ACCEL sample_hdr < NUM_SERIOUS_FAULTS sample_hdr"
  "FAULT_WATCH sample_hdr < NUM_SERIOUS_FAULTS sample_hdr"
  "FAULT_ACCEL sample_hdr \<noteq> FAULT_WATCH sample_hdr"
  "FAULT_ACCEL sample_hdr \<noteq> FAULT_WATCH_BRAKES sample_hdr"
  "FAULT_ACCEL sample_hdr \<noteq> FAULT_WATCH_WARN sample_hdr"
  "FAULT_WATCH sample_hdr \<noteq> FAULT_WATCH_BRAKES sample_hdr"
  "FAULT_WATCH sample_hdr \<noteq> FAULT_WATCH_WARN sample_hdr"
  "OVR_ACCEL sample_hdr < NUM_OVERRIDES sample_hdr"
  by (simp_all add: sample_hdr_simps accel_report_frame_signals)

lemma decoder_drops_truncated:
  "k \<noteq> ID_GEAR_REPORT \<Longrightarrow> dlc msg < GetDlc h k \<Longrightarrow> decoder k h msg s = s"
  by (cases k)
     (simp_all add: recvBrakeRpt_def recvAccelPedalRpt_def recvSteeringRpt_def
        recvWheelSpeedRpt_def recvWheelPositionRpt_def recvTirePressureRpt_def recvSurroundRpt_def
        recvVinRpt_def recvImuRpt_def recvDriverInputRpt_def recvMiscRpt_def
        recvLowVoltageSystemRpt_def recvBrake2Rpt_def recvSteering2Rpt_def recvFaultActionRpt_def
        recvOtherActuatorsRpt_def recvGpsReferenceRpt_def recvGpsRemainderRpt_def recvEngineRpt_def
        recvArticulationRpt_def recvDumpBedRpt_def recvActionRpt_def)

lemma recvGearRpt_drops_empty: "dlc msg = 0 \<Longrightarrow> recvGearRpt h msg s = s"
  by (simp add: recvGearRpt_def)

lemma overrides_setOverride:
  "overrides (setOverride h w v s) = (if w < NUM_OVERRIDES h then (overrides s)(w := v) else overrides s)"
  by (simp add: setOverride_unfold Let_def publishDbwEnabled_snd)

lemma gear_report_frame_signals:
  "dlc gear_report_frame = 1" "signal gear_report_frame ''DBW_PrndDriverActivity'' = 1"
  "signal gear_report_frame ''DBW_PrndMismatchFlash'' = 0"
  by (simp_all add: gear_report_frame_def sample_frame_def)

lemma timerCallback_enabled: "enabled s \<Longrightarrow> timerCallback h s = s"
  by (simp add: timerCallback_def clear_def)

lemma overrides_outputs [simp]:
  "overrides (set_signals m ws s) = overrides s"
  "overrides (publish_frame m s) = overrides s"
  "overrides (timer_frame b m ns s) = overrides s"
  by (simp_all add: set_signals_eq publish_frame_def timer_frame_def)

lemma timerCallback_no_override:
  "\<not> overrides s (OVR_BRAKE h) \<Longrightarrow> \<not> overrides s (OVR_ACCEL h) \<Longrightarrow> \<not> overrides s (OVR_STEER h) \<Longrightarrow>
   \<not> overrides s (OVR_GEAR h) \<Longrightarrow> \<not> overrides s (OVR_DUMP_BED h) \<Longrightarrow> \<not> overrides s (OVR_ENGINE h) \<Longrightarrow>
   timerCallback h s = s"
  by (simp add: timerCallback_def Let_def timer_frame_def)

lemma timer_frame_dump_bed_neutral:
  "timer_frame True ''AKit_DumpBedRequest'' dump_zeroed s = neutral_frame ''AKit_DumpBedRequest'' dump_zeroed [] s"
  "timer_frame True ''AKit_EngineRequest'' engine_zeroed s = neutral_frame ''AKit_EngineRequest'' engine_zeroed [] s"
  by (simp_all add: timer_frame_def neutral_frame_def)

lemma pub_can_simps [simp]:
  "pub_can (set_signals m ws s) = pub_can s"
  "pub_can (publish_frame m s) = pub_can s @ [TxFrame m (dbwDbc s m)]"
  "pub_can (setOverride h w v s) = pub_can s"
  "pub_can (setFault h w v s) = pub_can s"
  by (simp_all add: set_signals_eq publish_frame_def setOverride_unfold setFault_unfold Let_def publishDbwEnabled_snd)

lemma dbwDbc_simps [simp]:
  "dbwDbc (publish_frame m s) = dbwDbc s"
  "dbwDbc (setOverride h w v s) = dbwDbc s"
  "dbwDbc (setFault h w v s) = dbwDbc s"
  by (simp_all add: publish_frame_def setOverride_unfold setFault_unfold Let_def publishDbwEnabled_snd)

lemma SetResult_fields [simp]:
  "overrides (SetResult m n v s) = overrides s"
  "pub_can (SetResult m n v s) = pub_can s"
  "enabled (SetResult m n v s) = enabled s"
  by (simp_all add: SetResult_def enabled_def)

lemma brake_overridden_state_eq:
  "brake_overridden_state =
     setOverride sample_hdr (OVR_BRAKE sample_hdr) True
       (recvBrakeCmd sample_hdr brake_torque_cmd_example enabled_state)"
  by (simp add: brake_overridden_state_def enabled_state_def)

lemma brake_cmd_encoded:
  "dbwDbc (recvBrakeCmd sample_hdr brake_torque_cmd_example enabled_state) ''AKit_BrakeRequest'' =
     (\<lambda>n. 0)(''AKit_BrakeCtrlReqType'' := 1, ''AKit_BrakePcntTorqueReq'' := 50,
             ''AKit_BrakeCtrlEnblReq'' := 1, ''AKit_BrakeRollingCntr'' := 7)"
  "overrides (recvBrakeCmd sample_hdr brake_torque_cmd_example enabled_state) = (\<lambda>i. False)"
  "length (pub_can (recvBrakeCmd sample_hdr brake_torque_cmd_example enabled_state)) = 1"
  by (simp_all add: recvBrakeCmd_def brake_torque_cmd_example_def enabled_state_facts
        enabled_state_dbwDbc sample_hdr_simps dbwDbc_SetResult zeros_def brake_zeroed_def fun_eq_iff)

lemma brake_overridden_state_facts:
  "\<not> enabled brake_overridden_state"
  "overrides brake_overridden_state = (\<lambda>i. False)(OVR_BRAKE sample_hdr := True)"
  "dbwDbc brake_overridden_state ''AKit_BrakeRequest'' =
     (\<lambda>n. 0)(''AKit_BrakeCtrlReqType'' := 1, ''AKit_BrakePcntTorqueReq'' := 50,
             ''AKit_BrakeCtrlEnblReq'' := 1, ''AKit_BrakeRollingCntr'' := 7)"
  "length (pub_can brake_overridden_state) = 1"
  unfolding brake_overridden_state_eq
  by (simp_all add: overrides_setOverride brake_cmd_encoded sample_hdr_simps)

lemma seconds_samples: "seconds time_10_9 = 109 / 10" "seconds time_11_0 = 11" "seconds time0 = 0"
  by (simp_all add: seconds_def time_10_9_def time_11_0_def time0_def)

lemma fmod_small:
  assumes "0 \<le> x" and "x < y"
  shows "fmod x y = x"
proof -
  from assms have "0 < y" by simp
  with assms have "0 \<le> x / y" "x / y < 1" by simp_all
  then have "\<lfloor>x / y\<rfloor> = 0" by (simp add: floor_eq_iff)
  with assms show ?thesis by (simp add: fmod_def trunc_def)
qed

lemma publishJointStates_wheels_unfold:
  "publishJointStates_wheels t wheels s =
     (let js = joint_state s;
          dt = joint_dt t js;
          js3 = js\<lparr>velocity := (velocity js)
                      (JOINT_FL := front_left wheels, JOINT_FR := front_right wheels,
                       JOINT_RL := rear_left wheels, JOINT_RR := rear_right wheels),
                    position :=
                      (if dt < 0.5
                       then (position js)
                          (JOINT_FL := fmod (position js JOINT_FL + dt * front_left wheels) (2 * pi),
                           JOINT_FR := fmod (position js JOINT_FR + dt * front_right wheels) (2 * pi),
                           JOINT_RL := fmod (position js JOINT_RL + dt * rear_left wheels) (2 * pi),
                           JOINT_RR := fmod (position js JOINT_RR + dt * rear_right wheels) (2 * pi))
                       else position js),
                    stamp := t\<rparr>
      in s\<lparr>joint_state := js3, pub_joint_states := pub_joint_states s @ [js3]\<rparr>)"
  by (simp add: publishJointStates_wheels_def Let_def publish_joint_state_def wheel_joints_def)

lemma wheel_speed_report_integration:
  assumes "GetDlc h ID_REPORT_WHEEL_SPEED \<le> dlc msg"
  shows "velocity (joint_state (recvWheelSpeedRpt h msg s)) JOINT_FL = signal msg ''DBW_WhlSpd_FL''"
    and "velocity (joint_state (recvWheelSpeedRpt h msg s)) JOINT_FR = signal msg ''DBW_WhlSpd_FR''"
    and "velocity (joint_state (recvWheelSpeedRpt h msg s)) JOINT_RL = signal msg ''DBW_WhlSpd_RL''"
    and "velocity (joint_state (recvWheelSpeedRpt h msg s)) JOINT_RR = signal msg ''DBW_WhlSpd_RR''"
    and "joint_dt (header_stamp msg) (joint_state s) < 0.5 \<Longrightarrow>
           position (joint_state (recvWheelSpeedRpt h msg s)) JOINT_FL =
             fmod (position (joint_state s) JOINT_FL
                   + joint_dt (header_stamp msg) (joint_state s) * signal msg ''DBW_WhlSpd_FL'') (2 * pi)"
    and "\<not> joint_dt (header_stamp msg) (joint_state s) < 0.5 \<Longrightarrow>
           position (joint_state (recvWheelSpeedRpt h msg s)) = position (joint_state s)"
    and "pub_joint_states (recvWheelSpeedRpt h msg s) =
           pub_joint_states s @ [joint_state (recvWheelSpeedRpt h msg s)]"
    and "stamp (joint_state (recvWheelSpeedRpt h msg s)) = header_stamp msg"
  using assms
  by (simp_all add: recvWheelSpeedRpt_def publishJointStates_wheels_unfold Let_def publish_report_def)

lemma joint_dt_elapsed:
  "nanosec (stamp js) = 0 \<Longrightarrow> joint_dt t js = seconds t - seconds (stamp js)"
  by (simp add: joint_dt_def seconds_def)

lemma wheel_example_tenth:
  "fmod (0 + (1 / 10) * 1) (2 * pi) = 1 / 10"
proof -
  have "(1 / 10 :: real) < 2 * pi" using pi_ge_two by simp
  then show ?thesis by (simp add: fmod_small)
qed

lemma enableSystem_accepts_iff_no_fault:
  "(enabled s \<longrightarrow> enableSystem h s = s)
   \<and> (\<not> enabled s \<longrightarrow>
        (enabled (enableSystem h s) \<longleftrightarrow>
           \<not> (\<exists>i. FAULT_ACCEL h \<le> i \<and> i < NUM_SERIOUS_FAULTS h \<and> faults s i)))
   \<and> (\<not> enabled s \<and> (\<exists>i. FAULT_ACCEL h \<le> i \<and> i < NUM_SERIOUS_FAULTS h \<and> faults s i) \<longrightarrow>
        enables (enableSystem h s) = enables s
        \<and> pub_sys_enable (enableSystem h s) = pub_sys_enable s
        \<and> length (logged (enableSystem h s)) \<le> Suc (length (logged s)))
   \<and> (\<not> enabled s \<and> \<not> (\<exists>i. FAULT_ACCEL h \<le> i \<and> i < NUM_SERIOUS_FAULTS h \<and> faults s i) \<longrightarrow>
        enables (enableSystem h s) EN_DBW
        \<and> pub_sys_enable (enableSystem h s) =
            pub_sys_enable s @ (if enables s EN_DBW_PREV then [] else [True]))"
proof -
  have a: "enabled s \<Longrightarrow> enableSystem h s = s"
    by (simp add: enableSystem_unfold)
  have b: "\<not> enabled s \<Longrightarrow> enabled (enableSystem h s) = (\<not> fault h s)"
    by (simp add: enabled_enableSystem_iff)
  have c: "\<not> enabled s \<Longrightarrow> fault h s \<Longrightarrow>
        enables (enableSystem h s) = enables s
        \<and> pub_sys_enable (enableSystem h s) = pub_sys_enable s
        \<and> length (logged (enableSystem h s)) \<le> Suc (length (logged s))"
    by (simp add: enableSystem_unfold log_faults_at_most_one)
  have e: "\<not> enabled s \<Longrightarrow> \<not> fault h s \<Longrightarrow>
        enables (enableSystem h s) EN_DBW
        \<and> pub_sys_enable (enableSystem h s) =
            pub_sys_enable s @ (if enables s EN_DBW_PREV then [] else [True])"
    by (simp add: enableSystem_unfold Let_def publishDbwEnabled_snd publishDbwEnabled_fst enabled_def)
  show ?thesis
    using a b c e unfolding fault_iff by blast
qed

lemma two_faults_state_eq:
  "two_faults_state =
     (setFault sample_hdr (FAULT_BRAKE sample_hdr) True
        (setFault sample_hdr (FAULT_ACCEL sample_hdr) True (RaptorDbwCAN 470 90 45)))
     \<lparr>m_clock := 5000000000\<rparr>"
  by (simp add: two_faults_state_def)

lemma logged_setFault_disabled:
  "\<not> enabled s \<Longrightarrow> \<not> enables s EN_DBW_PREV \<Longrightarrow> logged (setFault h w True s) = logged s"
  "\<not> enabled s \<Longrightarrow> \<not> enables s EN_DBW_PREV \<Longrightarrow> last_logged (setFault h w True s) = last_logged s"
  "\<not> enabled s \<Longrightarrow> \<not> enables s EN_DBW_PREV \<Longrightarrow> \<not> enables (setFault h w True s) EN_DBW_PREV"
  by (simp_all add: setFault_unfold Let_def publishDbwEnabled_snd publishDbwEnabled_fst)
     (simp_all add: enabled_def)

lemma two_faults_state_facts:
  "\<not> enabled two_faults_state"
  "faults two_faults_state = (\<lambda>i. False)(FAULT_ACCEL sample_hdr := True, FAULT_BRAKE sample_hdr := True)"
  "logged two_faults_state = []"
  "last_logged two_faults_state = (\<lambda>site. 0)"
  "m_clock two_faults_state = 5000000000"
  unfolding two_faults_state_eq
  by (simp_all add: RaptorDbwCAN_facts faults_setFault sample_hdr_simps logged_setFault_disabled
        RaptorDbwCAN_outputs)

section \<open>The claims\<close>

text \<open>
  C1. Whenever \<^verbatim>\<open>setFault\<close> or \<^verbatim>\<open>setOverride\<close> is called with an identifier in
  range and the value true while the system is enabled, the system is disabled when
  the call returns. The only publication of the call is made by
  \<^verbatim>\<open>publishDbwEnabled\<close> on a state \<open>s2\<close> in which the system is disabled already
  and nothing has been published yet, so every state-change event of the call carries
  the value false. After the call, whatever sequence of calls follows, the system is
  enabled again only if the sequence contains an enable request that arrives while the
  system is disabled and no serious fault is set, and that request enables it.
\<close>

theorem setFault_setOverride_disable:
  assumes "enabled s"
  shows "(which_fault < NUM_SERIOUS_FAULTS h \<longrightarrow>
            (let s2 = s\<lparr>enables := (enables s)(EN_DBW := False),
                         faults := (faults s)(which_fault := True)\<rparr>;
                 s' = setFault h which_fault True s
             in \<not> enabled s'
              \<and> \<not> enabled s2 \<and> pub_sys_enable s2 = pub_sys_enable s
              \<and> pub_sys_enable s' = pub_sys_enable (snd (publishDbwEnabled s2))
              \<and> pub_sys_enable s' = pub_sys_enable s @ (if enables s EN_DBW_PREV then [False] else [])
              \<and> (\<forall>cs. enabled (run h cs s') \<longrightarrow>
                    (\<exists>pre post. cs = pre @ RecvEnable # post \<and> \<not> enabled (run h pre s')
                       \<and> \<not> fault h (run h pre s') \<and> enabled (run h (pre @ [RecvEnable]) s')))))
       \<and> (which_ovr < NUM_OVERRIDES h \<longrightarrow>
            (let s2 = s\<lparr>enables := (enables s)(EN_DBW := False),
                         overrides := (overrides s)(which_ovr := True)\<rparr>;
                 s' = setOverride h which_ovr True s
             in \<not> enabled s'
              \<and> \<not> enabled s2 \<and> pub_sys_enable s2 = pub_sys_enable s
              \<and> pub_sys_enable s' = pub_sys_enable (snd (publishDbwEnabled s2))
              \<and> pub_sys_enable s' = pub_sys_enable s @ (if enables s EN_DBW_PREV then [False] else [])
              \<and> (\<forall>cs. enabled (run h cs s') \<longrightarrow>
                    (\<exists>pre post. cs = pre @ RecvEnable # post \<and> \<not> enabled (run h pre s')
                       \<and> \<not> fault h (run h pre s') \<and> enabled (run h (pre @ [RecvEnable]) s')))))"
proof -
  have f: "which_fault < NUM_SERIOUS_FAULTS h \<Longrightarrow> \<not> enabled (setFault h which_fault True s)"
    by simp
  have o: "which_ovr < NUM_OVERRIDES h \<Longrightarrow> \<not> enabled (setOverride h which_ovr True s)"
    by simp
  have pf: "which_fault < NUM_SERIOUS_FAULTS h \<Longrightarrow>
      pub_sys_enable (setFault h which_fault True s) =
      pub_sys_enable (snd (publishDbwEnabled (s\<lparr>enables := (enables s)(EN_DBW := False),
                         faults := (faults s)(which_fault := True)\<rparr>)))"
    using assms by (simp add: setFault_unfold Let_def)
  have po: "which_ovr < NUM_OVERRIDES h \<Longrightarrow>
      pub_sys_enable (setOverride h which_ovr True s) =
      pub_sys_enable (snd (publishDbwEnabled (s\<lparr>enables := (enables s)(EN_DBW := False),
                         overrides := (overrides s)(which_ovr := True)\<rparr>)))"
    using assms by (simp add: setOverride_unfold Let_def)
  have ev: "pub_sys_enable (snd (publishDbwEnabled (s\<lparr>enables := (enables s)(EN_DBW := False),
                         faults := (faults s)(which_fault := True)\<rparr>)))
            = pub_sys_enable s @ (if enables s EN_DBW_PREV then [False] else [])"
       "pub_sys_enable (snd (publishDbwEnabled (s\<lparr>enables := (enables s)(EN_DBW := False),
                         overrides := (overrides s)(which_ovr := True)\<rparr>)))
            = pub_sys_enable s @ (if enables s EN_DBW_PREV then [False] else [])"
    by (simp_all add: publishDbwEnabled_snd enabled_def)
  show ?thesis
    using f o pf po ev enabled_run[of h _ "setFault h which_fault True s"]
      enabled_run[of h _ "setOverride h which_ovr True s"]
    by (simp add: Let_def enabled_def)
qed

theorem setFault_setOverride_disable_witness:
  "enabled enabled_state \<and> FAULT_BRAKE sample_hdr < NUM_SERIOUS_FAULTS sample_hdr
   \<and> OVR_STEER sample_hdr < NUM_OVERRIDES sample_hdr
   \<and> \<not> enabled (setFault sample_hdr (FAULT_BRAKE sample_hdr) True enabled_state)
   \<and> pub_sys_enable (setFault sample_hdr (FAULT_BRAKE sample_hdr) True enabled_state) = [False, True, False]
   \<and> \<not> enabled (setOverride sample_hdr (OVR_STEER sample_hdr) True enabled_state)
   \<and> pub_sys_enable (setOverride sample_hdr (OVR_STEER sample_hdr) True enabled_state) = [False, True, False]"
proof -
  have e: "enabled enabled_state" by (simp add: enabled_state_facts)
  have f: "FAULT_BRAKE sample_hdr < NUM_SERIOUS_FAULTS sample_hdr" by (simp add: sample_hdr_simps)
  have o: "OVR_STEER sample_hdr < NUM_OVERRIDES sample_hdr" by (simp add: sample_hdr_simps)
  note th = setFault_setOverride_disable[OF e, of "FAULT_BRAKE sample_hdr" sample_hdr "OVR_STEER sample_hdr"]
  from th f have "\<not> enabled (setFault sample_hdr (FAULT_BRAKE sample_hdr) True enabled_state)
     \<and> pub_sys_enable (setFault sample_hdr (FAULT_BRAKE sample_hdr) True enabled_state)
        = pub_sys_enable enabled_state @ (if enables enabled_state EN_DBW_PREV then [False] else [])"
    unfolding Let_def by blast
  moreover from th o have "\<not> enabled (setOverride sample_hdr (OVR_STEER sample_hdr) True enabled_state)
     \<and> pub_sys_enable (setOverride sample_hdr (OVR_STEER sample_hdr) True enabled_state)
        = pub_sys_enable enabled_state @ (if enables enabled_state EN_DBW_PREV then [False] else [])"
    unfolding Let_def by blast
  ultimately show ?thesis using e f o by (simp add: enabled_state_facts)
qed

text \<open>
  C4. \<^verbatim>\<open>publishDbwEnabled\<close> publishes exactly when the enabled value differs from the
  shadow \<^verbatim>\<open>enables_[EN_DBW_PREV]\<close>, and what it publishes is the enabled value. It
  leaves the shadow equal to the enabled value, changes nothing when it does not
  publish, and an immediate second call never publishes. Two consecutive calls
  \<^verbatim>\<open>setFault(X, true)\<close> publish at most once, the second never; in a state reached from
  the constructor by any sequence of calls in which the system is enabled they publish
  exactly one event, the value false. The constructor sets the shadow so that its own
  first call of \<^verbatim>\<open>publishDbwEnabled\<close> fires.
\<close>

theorem publishDbwEnabled_edge_triggered:
  "fst (publishDbwEnabled s) = (enabled s \<noteq> enables s EN_DBW_PREV)
   \<and> pub_sys_enable (snd (publishDbwEnabled s)) =
       pub_sys_enable s @ (if enabled s \<noteq> enables s EN_DBW_PREV then [enabled s] else [])
   \<and> enables (snd (publishDbwEnabled s)) EN_DBW_PREV = enabled s
   \<and> enabled (snd (publishDbwEnabled s)) = enabled s
   \<and> (\<not> fst (publishDbwEnabled s) \<longrightarrow> snd (publishDbwEnabled s) = s)
   \<and> \<not> fst (publishDbwEnabled (snd (publishDbwEnabled s)))
   \<and> (which_fault < NUM_SERIOUS_FAULTS h \<longrightarrow>
        pub_sys_enable (setFault h which_fault True (setFault h which_fault True s)) =
          pub_sys_enable s @ (if enables s EN_DBW_PREV then [False] else [])
      \<and> pub_sys_enable (setFault h which_fault True (setFault h which_fault True s)) =
          pub_sys_enable (setFault h which_fault True s))
   \<and> (which_fault < NUM_SERIOUS_FAULTS h \<and> enabled (run h cs (RaptorDbwCAN a b c)) \<longrightarrow>
        pub_sys_enable (setFault h which_fault True (setFault h which_fault True (run h cs (RaptorDbwCAN a b c)))) =
          pub_sys_enable (run h cs (RaptorDbwCAN a b c)) @ [False])
   \<and> fst (publishDbwEnabled (members a b c))
   \<and> pub_sys_enable (RaptorDbwCAN a b c) = [False]"
proof -
  have idem: "\<not> fst (publishDbwEnabled s) \<Longrightarrow> snd (publishDbwEnabled s) = s"
    by (simp add: publishDbwEnabled_fst publishDbwEnabled_snd fun_upd_idem)
  have again: "\<not> fst (publishDbwEnabled (snd (publishDbwEnabled s)))"
    by (simp add: publishDbwEnabled_fst publishDbwEnabled_snd) (simp add: enabled_def)
  have twice: "which_fault < NUM_SERIOUS_FAULTS h \<Longrightarrow>
        pub_sys_enable (setFault h which_fault True (setFault h which_fault True s)) =
          pub_sys_enable s @ (if enables s EN_DBW_PREV then [False] else [])" for s
    by (simp add: pub_setFault_True prev_setFault_True)
  have "in_sync (run h cs (RaptorDbwCAN a b c))"
    by (simp add: in_sync_run in_sync_RaptorDbwCAN)
  then have reach: "enabled (run h cs (RaptorDbwCAN a b c)) \<Longrightarrow> enables (run h cs (RaptorDbwCAN a b c)) EN_DBW_PREV"
    by (simp add: in_sync_def)
  show ?thesis
    using idem again twice reach
    by (auto simp add: publishDbwEnabled_fst publishDbwEnabled_snd pub_setFault_True RaptorDbwCAN_facts)
qed

theorem publishDbwEnabled_edge_triggered_witness:
  "FAULT_BRAKE sample_hdr < NUM_SERIOUS_FAULTS sample_hdr
   \<and> enabled (run sample_hdr [RecvEnable] (RaptorDbwCAN 470 90 45))
   \<and> pub_sys_enable (setFault sample_hdr (FAULT_BRAKE sample_hdr) True
        (setFault sample_hdr (FAULT_BRAKE sample_hdr) True (run sample_hdr [RecvEnable] (RaptorDbwCAN 470 90 45))))
      = [False, True, False]"
proof -
  have f: "FAULT_BRAKE sample_hdr < NUM_SERIOUS_FAULTS sample_hdr" by (simp add: sample_hdr_simps)
  have e: "run sample_hdr [RecvEnable] (RaptorDbwCAN 470 90 45) = enabled_state"
    by (simp add: enabled_state_def)
  from publishDbwEnabled_edge_triggered[of enabled_state "FAULT_BRAKE sample_hdr" sample_hdr "[RecvEnable]" 470 90 45]
  have "FAULT_BRAKE sample_hdr < NUM_SERIOUS_FAULTS sample_hdr \<and> enabled enabled_state \<longrightarrow>
        pub_sys_enable (setFault sample_hdr (FAULT_BRAKE sample_hdr) True
          (setFault sample_hdr (FAULT_BRAKE sample_hdr) True enabled_state)) =
          pub_sys_enable enabled_state @ [False]"
    unfolding e by blast
  with f show ?thesis unfolding e by (simp add: enabled_state_facts)
qed

text \<open>
  C2. \<^verbatim>\<open>enableSystem\<close> changes nothing when the system is active already, and when it
  is not, the request enables the system if and only if no serious fault is set
  (\<open>enableSystem_accepts_iff_no_fault\<close>). But the loop that builds one message for each
  serious fault that is set sends them all through one throttled log macro, which writes
  at most one message in a second, so a rejected request writes at most one message
  (\<open>log_faults_at_most_one\<close>). With the accelerator pedal fault and the brake fault set
  and the clock at five seconds, the request is rejected and the log receives the
  message of the accelerator pedal fault only: the brake fault is set and is not logged.
\<close>

theorem enableSystem_logs_first_fault_only:
  "\<not> enabled two_faults_state
   \<and> FAULT_ACCEL sample_hdr \<le> FAULT_ACCEL sample_hdr
   \<and> FAULT_ACCEL sample_hdr < NUM_SERIOUS_FAULTS sample_hdr
   \<and> FAULT_ACCEL sample_hdr \<le> FAULT_BRAKE sample_hdr
   \<and> FAULT_BRAKE sample_hdr < NUM_SERIOUS_FAULTS sample_hdr
   \<and> faults two_faults_state (FAULT_ACCEL sample_hdr)
   \<and> faults two_faults_state (FAULT_BRAKE sample_hdr)
   \<and> logged two_faults_state = []
   \<and> \<not> enabled (enableSystem sample_hdr two_faults_state)
   \<and> logged (enableSystem sample_hdr two_faults_state)
       = [(ERROR, ''DBW system disabled - accelerator pedal fault.'')]
   \<and> (ERROR, ''DBW system disabled - '' @ FAULT_SYSTEM sample_hdr (FAULT_BRAKE sample_hdr) @ '' fault.'')
       \<notin> set (logged (enableSystem sample_hdr two_faults_state))"
proof -
  have f: "fault sample_hdr two_faults_state"
    by (simp add: fault_iff two_faults_state_facts sample_hdr_simps) (rule exI[of _ 0], simp)
  have r: "[0 ..< 8] = [0, 1, 2, 3, 4, 5, 6, 7 :: nat]"
    by (simp add: upt_rec)
  have n: "FAULT_SYSTEM sample_hdr 0 = ''accelerator pedal''" "FAULT_SYSTEM sample_hdr 1 = ''brake''"
    "FAULT_SYSTEM sample_hdr (Suc 0) = ''brake''"
    by (simp_all add: sample_hdr_def)
  have l: "logged (enableSystem sample_hdr two_faults_state)
       = [(ERROR, ''DBW system disabled - accelerator pedal fault.'')]"
    by (simp add: enableSystem_unfold f two_faults_state_facts r log_request_def CLOCK_1_SEC_def
          sample_hdr_simps n)
  have e: "\<not> enabled (enableSystem sample_hdr two_faults_state)"
    by (simp add: enabled_enableSystem_iff f two_faults_state_facts)
  show ?thesis
    using l e by (simp add: two_faults_state_facts sample_hdr_simps n)
qed

text \<open>
  C3, as amended. While the system is not enabled every encoder sends the neutral
  encoding of its message: each signal of its zero list is 0, whatever the other fields
  of the command are, and only the rolling counter (and, for the accelerator pedal and
  the steering, the ignore flag) is copied from the command. The action, articulation,
  dump bed and engine encoders send the same frame when the command's own enable flag
  is false, also while the system is enabled. For brake, accelerator pedal, steering and
  gear a false enable flag leaves the enable request signal of the frame at 0.
\<close>

theorem encoder_neutral_when_disabled:
  "(\<not> enabled s \<longrightarrow>
      recvBrakeCmd h bc s =
        neutral_frame ''AKit_BrakeRequest'' brake_zeroed
          [(''AKit_BrakeRollingCntr'', real (brake_rolling_counter bc))] s
    \<and> recvAcceleratorPedalCmd h ac s =
        neutral_frame ''AKit_AccelPdlRequest'' accel_zeroed
          ([(''AKit_AccelPdlRollingCntr'', real (accel_rolling_counter ac))] @
           (if accel_ignore ac then [(''AKit_AccelPdlIgnoreDriverOvrd'', 1)] else [])) s
    \<and> recvSteeringCmd h sc s =
        neutral_frame ''AKit_SteeringRequest'' steer_zeroed
          ((if steer_ignore sc then [(''AKit_SteeringWhlIgnoreDriverOvrd'', 1)] else []) @
           [(''AKit_SteerRollingCntr'', real (steer_rolling_counter sc))]) s
    \<and> recvGearCmd gc s =
        neutral_frame ''AKit_PrndRequest'' gear_zeroed
          [(''AKit_PrndRollingCntr'', real (gear_rolling_counter gc))] s
    \<and> recvGlobalEnableCmd glc s =
        neutral_frame ''AKit_GlobalEnbl'' global_zeroed
          [(''AKit_GlobalEnblRollingCntr'', real (global_rolling_counter glc))] s
    \<and> recvMiscCmd mc s =
        neutral_frame ''AKit_OtherActuators'' misc_zeroed
          [(''AKit_OtherRollingCntr'', real (misc_rolling_counter mc))] s)
   \<and> (\<not> enabled s \<or> \<not> action_enable acc \<longrightarrow>
        recvActionCmd acc s =
          neutral_frame ''AKit_ActionRequest'' action_zeroed
            [(''AKit_ActionRollingCntr'', real (action_rolling_counter acc))] s)
   \<and> (\<not> enabled s \<or> \<not> artic_enable arc \<longrightarrow>
        recvArticulationCmd h arc s =
          neutral_frame ''AKit_ArticulationRequest'' artic_zeroed
            [(''AKit_ArticulationRollingCntr'', real (artic_rolling_counter arc))] s)
   \<and> (\<not> enabled s \<or> \<not> dump_enable dc \<longrightarrow>
        recvDumpBedCmd h dc s =
          neutral_frame ''AKit_DumpBedRequest'' dump_zeroed
            [(''AKit_DumpBedRollingCntr'', real (dump_rolling_counter dc))] s)
   \<and> (\<not> enabled s \<or> \<not> engine_enable ec \<longrightarrow>
        recvEngineCmd h ec s =
          neutral_frame ''AKit_EngineRequest'' engine_zeroed
            [(''AKit_EngineRollingCntr'', real (engine_rolling_counter ec))] s)
   \<and> (n \<in> set zs \<and> n \<notin> fst ` set copied \<longrightarrow> sent (neutral_frame m zs copied s) n = 0)
   \<and> (\<not> brake_enable bc \<longrightarrow> sent (recvBrakeCmd h bc s) ''AKit_BrakeCtrlEnblReq'' = 0)
   \<and> (\<not> accel_enable ac \<longrightarrow> sent (recvAcceleratorPedalCmd h ac s) ''AKit_AccelPdlEnblReq'' = 0)
   \<and> (\<not> steer_enable sc \<longrightarrow> sent (recvSteeringCmd h sc s) ''AKit_SteerCtrlEnblReq'' = 0)
   \<and> (\<not> gear_enable gc \<longrightarrow> sent (recvGearCmd gc s) ''AKit_PrndCtrlEnblReq'' = 0)"
proof -
  have b: "\<not> brake_enable bc \<Longrightarrow> sent (recvBrakeCmd h bc s) ''AKit_BrakeCtrlEnblReq'' = 0"
    by (simp add: recvBrakeCmd_def dbwDbc_SetResult zeros_def brake_zeroed_def)
  have a: "\<not> accel_enable ac \<Longrightarrow> sent (recvAcceleratorPedalCmd h ac s) ''AKit_AccelPdlEnblReq'' = 0"
    by (simp add: recvAcceleratorPedalCmd_def dbwDbc_SetResult zeros_def accel_zeroed_def)
  have st: "\<not> steer_enable sc \<Longrightarrow> sent (recvSteeringCmd h sc s) ''AKit_SteerCtrlEnblReq'' = 0"
    by (simp add: recvSteeringCmd_def dbwDbc_SetResult zeros_def steer_zeroed_def)
  have g: "\<not> gear_enable gc \<Longrightarrow> sent (recvGearCmd gc s) ''AKit_PrndCtrlEnblReq'' = 0"
    by (simp add: recvGearCmd_def dbwDbc_SetResult zeros_def gear_zeroed_def)
  show ?thesis
    using a b st g
    by (simp add: neutral_frame_zero)
       (simp add: recvBrakeCmd_def recvAcceleratorPedalCmd_def recvSteeringCmd_def
      recvGearCmd_def recvGlobalEnableCmd_def recvMiscCmd_def recvActionCmd_def
      recvArticulationCmd_def recvDumpBedCmd_def recvEngineCmd_def neutral_frame_def)
qed

theorem encoder_neutral_when_disabled_witness:
  "\<not> enabled (RaptorDbwCAN 470 90 45) \<and> \<not> brake_enable brake_example
   \<and> ''AKit_BrakePedalReq'' \<in> set brake_zeroed
   \<and> ''AKit_BrakePedalReq'' \<notin> fst ` set [(''AKit_BrakeRollingCntr'', real (brake_rolling_counter brake_example))]
   \<and> sent (recvBrakeCmd sample_hdr brake_example (RaptorDbwCAN 470 90 45)) ''AKit_BrakePedalReq'' = 0
   \<and> recvBrakeCmd sample_hdr brake_example (RaptorDbwCAN 470 90 45)
       = recvBrakeCmd sample_hdr brake_zero (RaptorDbwCAN 470 90 45)
   \<and> sent (recvBrakeCmd sample_hdr brake_example enabled_state) ''AKit_BrakeCtrlEnblReq'' = 0"
proof -
  let ?s = "RaptorDbwCAN 470 90 45"
  let ?c = "[(''AKit_BrakeRollingCntr'', real (brake_rolling_counter brake_example))]"
  have d: "\<not> enabled ?s" by (simp add: RaptorDbwCAN_facts)
  have e: "\<not> brake_enable brake_example" by (simp add: brake_example_def)
  have m: "''AKit_BrakePedalReq'' \<in> set brake_zeroed" by (simp add: brake_zeroed_def)
  have nc: "''AKit_BrakePedalReq'' \<notin> fst ` set ?c" by simp
  have rc: "brake_rolling_counter brake_zero = brake_rolling_counter brake_example"
    by (simp add: brake_zero_def brake_example_def)
  note th1 = encoder_neutral_when_disabled[where s = ?s and h = sample_hdr and bc = brake_example
      and n = "''AKit_BrakePedalReq''" and zs = brake_zeroed and copied = ?c
      and m = "''AKit_BrakeRequest''"]
  note th2 = encoder_neutral_when_disabled[where s = ?s and h = sample_hdr and bc = brake_zero]
  note th3 = encoder_neutral_when_disabled[where s = enabled_state and h = sample_hdr and bc = brake_example]
  from th1 d have 1: "recvBrakeCmd sample_hdr brake_example ?s = neutral_frame ''AKit_BrakeRequest'' brake_zeroed ?c ?s"
    by blast
  from th2 d have 2: "recvBrakeCmd sample_hdr brake_zero ?s = neutral_frame ''AKit_BrakeRequest'' brake_zeroed ?c ?s"
    unfolding rc by blast
  from th1 m nc have 3: "sent (neutral_frame ''AKit_BrakeRequest'' brake_zeroed ?c ?s) ''AKit_BrakePedalReq'' = 0"
    by blast
  from th3 e have 4: "sent (recvBrakeCmd sample_hdr brake_example enabled_state) ''AKit_BrakeCtrlEnblReq'' = 0"
    by blast
  show ?thesis using d e m nc 1 2 3 4 by simp
qed

text \<open>
  The sentence without the amendment fails. With the system enabled, a brake command
  whose enable flag is false and whose pedal position is 1/2 is encoded with the pedal
  request 1/2, not as the frame of the all-zero command with the same counter; and with
  the system disabled the rolling counter 5 of the command is in the frame.
\<close>

theorem encoder_neutral_counterexample:
  "\<not> brake_enable brake_example
   \<and> sent (recvBrakeCmd sample_hdr brake_example enabled_state) ''AKit_BrakePedalReq'' = 1 / 2
   \<and> sent (recvBrakeCmd sample_hdr brake_zero enabled_state) ''AKit_BrakePedalReq'' = 0
   \<and> last_frame (recvBrakeCmd sample_hdr brake_example enabled_state)
       \<noteq> last_frame (recvBrakeCmd sample_hdr brake_zero enabled_state)
   \<and> \<not> enabled (RaptorDbwCAN 470 90 45)
   \<and> sent (recvBrakeCmd sample_hdr brake_example (RaptorDbwCAN 470 90 45)) ''AKit_BrakeRollingCntr'' = 5"
proof -
  have 1: "sent (recvBrakeCmd sample_hdr brake_example enabled_state) ''AKit_BrakePedalReq'' = 1 / 2"
    by (simp add: recvBrakeCmd_def brake_example_def enabled_state_facts sample_hdr_simps
          dbwDbc_SetResult zeros_def brake_zeroed_def)
  have 2: "sent (recvBrakeCmd sample_hdr brake_zero enabled_state) ''AKit_BrakePedalReq'' = 0"
    by (simp add: recvBrakeCmd_def brake_zero_def enabled_state_facts sample_hdr_simps
          dbwDbc_SetResult zeros_def brake_zeroed_def)
  have 3: "sent (recvBrakeCmd sample_hdr brake_example (RaptorDbwCAN 470 90 45)) ''AKit_BrakeRollingCntr'' = 5"
    by (simp add: recvBrakeCmd_def brake_example_def RaptorDbwCAN_facts
          dbwDbc_SetResult zeros_def brake_zeroed_def)
  from 1 2 have "last_frame (recvBrakeCmd sample_hdr brake_example enabled_state)
       \<noteq> last_frame (recvBrakeCmd sample_hdr brake_zero enabled_state)"
    by (auto simp: sent_def)
  with 1 2 3 show ?thesis by (simp add: brake_example_def RaptorDbwCAN_facts)
qed

text \<open>
  C8, as amended. While the system is enabled the steering encoder sends a non-zero
  angle velocity \<open>v\<close> as \<open>max 1 (min 254 (round (\<bar>v\<bar> / 2)))\<close>, a value between 1 and 254,
  so never zero; an angle velocity of zero, or a system that is not enabled, leaves the
  field at 0. The articulation and the dump bed encoders copy the velocity limit of the
  command as it is when the system and the command are both enabled, and send 0
  otherwise.
\<close>

theorem velocity_limit_encoding:
  "(enabled s \<and> steer_angle_velocity sc \<noteq> 0 \<longrightarrow>
      sent (recvSteeringCmd h sc s) ''AKit_SteeringWhlAngleVelocityLim''
        = max 1 (min 254 (real_of_int (round (\<bar>steer_angle_velocity sc\<bar> / 2))))
    \<and> 1 \<le> sent (recvSteeringCmd h sc s) ''AKit_SteeringWhlAngleVelocityLim''
    \<and> sent (recvSteeringCmd h sc s) ''AKit_SteeringWhlAngleVelocityLim'' \<le> 254)
   \<and> (\<not> enabled s \<or> steer_angle_velocity sc = 0 \<longrightarrow>
        sent (recvSteeringCmd h sc s) ''AKit_SteeringWhlAngleVelocityLim'' = 0)
   \<and> (enabled s \<and> artic_enable arc \<longrightarrow>
        sent (recvArticulationCmd h arc s) ''AKit_ArticulationVelocityLimit'' = artic_velocity_limit arc)
   \<and> (\<not> enabled s \<or> \<not> artic_enable arc \<longrightarrow>
        sent (recvArticulationCmd h arc s) ''AKit_ArticulationVelocityLimit'' = 0)
   \<and> (enabled s \<and> dump_enable dc \<longrightarrow>
        sent (recvDumpBedCmd h dc s) ''AKit_DumpBedVelocityLimit'' = dump_velocity_limit dc)
   \<and> (\<not> enabled s \<or> \<not> dump_enable dc \<longrightarrow>
        sent (recvDumpBedCmd h dc s) ''AKit_DumpBedVelocityLimit'' = 0)"
  using vcmd_bounds[of "steer_angle_velocity sc"]
  by (auto simp add: steer_velocity_signal artic_velocity_signal dump_velocity_signal vcmd_round)

theorem velocity_limit_encoding_witness:
  "enabled enabled_state \<and> steer_angle_velocity (steer_example\<lparr>steer_angle_velocity := 7\<rparr>) \<noteq> 0
   \<and> sent (recvSteeringCmd sample_hdr (steer_example\<lparr>steer_angle_velocity := 7\<rparr>) enabled_state)
        ''AKit_SteeringWhlAngleVelocityLim'' = 4
   \<and> artic_enable artic_example
   \<and> sent (recvArticulationCmd sample_hdr artic_example enabled_state) ''AKit_ArticulationVelocityLimit'' = 10
   \<and> dump_enable dump_example
   \<and> sent (recvDumpBedCmd sample_hdr dump_example enabled_state) ''AKit_DumpBedVelocityLimit'' = 10
   \<and> \<not> enabled (RaptorDbwCAN 470 90 45)
   \<and> sent (recvSteeringCmd sample_hdr (steer_example\<lparr>steer_angle_velocity := 7\<rparr>) (RaptorDbwCAN 470 90 45))
        ''AKit_SteeringWhlAngleVelocityLim'' = 0"
proof -
  let ?sc = "steer_example\<lparr>steer_angle_velocity := 7\<rparr>"
  have e: "enabled enabled_state" by (simp add: enabled_state_facts)
  have d: "\<not> enabled (RaptorDbwCAN 470 90 45)" by (simp add: RaptorDbwCAN_facts)
  have v: "steer_angle_velocity ?sc \<noteq> 0" by simp
  have a: "artic_enable artic_example" by (simp add: artic_example_def)
  have b: "dump_enable dump_example" by (simp add: dump_example_def)
  have r: "round (\<bar>7::real\<bar> / 2) = 4" by (simp add: round_def)
  note th = velocity_limit_encoding[where s = enabled_state and h = sample_hdr and sc = ?sc
      and arc = artic_example and dc = dump_example]
  note th' = velocity_limit_encoding[where s = "RaptorDbwCAN 470 90 45" and h = sample_hdr and sc = ?sc]
  from th e v have 1: "sent (recvSteeringCmd sample_hdr ?sc enabled_state) ''AKit_SteeringWhlAngleVelocityLim''
        = max 1 (min 254 (real_of_int (round (\<bar>steer_angle_velocity ?sc\<bar> / 2))))" by blast
  from th e a have 2: "sent (recvArticulationCmd sample_hdr artic_example enabled_state)
        ''AKit_ArticulationVelocityLimit'' = artic_velocity_limit artic_example" by blast
  from th e b have 3: "sent (recvDumpBedCmd sample_hdr dump_example enabled_state)
        ''AKit_DumpBedVelocityLimit'' = dump_velocity_limit dump_example" by blast
  from th' d have 4: "sent (recvSteeringCmd sample_hdr ?sc (RaptorDbwCAN 470 90 45))
        ''AKit_SteeringWhlAngleVelocityLim'' = 0" by blast
  have s1: "sent (recvSteeringCmd sample_hdr ?sc enabled_state) ''AKit_SteeringWhlAngleVelocityLim'' = 4"
    unfolding 1 using r by simp
  show ?thesis using e d v a b s1 2 3 4 by (simp add: artic_example_def dump_example_def)
qed

text \<open>
  The sentence without the amendment fails. With the system enabled, a steering command
  with angle velocity 0 is sent with the limit 0, where the transform gives 1; and an
  articulation or a dump bed command with the velocity limit 10 is sent with the limit
  10, where the transform gives 5.
\<close>

theorem velocity_limit_counterexample:
  "enabled enabled_state
   \<and> steer_angle_velocity steer_example = 0
   \<and> max 1 (min 254 (real_of_int (round (\<bar>steer_angle_velocity steer_example\<bar> / 2)))) = 1
   \<and> sent (recvSteeringCmd sample_hdr steer_example enabled_state) ''AKit_SteeringWhlAngleVelocityLim'' = 0
   \<and> artic_enable artic_example \<and> artic_velocity_limit artic_example = 10
   \<and> max 1 (min 254 (real_of_int (round (\<bar>artic_velocity_limit artic_example\<bar> / 2)))) = 5
   \<and> sent (recvArticulationCmd sample_hdr artic_example enabled_state) ''AKit_ArticulationVelocityLimit'' = 10
   \<and> dump_enable dump_example \<and> dump_velocity_limit dump_example = 10
   \<and> sent (recvDumpBedCmd sample_hdr dump_example enabled_state) ''AKit_DumpBedVelocityLimit'' = 10"
  by (simp add: steer_velocity_signal artic_velocity_signal dump_velocity_signal enabled_state_facts)
     (simp add: steer_example_def artic_example_def dump_example_def)

text \<open>
  C9, as amended. The three selector values being distinct, take three frames of full
  length that carry the selectors of phase 0, 1 and 2, and a state whose VIN buffer is
  empty. Fed in the order 0, 1, 2 they publish nothing at the first two frames and, at
  the third, exactly one string: the seven characters of the first frame, the seven of
  the second and the three of the third, 17 characters. Fed in the order 0, 2, without
  the frame of phase 1, they also publish exactly one string at the frame of phase 2:
  the seven characters of phase 0 followed by the three of phase 2, 10 characters, so
  no string of 17 characters.
\<close>

theorem vin_reassembly:
  assumes "VIN_MUX_VIN0 h \<noteq> VIN_MUX_VIN1 h" and "VIN_MUX_VIN0 h \<noteq> VIN_MUX_VIN2 h"
    and "VIN_MUX_VIN1 h \<noteq> VIN_MUX_VIN2 h"
    and "GetDlc h ID_VIN \<le> dlc f0" and "GetDlc h ID_VIN \<le> dlc f1" and "GetDlc h ID_VIN \<le> dlc f2"
    and "signal f0 ''DBW_VinMultiplexor'' = VIN_MUX_VIN0 h"
    and "signal f1 ''DBW_VinMultiplexor'' = VIN_MUX_VIN1 h"
    and "signal f2 ''DBW_VinMultiplexor'' = VIN_MUX_VIN2 h"
    and "vin s = []"
  shows "pub_vin (recvVinRpt h f0 s) = pub_vin s
       \<and> pub_vin (recvVinRpt h f1 (recvVinRpt h f0 s)) = pub_vin s
       \<and> pub_vin (recvVinRpt h f2 (recvVinRpt h f1 (recvVinRpt h f0 s))) =
           pub_vin s @
           [map (\<lambda>n. to_char (signal f0 n))
              [''DBW_VinDigit_01'', ''DBW_VinDigit_02'', ''DBW_VinDigit_03'', ''DBW_VinDigit_04'',
               ''DBW_VinDigit_05'', ''DBW_VinDigit_06'', ''DBW_VinDigit_07''] @
            map (\<lambda>n. to_char (signal f1 n))
              [''DBW_VinDigit_08'', ''DBW_VinDigit_09'', ''DBW_VinDigit_10'', ''DBW_VinDigit_11'',
               ''DBW_VinDigit_12'', ''DBW_VinDigit_13'', ''DBW_VinDigit_14''] @
            map (\<lambda>n. to_char (signal f2 n))
              [''DBW_VinDigit_15'', ''DBW_VinDigit_16'', ''DBW_VinDigit_17'']]
       \<and> length (last (pub_vin (recvVinRpt h f2 (recvVinRpt h f1 (recvVinRpt h f0 s))))) = 17
       \<and> pub_vin (recvVinRpt h f2 (recvVinRpt h f0 s)) =
           pub_vin s @
           [map (\<lambda>n. to_char (signal f0 n))
              [''DBW_VinDigit_01'', ''DBW_VinDigit_02'', ''DBW_VinDigit_03'', ''DBW_VinDigit_04'',
               ''DBW_VinDigit_05'', ''DBW_VinDigit_06'', ''DBW_VinDigit_07''] @
            map (\<lambda>n. to_char (signal f2 n))
              [''DBW_VinDigit_15'', ''DBW_VinDigit_16'', ''DBW_VinDigit_17'']]
       \<and> length (last (pub_vin (recvVinRpt h f2 (recvVinRpt h f0 s)))) = 10"
  using assms by (simp add: recvVinRpt_def Let_def)

theorem vin_reassembly_witness:
  "VIN_MUX_VIN0 sample_hdr \<noteq> VIN_MUX_VIN1 sample_hdr \<and> VIN_MUX_VIN0 sample_hdr \<noteq> VIN_MUX_VIN2 sample_hdr
   \<and> VIN_MUX_VIN1 sample_hdr \<noteq> VIN_MUX_VIN2 sample_hdr
   \<and> GetDlc sample_hdr ID_VIN \<le> dlc vin0 \<and> GetDlc sample_hdr ID_VIN \<le> dlc vin1
   \<and> GetDlc sample_hdr ID_VIN \<le> dlc vin2
   \<and> signal vin0 ''DBW_VinMultiplexor'' = VIN_MUX_VIN0 sample_hdr
   \<and> signal vin1 ''DBW_VinMultiplexor'' = VIN_MUX_VIN1 sample_hdr
   \<and> signal vin2 ''DBW_VinMultiplexor'' = VIN_MUX_VIN2 sample_hdr
   \<and> vin (RaptorDbwCAN 470 90 45) = []
   \<and> pub_vin (recvVinRpt sample_hdr vin1 (recvVinRpt sample_hdr vin0 (RaptorDbwCAN 470 90 45))) = []
   \<and> pub_vin (recvVinRpt sample_hdr vin2 (recvVinRpt sample_hdr vin1
        (recvVinRpt sample_hdr vin0 (RaptorDbwCAN 470 90 45)))) = [''123456789ABCDEFGH'']
   \<and> pub_vin (recvVinRpt sample_hdr vin2 (recvVinRpt sample_hdr vin0 (RaptorDbwCAN 470 90 45)))
        = [''1234567FGH'']"
proof -
  have a: "VIN_MUX_VIN0 sample_hdr \<noteq> VIN_MUX_VIN1 sample_hdr" "VIN_MUX_VIN0 sample_hdr \<noteq> VIN_MUX_VIN2 sample_hdr"
    "VIN_MUX_VIN1 sample_hdr \<noteq> VIN_MUX_VIN2 sample_hdr"
    by (simp_all add: sample_hdr_simps)
  have b: "GetDlc sample_hdr ID_VIN \<le> dlc vin0" "GetDlc sample_hdr ID_VIN \<le> dlc vin1"
    "GetDlc sample_hdr ID_VIN \<le> dlc vin2"
    by (simp_all add: sample_hdr_simps vin_frames)
  have c: "signal vin0 ''DBW_VinMultiplexor'' = VIN_MUX_VIN0 sample_hdr"
    "signal vin1 ''DBW_VinMultiplexor'' = VIN_MUX_VIN1 sample_hdr"
    "signal vin2 ''DBW_VinMultiplexor'' = VIN_MUX_VIN2 sample_hdr"
    by (simp_all add: sample_hdr_simps vin_frames)
  have d: "vin (RaptorDbwCAN 470 90 45) = []" by (simp add: RaptorDbwCAN_outputs)
  note th = vin_reassembly[OF a b c d]
  show ?thesis
    using a b c d th by (simp add: vin_digits RaptorDbwCAN_outputs)
qed

text \<open>
  The sentence without the amendment fails: after the constructor, the frame of phase 0
  followed by the frame of phase 2 publishes a string on the VIN topic.
\<close>

theorem vin_skipped_phase_counterexample:
  "pub_vin (RaptorDbwCAN 470 90 45) = []
   \<and> pub_vin (recvVinRpt sample_hdr vin2 (recvVinRpt sample_hdr vin0 (RaptorDbwCAN 470 90 45)))
       = [''1234567FGH'']
   \<and> pub_vin (recvVinRpt sample_hdr vin2 (recvVinRpt sample_hdr vin0 (RaptorDbwCAN 470 90 45))) \<noteq> []"
  by (simp add: recvVinRpt_def Let_def sample_hdr_simps vin_frames vin_digits RaptorDbwCAN_outputs)

text \<open>
  C7, as amended. Take an accelerator pedal report frame that is accepted, the fault
  identifiers being in range and distinct. The accelerator fault that \<^verbatim>\<open>setFault\<close>
  stores is the conjunction of the two channel fault signals, so one channel alone does
  not set it. The watchdog fault is the separate signal \<^verbatim>\<open>DBW_AccelPdlFault\<close>. The
  system stays enabled exactly when it was enabled and the frame shows neither both
  channel faults, nor the system fault, nor driver activity. One report is published:
  its fields \<^verbatim>\<open>fault_ch1\<close> and \<^verbatim>\<open>fault_ch2\<close> are the two channel signals, whose
  conjunction was routed to \<^verbatim>\<open>setFault\<close>, and its field
  \<^verbatim>\<open>fault_accel_pedal_system\<close> is the signal that was routed to the watchdog.
\<close>

theorem accel_report_fault_routing:
  assumes "GetDlc h ID_ACCEL_PEDAL_REPORT \<le> dlc msg"
    and "FAULT_ACCEL h < NUM_SERIOUS_FAULTS h" and "FAULT_WATCH h < NUM_SERIOUS_FAULTS h"
    and "FAULT_ACCEL h \<noteq> FAULT_WATCH h" and "FAULT_ACCEL h \<noteq> FAULT_WATCH_BRAKES h"
    and "FAULT_ACCEL h \<noteq> FAULT_WATCH_WARN h" and "FAULT_WATCH h \<noteq> FAULT_WATCH_BRAKES h"
    and "FAULT_WATCH h \<noteq> FAULT_WATCH_WARN h" and "OVR_ACCEL h < NUM_OVERRIDES h"
  shows "faults (recvAccelPedalRpt h msg s) (FAULT_ACCEL h) =
           (signal msg ''DBW_AccelPdlFault_Ch1'' \<noteq> 0 \<and> signal msg ''DBW_AccelPdlFault_Ch2'' \<noteq> 0)
       \<and> faults (recvAccelPedalRpt h msg s) (FAULT_WATCH h) = (signal msg ''DBW_AccelPdlFault'' \<noteq> 0)
       \<and> enabled (recvAccelPedalRpt h msg s) =
           (enabled s
            \<and> \<not> (signal msg ''DBW_AccelPdlFault_Ch1'' \<noteq> 0 \<and> signal msg ''DBW_AccelPdlFault_Ch2'' \<noteq> 0)
            \<and> signal msg ''DBW_AccelPdlFault'' = 0
            \<and> signal msg ''DBW_AccelPdlDriverActivity'' = 0)
       \<and> butlast (pub_reports (recvAccelPedalRpt h msg s)) = pub_reports s
       \<and> topic (last (pub_reports (recvAccelPedalRpt h msg s))) = ''accelerator_pedal_report''
       \<and> field (last (pub_reports (recvAccelPedalRpt h msg s))) ''fault_ch1''
           = Some (B (signal msg ''DBW_AccelPdlFault_Ch1'' \<noteq> 0))
       \<and> field (last (pub_reports (recvAccelPedalRpt h msg s))) ''fault_ch2''
           = Some (B (signal msg ''DBW_AccelPdlFault_Ch2'' \<noteq> 0))
       \<and> field (last (pub_reports (recvAccelPedalRpt h msg s))) ''fault_accel_pedal_system''
           = Some (B (signal msg ''DBW_AccelPdlFault'' \<noteq> 0))"
proof -
  let ?c1 = "signal msg ''DBW_AccelPdlFault_Ch1'' \<noteq> 0"
  let ?c2 = "signal msg ''DBW_AccelPdlFault_Ch2'' \<noteq> 0"
  let ?sys = "signal msg ''DBW_AccelPdlFault'' \<noteq> 0"
  let ?act = "signal msg ''DBW_AccelPdlDriverActivity'' \<noteq> 0"
  let ?s1 = "setFault h (FAULT_ACCEL h) (?c1 \<and> ?c2) s"
  let ?s2 = "faultWatchdog h ?sys (if ?sys then 1 else 0) ?s1"
  let ?s3 = "setOverride h (OVR_ACCEL h) ?act ?s2"
  note u = recvAccelPedalRpt_accepted[OF assms(1), of s]
  note r = accelPedalReprt_fields[of msg]
  have f1: "faults ?s1 = (faults s)(FAULT_ACCEL h := (?c1 \<and> ?c2))"
    using assms(2) by (simp add: faults_setFault)
  have f2a: "faults ?s2 (FAULT_ACCEL h) = (?c1 \<and> ?c2)"
    using assms(2-8) by (simp add: faults_faultWatchdog faults_setFault)
  have f2w: "faults ?s2 (FAULT_WATCH h) = ?sys"
    using assms(2-8) by (simp add: faults_faultWatchdog faults_setFault)
  have e1: "enabled ?s1 = (enabled s \<and> \<not> (?c1 \<and> ?c2))"
    using assms(2) by simp
  have e2: "enabled ?s2 = (enabled ?s1 \<and> \<not> ?sys)"
    using assms(3) by (simp add: enabled_faultWatchdog)
  have e3: "enabled ?s3 = (enabled ?s2 \<and> \<not> ?act)"
    using assms(9) by simp
  have f: "faults (recvAccelPedalRpt h msg s) = faults ?s2"
    unfolding u by simp
  have e: "enabled (recvAccelPedalRpt h msg s) = enabled ?s3"
    unfolding u by simp
  have p: "pub_reports (recvAccelPedalRpt h msg s) = pub_reports s @ [accelPedalReprt msg]"
    unfolding u by simp
  show ?thesis
    unfolding f e p using f2a f2w e1 e2 e3 r by simp
qed

theorem accel_report_fault_routing_witness:
  "GetDlc sample_hdr ID_ACCEL_PEDAL_REPORT \<le> dlc accel_report_frame
   \<and> FAULT_ACCEL sample_hdr < NUM_SERIOUS_FAULTS sample_hdr
   \<and> FAULT_WATCH sample_hdr < NUM_SERIOUS_FAULTS sample_hdr
   \<and> FAULT_ACCEL sample_hdr \<noteq> FAULT_WATCH sample_hdr
   \<and> FAULT_ACCEL sample_hdr \<noteq> FAULT_WATCH_BRAKES sample_hdr
   \<and> FAULT_ACCEL sample_hdr \<noteq> FAULT_WATCH_WARN sample_hdr
   \<and> FAULT_WATCH sample_hdr \<noteq> FAULT_WATCH_BRAKES sample_hdr
   \<and> FAULT_WATCH sample_hdr \<noteq> FAULT_WATCH_WARN sample_hdr
   \<and> OVR_ACCEL sample_hdr < NUM_OVERRIDES sample_hdr
   \<and> faults (recvAccelPedalRpt sample_hdr accel_report_frame enabled_state) (FAULT_ACCEL sample_hdr)
   \<and> \<not> faults (recvAccelPedalRpt sample_hdr accel_report_frame enabled_state) (FAULT_WATCH sample_hdr)
   \<and> field (last (pub_reports (recvAccelPedalRpt sample_hdr accel_report_frame enabled_state)))
        ''fault_ch1'' = Some (B True)
   \<and> field (last (pub_reports (recvAccelPedalRpt sample_hdr accel_report_frame enabled_state)))
        ''fault_ch2'' = Some (B True)"
  using accel_report_fault_routing[OF sample_hdr_wf, of enabled_state] sample_hdr_wf
  by (simp add: accel_report_frame_signals)

text \<open>
  The sentence without the amendment fails: a frame with both channel faults set and the
  system fault signal clear sets the accelerator fault and disables the system, and the
  report it publishes has the fault field \<^verbatim>\<open>fault_accel_pedal_system\<close> false.
\<close>

theorem accel_report_fault_field_counterexample:
  "enabled enabled_state
   \<and> faults (recvAccelPedalRpt sample_hdr accel_report_frame enabled_state) (FAULT_ACCEL sample_hdr)
   \<and> \<not> enabled (recvAccelPedalRpt sample_hdr accel_report_frame enabled_state)
   \<and> field (last (pub_reports (recvAccelPedalRpt sample_hdr accel_report_frame enabled_state)))
        ''fault_accel_pedal_system'' = Some (B False)"
proof -
  note u = recvAccelPedalRpt_accepted[OF sample_hdr_wf(1), of enabled_state]
  have r: "field (accelPedalReprt accel_report_frame) ''fault_accel_pedal_system'' = Some (B False)"
    by (simp add: accelPedalReprt_fields accel_report_frame_signals)
  have f: "faults (recvAccelPedalRpt sample_hdr accel_report_frame enabled_state) (FAULT_ACCEL sample_hdr)"
    unfolding u using sample_hdr_wf by (simp add: faults_faultWatchdog faults_setFault accel_report_frame_signals)
  have e: "\<not> enabled (recvAccelPedalRpt sample_hdr accel_report_frame enabled_state)"
    unfolding u using sample_hdr_wf by (simp add: enabled_faultWatchdog accel_report_frame_signals)
  have p: "last (pub_reports (recvAccelPedalRpt sample_hdr accel_report_frame enabled_state))
      = accelPedalReprt accel_report_frame"
    unfolding u by simp
  show ?thesis using f e r unfolding p by (simp add: enabled_state_facts)
qed

text \<open>
  C6. Every decoder but one drops a frame shorter than the length its message definition
  gives (\<open>decoder_drops_truncated\<close>). \<^verbatim>\<open>recvGearRpt\<close> compares the length with the
  constant 1 instead: with a gear report defined as eight bytes long, a frame of one byte
  that shows driver activity is decoded while the system is enabled. The gear override is
  set, the system is disabled and a gear report is published.
\<close>

theorem recvGearRpt_accepts_truncated_frame:
  "dlc gear_report_frame < GetDlc sample_hdr ID_GEAR_REPORT
   \<and> enabled enabled_state
   \<and> \<not> enabled (recvGearRpt sample_hdr gear_report_frame enabled_state)
   \<and> overrides (recvGearRpt sample_hdr gear_report_frame enabled_state) (OVR_GEAR sample_hdr)
   \<and> \<not> overrides enabled_state (OVR_GEAR sample_hdr)
   \<and> length (pub_reports (recvGearRpt sample_hdr gear_report_frame enabled_state))
       = length (pub_reports enabled_state) + 1
   \<and> topic (last (pub_reports (recvGearRpt sample_hdr gear_report_frame enabled_state))) = ''gear_report''
   \<and> recvGearRpt sample_hdr gear_report_frame enabled_state \<noteq> enabled_state"
proof -
  have 1: "dlc gear_report_frame < GetDlc sample_hdr ID_GEAR_REPORT"
    by (simp add: gear_report_frame_signals sample_hdr_simps)
  have 2: "\<not> enabled (recvGearRpt sample_hdr gear_report_frame enabled_state)"
    by (simp add: recvGearRpt_def Let_def gear_report_frame_signals bool_of_def sample_hdr_simps)
  have 3: "overrides (recvGearRpt sample_hdr gear_report_frame enabled_state) (OVR_GEAR sample_hdr)"
    by (simp add: recvGearRpt_def Let_def gear_report_frame_signals bool_of_def sample_hdr_simps
          overrides_setOverride publish_report_def)
  have 4: "pub_reports (recvGearRpt sample_hdr gear_report_frame enabled_state)
       = pub_reports enabled_state @ [last (pub_reports (recvGearRpt sample_hdr gear_report_frame enabled_state))]
       \<and> topic (last (pub_reports (recvGearRpt sample_hdr gear_report_frame enabled_state))) = ''gear_report''"
    by (simp add: recvGearRpt_def Let_def gear_report_frame_signals bool_of_def)
  from 4 have 5: "length (pub_reports (recvGearRpt sample_hdr gear_report_frame enabled_state))
       = length (pub_reports enabled_state) + 1"
    by (metis length_append_singleton Suc_eq_plus1)
  have 6: "recvGearRpt sample_hdr gear_report_frame enabled_state \<noteq> enabled_state"
    using 2 by (auto simp: enabled_state_facts)
  show ?thesis using 1 2 3 4 5 6 by (simp add: enabled_state_facts)
qed

text \<open>
  C5. The timer acts only while the system is not enabled (\<open>timerCallback_enabled\<close>),
  sends nothing when no subsystem is overridden (\<open>timerCallback_no_override\<close>), and for
  the dump bed and the engine it zeroes the same signals as the encoder
  (\<open>timer_frame_dump_bed_neutral\<close>). For the brake it zeroes two of the seven signals the
  encoder zeroes: after a closed-loop brake command for 50 percent torque was encoded
  while the system was enabled, and the driver then touched the brake, the frame the
  timer sends still has the torque request 50 and the request type 1, where the frame of
  the encoder on its disabled path has 0 for both. For the gear the timer sends a frame
  of the message \<^verbatim>\<open>AKit_GearRequest\<close>, the encoder one of \<^verbatim>\<open>AKit_PrndRequest\<close>.
\<close>

theorem timerCallback_brake_frame_not_neutral:
  "\<not> enabled brake_overridden_state
   \<and> overrides brake_overridden_state (OVR_BRAKE sample_hdr)
   \<and> length (pub_can (timerCallback sample_hdr brake_overridden_state))
        = length (pub_can brake_overridden_state) + 1
   \<and> tx_message (last_frame (timerCallback sample_hdr brake_overridden_state)) = ''AKit_BrakeRequest''
   \<and> sent (timerCallback sample_hdr brake_overridden_state) ''AKit_BrakePcntTorqueReq'' = 50
   \<and> sent (timerCallback sample_hdr brake_overridden_state) ''AKit_BrakeCtrlReqType'' = 1
   \<and> sent (recvBrakeCmd sample_hdr brake_torque_cmd_example brake_overridden_state)
        ''AKit_BrakePcntTorqueReq'' = 0
   \<and> sent (recvBrakeCmd sample_hdr brake_torque_cmd_example brake_overridden_state)
        ''AKit_BrakeCtrlReqType'' = 0
   \<and> last_frame (timerCallback sample_hdr brake_overridden_state)
        \<noteq> last_frame (recvBrakeCmd sample_hdr brake_torque_cmd_example brake_overridden_state)
   \<and> tx_message (last_frame (timerCallback sample_hdr
          (setOverride sample_hdr (OVR_GEAR sample_hdr) True (RaptorDbwCAN 470 90 45))))
        = ''AKit_GearRequest''
   \<and> tx_message (last_frame (recvGearCmd \<lparr>gear_enable = False, gear_cmd = 0, gear_rolling_counter = 0\<rparr>
          (setOverride sample_hdr (OVR_GEAR sample_hdr) True (RaptorDbwCAN 470 90 45))))
        = ''AKit_PrndRequest''"
proof -
  have t: "timerCallback sample_hdr brake_overridden_state =
      publish_frame ''AKit_BrakeRequest''
        (set_signals ''AKit_BrakeRequest'' (zeros [''AKit_BrakePedalReq'', ''AKit_BrakeCtrlEnblReq''])
           brake_overridden_state)"
    by (simp add: timerCallback_def clear_def Let_def timer_frame_def brake_overridden_state_facts
          sample_hdr_simps)
  have 1: "sent (timerCallback sample_hdr brake_overridden_state) ''AKit_BrakePcntTorqueReq'' = 50"
    "sent (timerCallback sample_hdr brake_overridden_state) ''AKit_BrakeCtrlReqType'' = 1"
    unfolding t by (simp_all add: zeros_def dbwDbc_SetResult brake_overridden_state_facts)
  have 2: "sent (recvBrakeCmd sample_hdr brake_torque_cmd_example brake_overridden_state)
        ''AKit_BrakePcntTorqueReq'' = 0"
    "sent (recvBrakeCmd sample_hdr brake_torque_cmd_example brake_overridden_state)
        ''AKit_BrakeCtrlReqType'' = 0"
    by (simp_all add: recvBrakeCmd_def brake_overridden_state_facts zeros_def brake_zeroed_def
          dbwDbc_SetResult)
  have 3: "last_frame (timerCallback sample_hdr brake_overridden_state)
        \<noteq> last_frame (recvBrakeCmd sample_hdr brake_torque_cmd_example brake_overridden_state)"
    using 1(1) 2(1) by (auto simp: sent_def)
  have 4: "length (pub_can (timerCallback sample_hdr brake_overridden_state))
        = length (pub_can brake_overridden_state) + 1"
    "tx_message (last_frame (timerCallback sample_hdr brake_overridden_state)) = ''AKit_BrakeRequest''"
    unfolding t by simp_all
  have 5: "tx_message (last_frame (timerCallback sample_hdr
          (setOverride sample_hdr (OVR_GEAR sample_hdr) True (RaptorDbwCAN 470 90 45))))
        = ''AKit_GearRequest''"
    by (simp add: timerCallback_def clear_def Let_def timer_frame_def overrides_setOverride
          RaptorDbwCAN_facts sample_hdr_simps)
  have 6: "tx_message (last_frame (recvGearCmd \<lparr>gear_enable = False, gear_cmd = 0, gear_rolling_counter = 0\<rparr>
          (setOverride sample_hdr (OVR_GEAR sample_hdr) True (RaptorDbwCAN 470 90 45))))
        = ''AKit_PrndRequest''"
    by (simp add: recvGearCmd_def)
  show ?thesis using 1 2 3 4 5 6 by (simp add: brake_overridden_state_facts)
qed

text \<open>
  C10. A wheel speed report always stores the four wheel velocities, advances the four
  wheel positions by velocity times \<open>dt\<close> modulo \<open>2 * pi\<close> when \<open>dt\<close> is below 0.5 and
  leaves them unchanged otherwise, and publishes the record in both cases
  (\<open>wheel_speed_report_integration\<close>). But \<open>dt\<close> is the new time minus the whole seconds
  of the stored stamp, which is the elapsed time only when the stored stamp has no
  nanoseconds (\<open>joint_dt_elapsed\<close>). After a report stamped 10.9 s, a report stamped
  11.0 s with every wheel at 1 rad/s arrives 0.1 s later: \<open>dt\<close> is 1, the gate is closed
  and the position of the front left wheel stays 0, where an elapsed time of 0.1 s below
  the gate should advance it to 0.1.
\<close>

theorem wheel_speed_dt_drops_nanoseconds:
  "stamp (joint_state (recvWheelSpeedRpt sample_hdr (wheel_speed_frame time_10_9) (RaptorDbwCAN 470 90 45)))
     = time_10_9
   \<and> position (joint_state (recvWheelSpeedRpt sample_hdr (wheel_speed_frame time_10_9)
         (RaptorDbwCAN 470 90 45))) JOINT_FL = 0
   \<and> seconds time_11_0 - seconds time_10_9 = 1 / 10
   \<and> joint_dt time_11_0 (joint_state (recvWheelSpeedRpt sample_hdr (wheel_speed_frame time_10_9)
         (RaptorDbwCAN 470 90 45))) = 1
   \<and> velocity (joint_state (recvWheelSpeedRpt sample_hdr (wheel_speed_frame time_11_0)
         (recvWheelSpeedRpt sample_hdr (wheel_speed_frame time_10_9) (RaptorDbwCAN 470 90 45)))) JOINT_FL = 1
   \<and> position (joint_state (recvWheelSpeedRpt sample_hdr (wheel_speed_frame time_11_0)
         (recvWheelSpeedRpt sample_hdr (wheel_speed_frame time_10_9) (RaptorDbwCAN 470 90 45)))) JOINT_FL = 0"
proof -
  let ?s0 = "RaptorDbwCAN 470 90 45"
  let ?s1 = "recvWheelSpeedRpt sample_hdr (wheel_speed_frame time_10_9) ?s0"
  have fr: "dlc (wheel_speed_frame t) = 8" "header_stamp (wheel_speed_frame t) = t"
    "signal (wheel_speed_frame t) ''DBW_WhlSpd_FL'' = 1" for t
    by (simp_all add: wheel_speed_frame_def sample_frame_def)
  have ok: "GetDlc sample_hdr ID_REPORT_WHEEL_SPEED \<le> dlc (wheel_speed_frame t)" for t
    by (simp add: fr sample_hdr_simps)
  have js0: "joint_state ?s0 = \<lparr>stamp = \<lparr>sec = 0, nanosec = 0\<rparr>, name = joint_names,
                      position = (\<lambda>i. 0), velocity = (\<lambda>i. 0), effort = (\<lambda>i. 0)\<rparr>"
    by (simp add: RaptorDbwCAN_def publishDbwEnabled_snd members_def)
  have dt0: "\<not> joint_dt time_10_9 (joint_state ?s0) < 0.5"
    by (simp add: js0 joint_dt_def seconds_samples)
  have st1: "stamp (joint_state ?s1) = time_10_9"
    using wheel_speed_report_integration(8)[OF ok, of time_10_9 ?s0] by (simp add: fr)
  have p1: "position (joint_state ?s1) = (\<lambda>i. 0)"
    using wheel_speed_report_integration(6)[OF ok, of time_10_9 ?s0] dt0 by (simp add: fr js0)
  have dt1: "joint_dt time_11_0 (joint_state ?s1) = 1"
    by (simp add: joint_dt_def st1 seconds_samples) (simp add: time_10_9_def)
  then have n1: "\<not> joint_dt (header_stamp (wheel_speed_frame time_11_0)) (joint_state ?s1) < 0.5"
    by (simp add: fr)
  have p2: "position (joint_state (recvWheelSpeedRpt sample_hdr (wheel_speed_frame time_11_0) ?s1)) JOINT_FL = 0"
    using wheel_speed_report_integration(6)[OF ok n1] by (simp add: p1)
  have v2: "velocity (joint_state (recvWheelSpeedRpt sample_hdr (wheel_speed_frame time_11_0) ?s1)) JOINT_FL = 1"
    using wheel_speed_report_integration(1)[OF ok, of time_11_0 ?s1] by (simp add: fr)
  show ?thesis using st1 p1 dt1 p2 v2 by (simp add: seconds_samples)
qed

end
